(* ===== verification/Prelude.thy ===== *)
theory Prelude
  imports Main "HOL-Library.Word" "HOL-Library.Sublist"
begin

text \<open>
  Shared vocabulary of the development. JavaScript strings are sequences of UTF-16
  code units, so a string of the program is a list of 16-bit words
  (\<open>jstring\<close>); ASCII literals of the source are lifted with \<open>ascii\<close>, and
  the Chinese literals of the source are written out as their code units. The
  collections \<open>js_simps\<close> (facts about the JavaScript runtime) and
  \<open>model_simps\<close> (facts about the components) carry the component proofs.
\<close>

named_theorems js_simps "facts about the modelled JavaScript string runtime"
named_theorems model_simps "evaluation facts about the modelled components"

type_synonym code_unit = "16 word"
type_synonym jstring = "code_unit list"

text \<open>The exception a render can throw: \<open>TypeError\<close> from calling a method
  (\<open>.map\<close>, \<open>.split\<close>) on a value that is not an array or not a string.\<close>

datatype render_error = TypeError

definition ascii :: "string \<Rightarrow> jstring" where
  "ascii s = map (\<lambda>c. of_nat (of_char c)) s"

text \<open>The line feed \<open>'\n'\<close> on which the formatter splits.\<close>

definition nl :: code_unit where
  "nl = 0x0A"

lemma ascii_Nil [simp]: "ascii [] = []"
  by (simp add: ascii_def)

lemma ascii_Cons: "ascii (c # s) = of_nat (of_char c) # ascii s"
  by (simp add: ascii_def)

lemma ascii_append [simp]: "ascii (s @ t) = ascii s @ ascii t"
  by (simp add: ascii_def)

lemma length_ascii [simp]: "length (ascii s) = length s"
  by (simp add: ascii_def)

text \<open>The code unit of one character; literals are evaluated character by character
  with \<open>ascii_Cons_cu\<close>, comparing characters instead of words.\<close>

definition cu :: "char \<Rightarrow> code_unit" where
  "cu c = of_nat (of_char c)"

lemma cu_inj [simp]: "cu c = cu d \<longleftrightarrow> c = d"
proof
  assume "cu c = cu d"
  then have "unat (cu c) = unat (cu d)" by simp
  moreover have "of_char c < (2::nat) ^ 16" "of_char d < (2::nat) ^ 16"
    by (rule less_trans [OF nat_of_char_less_256]; simp)+
  ultimately have "of_char c = (of_char d :: nat)"
    by (simp add: cu_def unat_of_nat take_bit_nat_eq_self)
  then show "c = d" by simp
qed simp

lemma ascii_Cons_cu: "ascii (c # s) = cu c # ascii s"
  by (simp add: ascii_def cu_def)

lemma nl_not_ascii_printable [simp]:
  "(0x0A :: code_unit) \<noteq> 0x20" "(0x0A :: code_unit) \<noteq> 0x23" "(0x0A :: code_unit) \<noteq> 0x2A"
  "(0x0A :: code_unit) \<noteq> 0x2D"
  by simp_all

subsection \<open>Generic list facts\<close>

lemma take_length_append_eq [simp]: "take (length p) (p @ s) = p"
  by simp

lemma sublist_Cons_rightI [intro]: "sublist xs ys \<Longrightarrow> sublist xs (y # ys)"
  by (simp add: sublist_Cons_right)

lemma sublist_append_rightI2 [intro]: "sublist xs zs \<Longrightarrow> sublist xs (ys @ zs)"
  by (metis sublist_append_leftI sublist_order.order_trans)

lemma sublist_append_leftI2 [intro]: "sublist xs ys \<Longrightarrow> sublist xs (ys @ zs)"
  by (metis sublist_append_rightI sublist_order.order_trans)

lemma append_last_neq [simp]:
  "ys \<noteq> [] \<Longrightarrow> last ys \<noteq> last zs \<Longrightarrow> (xs @ ys = zs) = False"
  by (metis last_appendR)

lemma dropWhile_all_iff: "(dropWhile P xs = []) = (\<forall>x \<in> set xs. P x)"
  by (rule dropWhile_eq_Nil_conv)

lemma butlast_snoc_last [simp]: "xs \<noteq> [] \<Longrightarrow> last xs = x \<Longrightarrow> butlast xs @ [x] = xs"
  by (metis append_butlast_last_id)

lemma dropWhile_hd_not:
  "dropWhile P xs = y # ys \<Longrightarrow> \<not> P y"
  by (induction xs) (auto split: if_splits)

text \<open>A subsequence of a list without duplicates has none; subsequences are kept by
  concatenating them pointwise.\<close>

lemma subseq_distinct: "subseq xs ys \<Longrightarrow> distinct ys \<Longrightarrow> distinct xs"
  by (induction rule: list_emb.induct) (auto dest: list_emb_set)

lemma subseq_concat_map:
  "(\<And>x. x \<in> set xs \<Longrightarrow> subseq (f x) (g x)) \<Longrightarrow> subseq (concat (map f xs)) (concat (map g xs))"
  by (induction xs) (auto intro: list_emb_append_mono)

end
