(* ===== verification/JsString.thy ===== *)
theory JsString
  imports Prelude
begin

text \<open>
  The ECMAScript string operations the components call, on UTF-16 code units:
  \<open>startsWith\<close>, \<open>endsWith\<close>, \<open>substring\<close> (with its clamping and its
  swap of reversed bounds), \<open>trim\<close> (with the standard's WhiteSpace and
  LineTerminator code units), \<open>split\<close> on one code unit and \<open>join\<close>.
  These model the language runtime, not the repository, and are the shared
  library of the formatter, the placeholder generator and the header.
\<close>

definition starts_with :: "jstring \<Rightarrow> jstring \<Rightarrow> bool" where
  "starts_with s p \<longleftrightarrow> take (length p) s = p"

definition ends_with :: "jstring \<Rightarrow> jstring \<Rightarrow> bool" where
  "ends_with s p \<longleftrightarrow> length p \<le> length s \<and> drop (length s - length p) s = p"

text \<open>
  \<open>s.substring(a, b)\<close>: both bounds are clamped to \<open>[0, length s]\<close>, and the
  smaller one is the start even when it is given second.
\<close>

definition js_substring :: "jstring \<Rightarrow> int \<Rightarrow> int \<Rightarrow> jstring" where
  "js_substring s a b =
     (let len = int (length s);
          i = min (max a 0) len;
          j = min (max b 0) len
      in take (nat (max i j - min i j)) (drop (nat (min i j)) s))"

definition js_substring_from :: "jstring \<Rightarrow> int \<Rightarrow> jstring" where
  "js_substring_from s a = js_substring s a (int (length s))"

text \<open>WhiteSpace and LineTerminator code units of ECMAScript, which \<open>trim\<close> removes.\<close>

definition js_whitespace :: "code_unit \<Rightarrow> bool" where
  "js_whitespace c \<longleftrightarrow> c \<in> set [0x09, 0x0A, 0x0B, 0x0C, 0x0D, 0x20, 0xA0, 0x1680,
     0x2000, 0x2001, 0x2002, 0x2003, 0x2004, 0x2005, 0x2006, 0x2007, 0x2008, 0x2009,
     0x200A, 0x2028, 0x2029, 0x202F, 0x205F, 0x3000, 0xFEFF]"

definition js_trim :: "jstring \<Rightarrow> jstring" where
  "js_trim s = rev (dropWhile js_whitespace (rev (dropWhile js_whitespace s)))"

text \<open>\<open>s.split(d)\<close> for a one-unit separator: the empty string splits into \<open>['']\<close>.\<close>

fun split_on :: "code_unit \<Rightarrow> jstring \<Rightarrow> jstring list" where
  "split_on d [] = [[]]"
| "split_on d (c # cs) =
     (let r = split_on d cs in if c = d then [] # r else (c # hd r) # tl r)"

text \<open>\<open>xs.join(d)\<close> for a one-unit separator.\<close>

fun join_with :: "code_unit \<Rightarrow> jstring list \<Rightarrow> jstring" where
  "join_with d [] = []"
| "join_with d [w] = w"
| "join_with d (w # v # ws) = w @ d # join_with d (v # ws)"

subsection \<open>Prefix and suffix tests\<close>

lemma starts_with_append [js_simps]: "starts_with (p @ s) p"
  by (simp add: starts_with_def)

lemma starts_with_Cons_Cons [js_simps]:
  "starts_with (c # s) (d # p) \<longleftrightarrow> c = d \<and> starts_with s p"
  by (simp add: starts_with_def)

lemma starts_with_Nil_Cons [js_simps]: "\<not> starts_with [] (d # p)"
  by (simp add: starts_with_def)

lemma starts_with_Nil [js_simps]: "starts_with s []"
  by (simp add: starts_with_def)

lemma starts_with_iff: "starts_with s p \<longleftrightarrow> (\<exists>t. s = p @ t)"
  unfolding starts_with_def by (metis append_take_drop_id take_length_append_eq)

lemma ends_with_iff: "ends_with s p \<longleftrightarrow> (\<exists>t. s = t @ p)"
proof
  assume "ends_with s p"
  then have "s = take (length s - length p) s @ p"
    by (metis append_take_drop_id ends_with_def)
  then show "\<exists>t. s = t @ p" ..
next
  assume "\<exists>t. s = t @ p"
  then show "ends_with s p" by (auto simp: ends_with_def)
qed

lemma ends_with_single [js_simps]: "ends_with s [c] \<longleftrightarrow> s \<noteq> [] \<and> last s = c"
  by (cases s rule: rev_cases) (auto simp: ends_with_iff)

lemma ends_with_append [js_simps]: "ends_with (s @ p) p"
  by (auto simp: ends_with_iff)

subsection \<open>Substrings\<close>

lemma js_substring_from_append [js_simps]:
  "n = int (length p) \<Longrightarrow> js_substring_from (p @ s) n = s"
  by (simp add: js_substring_from_def js_substring_def)

lemma starts_with_substring_from [js_simps]:
  "starts_with s p \<Longrightarrow> n = int (length p) \<Longrightarrow> p @ js_substring_from s n = s"
  by (auto simp: starts_with_iff js_substring_from_append)

lemma js_substring_from_drop [js_simps]: "js_substring_from s n = drop (nat n) s"
  by (auto simp: js_substring_from_def js_substring_def Let_def min_def max_def nat_diff_distrib)

lemma starts_with_drop_id: "starts_with l p \<Longrightarrow> n = length p \<Longrightarrow> p @ drop n l = l"
  by (auto simp: starts_with_iff)

lemma starts_with_set: "starts_with s p \<Longrightarrow> set p \<subseteq> set s"
  by (auto simp: starts_with_iff)

lemma js_substring_inner [js_simps]:
  "js_substring (a # s @ [b]) 1 (1 + int (length s)) = s"
  by (simp add: js_substring_def)

text \<open>
  The bounds are swapped when the end is smaller than the start: on a string of one
  unit, \<open>substring(1, 0)\<close> is the whole string.
\<close>

lemma js_substring_strip [js_simps]:
  "t \<noteq> [] \<Longrightarrow> js_substring (c # t) 1 (int (length t)) = butlast t"
  by (cases t) (auto simp: js_substring_def butlast_conv_take min_def max_def Let_def)

lemma js_substring_single [js_simps]: "js_substring [c] 1 0 = [c]"
  by (simp add: js_substring_def)

subsection \<open>Trimming\<close>

lemma js_trim_Nil_iff [js_simps]: "js_trim s = [] \<longleftrightarrow> (\<forall>c \<in> set s. js_whitespace c)"
proof -
  have "js_trim s = [] \<longleftrightarrow> (\<forall>c \<in> set (dropWhile js_whitespace s). js_whitespace c)"
    by (simp add: js_trim_def)
  also have "\<dots> \<longleftrightarrow> dropWhile js_whitespace s = []"
    by (cases "dropWhile js_whitespace s") (auto dest: dropWhile_hd_not set_dropWhileD)
  also have "\<dots> \<longleftrightarrow> (\<forall>c \<in> set s. js_whitespace c)"
    by (rule dropWhile_all_iff)
  finally show ?thesis .
qed

lemma js_whitespace_ascii [js_simps]:
  "\<not> js_whitespace 0x23" "\<not> js_whitespace 0x2A" "\<not> js_whitespace 0x2D"
  "js_whitespace 0x20" "js_whitespace 0x0A" "js_whitespace 0x0D"
  by (simp_all add: js_whitespace_def)

subsection \<open>Split and join\<close>

lemma split_on_not_Nil [simp]: "split_on d s \<noteq> []"
  by (induction s) (auto simp: Let_def)

text \<open>An equation for \<open>split_on\<close> that evaluates the recursive call once.\<close>

lemma split_on_Cons_eval:
  "split_on d (c # cs) =
     (if c = d then [] # split_on d cs
      else (case split_on d cs of [] \<Rightarrow> [[c]] | r # rs \<Rightarrow> (c # r) # rs))"
  by (cases "split_on d cs") (auto simp: Let_def)

lemma split_on_no_delim [js_simps]: "d \<notin> set w \<Longrightarrow> split_on d w = [w]"
  by (induction w) (auto simp: Let_def)

lemma split_on_delim_append [js_simps]:
  "d \<notin> set w \<Longrightarrow> split_on d (w @ d # s) = w # split_on d s"
  by (induction w) (auto simp: Let_def)

lemma length_split_on [js_simps]: "length (split_on d s) = Suc (count_list s d)"
proof (induction s)
  case Nil
  then show ?case by simp
next
  case (Cons c cs)
  then show ?case
    by (cases "split_on d cs") (auto simp: Let_def)
qed

lemma split_on_pieces_no_delim: "w \<in> set (split_on d s) \<Longrightarrow> d \<notin> set w"
proof (induction s arbitrary: w)
  case Nil
  then show ?case by simp
next
  case (Cons c cs)
  obtain v vs where r: "split_on d cs = v # vs"
    by (cases "split_on d cs") auto
  from Cons.prems r Cons.IH show ?case
    by (auto simp: Let_def split: if_splits)
qed

lemma join_with_Cons [js_simps]: "ws \<noteq> [] \<Longrightarrow> join_with d (w # ws) = w @ d # join_with d ws"
  by (cases ws) simp_all

lemma join_with_infix: "w \<in> set ws \<Longrightarrow> \<exists>u v. join_with d ws = u @ w @ v"
proof (induction d ws rule: join_with.induct)
  case (3 d w' v ws)
  show ?case
  proof (cases "w = w'")
    case True
    then show ?thesis by (metis append_Nil join_with.simps(3))
  next
    case False
    with "3.prems" "3.IH" obtain u x where "join_with d (v # ws) = u @ w @ x" by auto
    then show ?thesis by (rule_tac x = "w' @ d # u" in exI) auto
  qed
qed (auto, metis append_Nil append_Nil2)

lemma join_with_sublist: "w \<in> set ws \<Longrightarrow> sublist w (join_with d ws)"
  using join_with_infix [of w ws d] by (auto simp: sublist_def)

text \<open>Joining a line that is itself a join: the inner lines become lines of the outer
  text, except that joining no lines leaves one empty line.\<close>

lemma join_with_nested:
  "join_with d (xs @ join_with d ys # zs) = join_with d (xs @ (if ys = [] then [[]] else ys) @ zs)"
proof (induction xs)
  case Nil
  show ?case
  proof (cases "ys = [] \<or> zs = []")
    case True
    then show ?thesis by auto
  next
    case False
    then show ?thesis
      by (induction ys rule: join_with.induct) (auto simp: join_with_Cons)
  qed
next
  case (Cons x xs)
  then show ?case
    by (cases "xs @ join_with d ys # zs", simp) (auto simp: join_with_Cons)
qed

lemma split_join [js_simps]:
  "\<forall>w \<in> set ws. d \<notin> set w \<Longrightarrow> ws \<noteq> [] \<Longrightarrow> split_on d (join_with d ws) = ws"
proof (induction d ws rule: join_with.induct)
  case (3 d w v ws)
  then show ?case by (simp add: split_on_delim_append)
qed (simp_all add: split_on_no_delim)

lemma join_split [js_simps]: "join_with d (split_on d s) = s"
proof (induction s)
  case Nil
  then show ?case by simp
next
  case (Cons c cs)
  obtain v vs where r: "split_on d cs = v # vs"
    by (cases "split_on d cs") auto
  from Cons.IH r show ?case
    by (cases vs) (auto simp: Let_def)
qed

end
