(* ===== verification/Knowledge.thy ===== *)
theory Knowledge
  imports JsString
begin

text \<open>
  The \<open>KnowledgeNode\<close> interface that \<open>Layout.tsx\<close>, \<open>Sidebar.tsx\<close> and
  \<open>ContentArea.tsx\<close> each declare: a rose tree whose \<open>children\<close> field may be
  absent (\<open>None\<close>) or a possibly empty array (\<open>Some\<close>), with an optional
  difficulty level. Also the two tests every component repeats
  (\<open>hasChildren\<close>, \<open>isLeaf\<close>) and the preorder enumeration of a forest used to
  state which nodes belong to the loaded tree.
\<close>

datatype level = Beginner | Intermediate | Advanced

datatype node_type = Category | Section | Subsection | Content

datatype knowledge_node =
  KNode (node_id: jstring) (title: jstring) (ntype: node_type) (nlevel: "level option")
        (children: "knowledge_node list option")

text \<open>\<open>node.children && node.children.length > 0\<close>, read as a boolean.\<close>

definition has_children :: "knowledge_node \<Rightarrow> bool" where
  "has_children n = (case children n of None \<Rightarrow> False | Some cs \<Rightarrow> cs \<noteq> [])"

definition is_leaf :: "knowledge_node \<Rightarrow> bool" where
  "is_leaf n \<longleftrightarrow> \<not> has_children n"

definition child_list :: "knowledge_node \<Rightarrow> knowledge_node list" where
  "child_list n = (case children n of None \<Rightarrow> [] | Some cs \<Rightarrow> cs)"

lemma child_list_size:
  assumes c: "c \<in> set (child_list n)"
  shows "size c < size n"
proof (cases n)
  case (KNode i t ty lv ch)
  show ?thesis
  proof (cases ch)
    case None
    with KNode c show ?thesis by (simp add: child_list_def)
  next
    case (Some cs)
    with KNode c have "c \<in> set cs" by (simp add: child_list_def)
    then have "size c \<le> size_list size cs" by (rule size_list_estimation') simp
    with KNode Some show ?thesis by simp
  qed
qed

lemma has_children_child_list [model_simps]: "has_children n \<longleftrightarrow> child_list n \<noteq> []"
  by (simp add: has_children_def child_list_def split: option.splits)

lemma is_leaf_child_list [model_simps]: "is_leaf n \<longleftrightarrow> child_list n = []"
  by (simp add: is_leaf_def has_children_child_list)

lemma has_children_KNode [model_simps]:
  "has_children (KNode i t ty lv None) = False"
  "has_children (KNode i t ty lv (Some cs)) = (cs \<noteq> [])"
  by (simp_all add: has_children_def)

lemma child_list_KNode [model_simps]:
  "child_list (KNode i t ty lv None) = []"
  "child_list (KNode i t ty lv (Some cs)) = cs"
  by (simp_all add: child_list_def)

subsection \<open>A sample tree\<close>

text \<open>The spec's example leaf \<open>{id: "x", title: "Bowling", type: "content",
  level: "beginner"}\<close> under one category; the witnesses evaluate the components on it.\<close>

definition bowling_leaf :: knowledge_node where
  "bowling_leaf = KNode (ascii ''x'') (ascii ''Bowling'') Content (Some Beginner) None"

definition skills_root :: knowledge_node where
  "skills_root = KNode (ascii ''skills'') (ascii ''Skills'') Category None (Some [bowling_leaf])"

definition batting_leaf :: knowledge_node where
  "batting_leaf = KNode (ascii ''y'') (ascii ''Batting'') Content (Some Intermediate) None"

definition skills_two :: knowledge_node where
  "skills_two = KNode (ascii ''skills'') (ascii ''Skills'') Category None (Some [bowling_leaf, batting_leaf])"

subsection \<open>Nodes of a tree\<close>

text \<open>All nodes of a tree in preorder, the order in which the sidebar would list them
  with every node expanded.\<close>

function tree_nodes :: "knowledge_node \<Rightarrow> knowledge_node list" where
  "tree_nodes n = n # concat (map tree_nodes (child_list n))"
  by pat_completeness auto
termination
  by (relation "measure size") (auto dest: child_list_size)

declare tree_nodes.simps [simp del]

definition forest_nodes :: "knowledge_node list \<Rightarrow> knowledge_node list" where
  "forest_nodes ns = concat (map tree_nodes ns)"

lemma tree_nodes_self [model_simps]: "n \<in> set (tree_nodes n)"
  by (subst tree_nodes.simps) simp

lemma tree_nodes_child:
  "c \<in> set (child_list n) \<Longrightarrow> set (tree_nodes c) \<subseteq> set (tree_nodes n)"
  by (subst (2) tree_nodes.simps) auto

lemma forest_nodes_Nil [simp]: "forest_nodes [] = []"
  by (simp add: forest_nodes_def)

lemma forest_nodes_roots: "set ns \<subseteq> set (forest_nodes ns)"
  by (auto simp: forest_nodes_def intro: tree_nodes_self)

text \<open>The spec's convention that ids are unique across the whole tree; the code never
  checks it.\<close>

lemma tree_nodes_sample [model_simps]:
  "tree_nodes bowling_leaf = [bowling_leaf]"
  "tree_nodes skills_root = [skills_root, bowling_leaf]"
  by (simp_all add: tree_nodes.simps bowling_leaf_def skills_root_def child_list_def)

definition unique_ids :: "knowledge_node list \<Rightarrow> bool" where
  "unique_ids ns \<longleftrightarrow> distinct (map node_id (forest_nodes ns))"

end
