(* ===== verification/Sidebar.thy ===== *)
theory Sidebar
  imports Knowledge
begin

text \<open>
  The sidebar of \<open>src/src/components/Sidebar.tsx\<close>: the knowledge tree store (the
  loaded tree, the set of expanded ids, the loading flag) and the tree renderer. The
  state is the record \<open>sidebar_state\<close>; \<open>load_knowledge_tree\<close> is the mount
  effect with its three outcomes, \<open>toggle_expanded\<close> the set update,
  \<open>render_node\<close> the recursive \<open>renderNode\<close>, flattened to the list of rows
  in document order, and \<open>run_actions\<close> what the \<open>onClick\<close> of a row does.
\<close>

subsection \<open>State and loading\<close>

record sidebar_state =
  knowledge_tree :: "knowledge_node list option"
  expanded_nodes :: "jstring set"
  sidebar_loading :: bool

definition sidebar_init :: sidebar_state where
  "sidebar_init = \<lparr>knowledge_tree = Some [], expanded_nodes = {}, sidebar_loading = True\<rparr>"

text \<open>
  What \<open>fetch('/data/knowledge-tree.json')\<close> followed by \<open>response.json()\<close>
  delivers: a failure (network error, or a body that is not JSON, as for a 404 page), or
  a document whose \<open>categories\<close> field is an array of nodes (\<open>Some\<close>) or is not
  an array (\<open>None\<close>: missing or of another type).
\<close>

datatype tree_fetch = TreeFetchFailed | TreeDocument "knowledge_node list option"

text \<open>
  \<open>loadKnowledgeTree\<close>: on a document, \<open>setKnowledgeTree(data.categories)\<close> runs
  first; when \<open>categories\<close> is not an array the following \<open>.map\<close> throws, the
  \<open>catch\<close> only logs, and the tree stays set to the non-array value. The
  \<open>finally\<close> clears the loading flag in every case.
\<close>

fun load_knowledge_tree :: "tree_fetch \<Rightarrow> sidebar_state \<Rightarrow> sidebar_state" where
  "load_knowledge_tree TreeFetchFailed s = s\<lparr>sidebar_loading := False\<rparr>"
| "load_knowledge_tree (TreeDocument None) s =
     s\<lparr>knowledge_tree := None, sidebar_loading := False\<rparr>"
| "load_knowledge_tree (TreeDocument (Some cats)) s =
     s\<lparr>knowledge_tree := Some cats, expanded_nodes := set (map node_id cats),
       sidebar_loading := False\<rparr>"

definition toggle_expanded :: "jstring \<Rightarrow> sidebar_state \<Rightarrow> sidebar_state" where
  "toggle_expanded node_id' s =
     s\<lparr>expanded_nodes :=
        (if node_id' \<in> expanded_nodes s then expanded_nodes s - {node_id'}
         else insert node_id' (expanded_nodes s))\<rparr>"

subsection \<open>Rows\<close>

datatype chevron = NoChevron | ChevronDown | ChevronRight

datatype node_icon = BookOpenIcon jstring | DotIcon jstring

text \<open>What a click on a row does: toggle the node's id, or pass the node to
  \<open>onNodeSelect\<close>.\<close>

datatype sidebar_action = ToggleNode jstring | SelectNode knowledge_node

record node_row =
  row_key :: jstring
  row_title :: jstring
  row_depth :: nat
  row_chevron :: chevron
  row_icon :: node_icon
  row_styles :: "jstring list"
  row_badge :: "(level \<times> jstring) option"
  row_actions :: "sidebar_action list"

fun get_node_icon :: "node_type \<Rightarrow> node_icon" where
  "get_node_icon Category = BookOpenIcon (ascii ''w-5 h-5 text-primary-500'')"
| "get_node_icon Section = DotIcon (ascii ''w-4 h-4 rounded-full bg-primary-500'')"
| "get_node_icon Subsection = DotIcon (ascii ''w-3 h-3 rounded-full bg-primary-300'')"
| "get_node_icon Content = DotIcon (ascii ''w-2 h-2 rounded-full bg-neutral-300'')"

definition base_styles :: jstring where
  "base_styles =
     ascii ''flex items-center w-full px-3 py-2 text-left transition-colors duration-200 rounded-md''"

definition selected_styles :: jstring where
  "selected_styles = ascii ''bg-primary-900/15 border-l-3 border-primary-500 text-primary-500 font-medium''"

text \<open>The truthy arguments \<open>getNodeStyles\<close> passes to \<open>cn\<close>; the selection
  highlight is an argument in the \<open>content\<close> case only.\<close>

fun get_node_styles :: "node_type \<Rightarrow> bool \<Rightarrow> jstring list" where
  "get_node_styles Category is_selected =
     [base_styles, ascii ''text-base font-semibold text-neutral-100 hover:bg-neutral-800 cursor-pointer'']"
| "get_node_styles Section is_selected =
     [base_styles, ascii ''text-sm font-medium text-neutral-200 hover:bg-neutral-800 cursor-pointer'']"
| "get_node_styles Subsection is_selected =
     [base_styles, ascii ''text-sm text-neutral-200 hover:bg-neutral-800 cursor-pointer ml-4'']"
| "get_node_styles Content is_selected =
     [base_styles, ascii ''text-sm text-neutral-300 hover:bg-neutral-800 cursor-pointer ml-8''] @
     (if is_selected then [selected_styles] else [])"

text \<open>The badge text: \<open>'beginner'\<close> gives ``entry'' (two code units), \<open>'intermediate'\<close>
  ``advancing'', anything else ``senior''.\<close>

fun sidebar_badge_label :: "level \<Rightarrow> jstring" where
  "sidebar_badge_label Beginner = [0x5165, 0x95E8]"
| "sidebar_badge_label Intermediate = [0x8FDB, 0x9636]"
| "sidebar_badge_label Advanced = [0x9AD8, 0x7EA7]"

definition click_actions :: "knowledge_node \<Rightarrow> sidebar_action list" where
  "click_actions node =
     (if has_children node then [ToggleNode (node_id node)] else []) @
     (if is_leaf node then [SelectNode node] else [])"

definition node_row :: "jstring set \<Rightarrow> jstring option \<Rightarrow> nat \<Rightarrow> knowledge_node \<Rightarrow> node_row" where
  "node_row expanded selected_id depth node =
     \<lparr>row_key = node_id node, row_title = title node, row_depth = depth,
      row_chevron = (if has_children node
                     then (if node_id node \<in> expanded then ChevronDown else ChevronRight)
                     else NoChevron),
      row_icon = get_node_icon (ntype node),
      row_styles = get_node_styles (ntype node) (selected_id = Some (node_id node)),
      row_badge = map_option (\<lambda>l. (l, sidebar_badge_label l)) (nlevel node),
      row_actions = click_actions node\<rparr>"

function render_node :: "jstring set \<Rightarrow> jstring option \<Rightarrow> nat \<Rightarrow> knowledge_node \<Rightarrow> node_row list" where
  "render_node expanded selected_id depth node =
     node_row expanded selected_id depth node #
     (if has_children node \<and> node_id node \<in> expanded
      then concat (map (render_node expanded selected_id (Suc depth)) (child_list node))
      else [])"
  by pat_completeness auto
termination
  by (relation "measure (\<lambda>(_, _, _, n). size n)") (auto dest: child_list_size)

declare render_node.simps [simp del]

subsection \<open>The rendered sidebar and clicks\<close>

datatype sidebar_view = SidebarSkeleton nat | SidebarTree "node_row list"

text \<open>While loading, eight placeholder bars; afterwards \<open>knowledgeTree.map(...)\<close>,
  which throws when the tree is not an array.\<close>

definition render_sidebar :: "sidebar_state \<Rightarrow> jstring option \<Rightarrow> render_error + sidebar_view" where
  "render_sidebar s selected_id =
     (if sidebar_loading s then Inr (SidebarSkeleton 8)
      else case knowledge_tree s of
        None \<Rightarrow> Inl TypeError
      | Some ns \<Rightarrow> Inr (SidebarTree (concat (map (render_node (expanded_nodes s) selected_id 0) ns))))"

text \<open>The \<open>onClick\<close> of a row, in order; a selection goes to \<open>handleNodeClick\<close>,
  which forwards the node to \<open>onNodeSelect\<close> (the layout always passes one).\<close>

fun run_actions :: "sidebar_action list \<Rightarrow> sidebar_state \<Rightarrow> sidebar_state \<times> knowledge_node list" where
  "run_actions [] s = (s, [])"
| "run_actions (ToggleNode i # acts) s = run_actions acts (toggle_expanded i s)"
| "run_actions (SelectNode n # acts) s =
     (let (s', sel) = run_actions acts s in (s', n # sel))"

definition sidebar_click :: "knowledge_node \<Rightarrow> sidebar_state \<Rightarrow> sidebar_state \<times> knowledge_node list" where
  "sidebar_click node s = run_actions (click_actions node) s"

subsection \<open>Expanded set\<close>

lemma toggle_expanded_member [model_simps]:
  "x \<in> expanded_nodes (toggle_expanded i s) \<longleftrightarrow> (if x = i then x \<notin> expanded_nodes s else x \<in> expanded_nodes s)"
  by (auto simp: toggle_expanded_def)

lemma toggle_expanded_other_fields [model_simps]:
  "knowledge_tree (toggle_expanded i s) = knowledge_tree s"
  "sidebar_loading (toggle_expanded i s) = sidebar_loading s"
  by (simp_all add: toggle_expanded_def)

text \<open>C4. Toggling the same id twice restores the sidebar state exactly
  (\<open>toggleExpanded\<close> is an involution).\<close>

theorem toggle_expanded_twice: "toggle_expanded i (toggle_expanded i s) = s"
  by (auto simp: toggle_expanded_def insert_absorb)

subsection \<open>Clicks\<close>

lemma click_actions_cases [model_simps]:
  "click_actions n = (if has_children n then [ToggleNode (node_id n)] else [SelectNode n])"
  by (simp add: click_actions_def is_leaf_def)

text \<open>C5. A click on a node with children toggles its id and selects nothing; a click on
  a leaf selects it exactly once and leaves the expanded set alone.\<close>

theorem sidebar_click_semantics:
  "sidebar_click n s =
     (if has_children n then (toggle_expanded (node_id n) s, []) else (s, [n]))"
  by (simp add: sidebar_click_def click_actions_cases)

subsection \<open>Rendering\<close>

lemma render_node_unfold:
  "render_node ex sel d n =
     node_row ex sel d n #
     (if has_children n \<and> node_id n \<in> ex
      then concat (map (render_node ex sel (Suc d)) (child_list n)) else [])"
  by (rule render_node.simps)

text \<open>C6. A collapsed node renders its own row and no descendant: children are omitted,
  not hidden.\<close>

theorem render_node_collapsed:
  assumes "node_id n \<notin> ex"
  shows "render_node ex sel d n = [node_row ex sel d n]"
  using assms by (simp add: render_node_unfold)

theorem render_node_collapsed_witness:
  "render_node {} None 0 skills_root = [node_row {} None 0 skills_root]"
  by (rule render_node_collapsed) simp

text \<open>C7. With every id of a tree expanded, the rows are exactly the tree's nodes in
  preorder, each child after its parent and siblings in their array order.\<close>

theorem render_node_all_expanded:
  assumes "set (map node_id (tree_nodes n)) \<subseteq> ex"
  shows "map row_key (render_node ex sel d n) = map node_id (tree_nodes n)"
  using assms
proof (induction ex sel d n rule: render_node.induct)
  case (1 ex sel d n)
  have nex: "node_id n \<in> ex"
    using "1.prems" tree_nodes_self [of n] by auto
  have ih: "map row_key (render_node ex sel (Suc d) c) = map node_id (tree_nodes c)"
    if c: "c \<in> set (child_list n)" for c
  proof -
    from c have "set (map node_id (tree_nodes c)) \<subseteq> ex"
      using "1.prems" tree_nodes_child [OF c] by auto
    moreover from c nex have "has_children n \<and> node_id n \<in> ex"
      by (auto simp: has_children_child_list)
    ultimately show ?thesis
      using "1.IH" c by blast
  qed
  from nex ih show ?case
    by (subst render_node_unfold, subst tree_nodes.simps)
       (auto simp: node_row_def has_children_child_list map_concat intro!: arg_cong [where f = concat])
qed

theorem render_node_all_expanded_witness:
  "map row_key (render_node {ascii ''skills'', ascii ''x''} None 0 skills_root) =
   [ascii ''skills'', ascii ''x'']"
proof -
  have h: "set (map node_id (tree_nodes skills_root)) \<subseteq> {ascii ''skills'', ascii ''x''}"
    unfolding tree_nodes_sample by (simp add: skills_root_def bowling_leaf_def)
  show ?thesis
    using render_node_all_expanded [OF h, of None 0, unfolded tree_nodes_sample]
    by (simp add: skills_root_def bowling_leaf_def)
qed

lemma render_node_own_row: "node_row ex sel d n \<in> set (render_node ex sel d n)"
  by (subst render_node_unfold) simp

lemma render_node_child_row:
  assumes "has_children n" and "node_id n \<in> ex" and "c \<in> set (child_list n)"
  shows "node_row ex sel (Suc d) c \<in> set (render_node ex sel d n)"
  using assms render_node_own_row [of ex sel "Suc d" c]
  by (subst render_node_unfold) auto

text \<open>Every rendered row is the row of a node of the tree.\<close>

lemma render_node_rows:
  "r \<in> set (render_node ex sel d n) \<Longrightarrow> \<exists>m \<in> set (tree_nodes n). r = node_row ex sel (row_depth r) m"
proof (induction ex sel d n rule: render_node.induct)
  case (1 ex sel d n)
  show ?case
  proof (cases "r = node_row ex sel d n")
    case True
    then show ?thesis using tree_nodes_self [of n] by (auto simp: node_row_def)
  next
    case False
    with "1.prems" obtain c where c: "c \<in> set (child_list n)" "has_children n" "node_id n \<in> ex"
      and r: "r \<in> set (render_node ex sel (Suc d) c)"
      by (subst (asm) render_node_unfold) (auto split: if_splits)
    from "1.IH" [OF conjI [OF c(2,3)] c(1) r] obtain m where "m \<in> set (tree_nodes c)"
      "r = node_row ex sel (row_depth r) m" by blast
    with tree_nodes_child [OF c(1)] show ?thesis by blast
  qed
qed

text \<open>C8. A row whose click selects a node selects a leaf of the rendered tree, and that
  leaf is the row's own node.\<close>

theorem render_node_select_leaf:
  assumes "r \<in> set (render_node ex sel d n)" and "SelectNode m \<in> set (row_actions r)"
  shows "m \<in> set (tree_nodes n) \<and> is_leaf m \<and> row_key r = node_id m"
proof -
  from render_node_rows [OF assms(1)] obtain m' where m': "m' \<in> set (tree_nodes n)"
    and r: "r = node_row ex sel (row_depth r) m'" by blast
  from assms(2) r have "m = m' \<and> is_leaf m'"
    by (subst (asm) r) (auto simp: node_row_def click_actions_def split: if_splits)
  moreover have "row_key r = node_id m'"
    by (subst r) (simp add: node_row_def)
  ultimately show ?thesis using m' by simp
qed

theorem render_node_select_leaf_witness:
  "bowling_leaf \<in> set (tree_nodes skills_root) \<and> is_leaf bowling_leaf \<and>
   row_key (node_row {ascii ''skills''} None 1 bowling_leaf) = ascii ''x''"
proof -
  have h1: "node_row {ascii ''skills''} None 1 bowling_leaf
              \<in> set (render_node {ascii ''skills''} None 0 skills_root)"
    using render_node_child_row [of skills_root "{ascii ''skills''}" bowling_leaf None 0]
    by (simp add: skills_root_def has_children_def child_list_def)
  have h2: "SelectNode bowling_leaf \<in> set (row_actions (node_row {ascii ''skills''} None 1 bowling_leaf))"
    by (simp add: node_row_def click_actions_def is_leaf_def has_children_def bowling_leaf_def)
  show ?thesis
    using render_node_select_leaf [OF h1 h2] by (simp add: bowling_leaf_def)
qed

text \<open>C9. The selection highlight is applied to a selected row only when the node is of
  type \<open>content\<close>: a selected leaf of another type is not highlighted.\<close>

theorem selected_highlight_content_only:
  "selected_styles \<in> set (row_styles (node_row ex (Some (node_id n)) d n)) \<longleftrightarrow> ntype n = Content"
  by (cases "ntype n")
     (simp_all add: node_row_def selected_styles_def base_styles_def ascii_Cons)

subsection \<open>Loading outcomes\<close>

text \<open>C10. A failed fetch and a document with an empty \<open>categories\<close> array both end
  loading and render a sidebar with zero rows, without an error.\<close>

theorem render_sidebar_no_data:
  "render_sidebar (load_knowledge_tree TreeFetchFailed sidebar_init) sel = Inr (SidebarTree []) \<and>
   render_sidebar (load_knowledge_tree (TreeDocument (Some [])) s) sel = Inr (SidebarTree [])"
  by (simp add: render_sidebar_def sidebar_init_def)

text \<open>C11. A document whose \<open>categories\<close> is not an array leaves the tree set to that
  value, and the next render throws instead of showing an empty sidebar.\<close>

theorem render_sidebar_bad_categories:
  "render_sidebar (load_knowledge_tree (TreeDocument None) s) sel = Inl TypeError"
  by (simp add: render_sidebar_def)

text \<open>C12. After a successful load every root is expanded, so every child of a root is
  shown as a row.\<close>

theorem load_shows_root_children:
  assumes "r \<in> set cats" and "c \<in> set (child_list r)"
  shows "\<exists>rows. render_sidebar (load_knowledge_tree (TreeDocument (Some cats)) s) sel =
                  Inr (SidebarTree rows) \<and> node_id c \<in> set (map row_key rows)"
proof -
  from assms have "has_children r" "node_id r \<in> set (map node_id cats)"
    by (auto simp: has_children_child_list)
  from render_node_child_row [OF this assms(2), of sel 0]
  have "node_id c \<in> set (map row_key (render_node (set (map node_id cats)) sel 0 r))"
    by (force simp: node_row_def)
  with assms(1) show ?thesis
    by (auto simp: render_sidebar_def)
qed

theorem load_shows_root_children_witness:
  "\<exists>rows. render_sidebar (load_knowledge_tree (TreeDocument (Some [skills_root])) sidebar_init) None =
            Inr (SidebarTree rows) \<and> ascii ''x'' \<in> set (map row_key rows)"
proof -
  have h1: "skills_root \<in> set [skills_root]" by simp
  have h2: "bowling_leaf \<in> set (child_list skills_root)"
    by (simp add: skills_root_def child_list_def)
  show ?thesis
    using load_shows_root_children [OF h1 h2, of sidebar_init None]
    by (simp add: bowling_leaf_def)
qed

subsection \<open>Row keys\<close>

text \<open>The keys of the rows below a node follow the preorder of its subtree, with the
  descendants of collapsed nodes left out.\<close>

lemma render_node_keys_subseq:
  "subseq (map row_key (render_node ex sel d n)) (map node_id (tree_nodes n))"
proof (induction ex sel d n rule: render_node.induct)
  case (1 ex sel d n)
  have "subseq (map row_key (if has_children n \<and> node_id n \<in> ex
                              then concat (map (render_node ex sel (Suc d)) (child_list n)) else []))
               (concat (map (map node_id \<circ> tree_nodes) (child_list n)))"
    using "1.IH" by (auto simp: map_concat intro!: subseq_concat_map)
  then show ?case
    by (subst render_node_unfold, subst tree_nodes.simps) (simp add: node_row_def map_concat)
qed

text \<open>C13. When the ids of the loaded tree are unique, every row the sidebar renders
  has its own React key, whichever nodes are expanded and whichever is selected.\<close>

theorem sidebar_row_keys_distinct:
  assumes "knowledge_tree s = Some ns" and "unique_ids ns"
    and "render_sidebar s sel = Inr (SidebarTree rows)"
  shows "distinct (map row_key rows)"
proof -
  from assms(1,3) have rows: "rows = concat (map (render_node (expanded_nodes s) sel 0) ns)"
    by (simp add: render_sidebar_def split: if_splits)
  have "subseq (concat (map (map row_key \<circ> render_node (expanded_nodes s) sel 0) ns))
               (concat (map (map node_id \<circ> tree_nodes) ns))"
    by (rule subseq_concat_map) (simp add: render_node_keys_subseq)
  moreover have "distinct (concat (map (map node_id \<circ> tree_nodes) ns))"
    using assms(2) by (simp add: unique_ids_def forest_nodes_def map_concat)
  ultimately show ?thesis
    unfolding rows by (simp add: map_concat subseq_distinct)
qed

theorem sidebar_row_keys_distinct_witness:
  "distinct (map row_key (concat (map (render_node {ascii ''skills''} None 0) [skills_two])))"
proof -
  define s where "s = \<lparr>knowledge_tree = Some [skills_two], expanded_nodes = {ascii ''skills''},
                        sidebar_loading = False\<rparr>"
  have t: "knowledge_tree s = Some [skills_two]" by (simp add: s_def)
  have u: "unique_ids [skills_two]"
    by (simp add: unique_ids_def forest_nodes_def tree_nodes.simps skills_two_def bowling_leaf_def
        batting_leaf_def child_list_def ascii_Cons_cu)
  have r: "render_sidebar s None =
             Inr (SidebarTree (concat (map (render_node {ascii ''skills''} None 0) [skills_two])))"
    by (simp add: render_sidebar_def s_def)
  show ?thesis using sidebar_row_keys_distinct [OF t u r] .
qed


end
