(* ===== verification/Markup.thy ===== *)
theory Markup
  imports JsString
begin

text \<open>
  The line-based markup formatter \<open>formatContent\<close> of
  \<open>src/src/components/ContentArea.tsx\<close> (lines 284--307): the text is split on
  \<open>'\n'\<close> and every line becomes one display block, chosen by the first test of
  the \<open>if\<close>/\<open>else if\<close> chain that holds. A block records the element and the
  text the JSX renders (\<open>h1\<close>--\<open>h4\<close>, \<open>li\<close>, the spacer \<open>div\<close>, the italic
  \<open>p\<close> and the plain \<open>p\<close>); \<open>block_class\<close> is the class list that gives each
  element its visual weight. \<open>print_block\<close> writes a block back as a line; the
  round trips between the two are the formatter's contract.
\<close>

datatype block =
    Heading1 jstring
  | Heading2 jstring
  | Heading3 jstring
  | Heading4 jstring
  | ListItem jstring
  | Spacer
  | Emphasis jstring
  | Paragraph jstring

definition format_line :: "jstring \<Rightarrow> block" where
  "format_line line =
     (if starts_with line (ascii ''# '') then Heading1 (js_substring_from line 2)
      else if starts_with line (ascii ''## '') then Heading2 (js_substring_from line 3)
      else if starts_with line (ascii ''### '') then Heading3 (js_substring_from line 4)
      else if starts_with line (ascii ''#### '') then Heading4 (js_substring_from line 5)
      else if starts_with line (ascii ''- '') then ListItem (js_substring_from line 2)
      else if js_trim line = [] then Spacer
      else if starts_with line (ascii ''*'') \<and> ends_with line (ascii ''*'')
        then Emphasis (js_substring line 1 (int (length line) - 1))
      else Paragraph line)"

definition format_content :: "jstring \<Rightarrow> block list" where
  "format_content content = map format_line (split_on nl content)"

text \<open>The \<open>className\<close> each element of \<open>formatContent\<close> carries.\<close>

fun block_class :: "block \<Rightarrow> jstring" where
  "block_class (Heading1 _) = ascii ''text-4xl font-bold text-neutral-50 mb-8 leading-tight''"
| "block_class (Heading2 _) = ascii ''text-3xl font-bold text-neutral-50 mb-6 mt-12 leading-tight''"
| "block_class (Heading3 _) = ascii ''text-2xl font-semibold text-neutral-100 mb-4 mt-8''"
| "block_class (Heading4 _) = ascii ''text-xl font-semibold text-neutral-200 mb-3 mt-6''"
| "block_class (ListItem _) = ascii ''text-neutral-200 mb-2 ml-6''"
| "block_class Spacer = ascii ''mb-4''"
| "block_class (Emphasis _) = ascii ''text-neutral-400 italic mt-8 text-sm''"
| "block_class (Paragraph _) = ascii ''text-neutral-200 mb-4 leading-relaxed''"

subsection \<open>Printing blocks back as lines\<close>

fun print_block :: "block \<Rightarrow> jstring" where
  "print_block (Heading1 t) = ascii ''# '' @ t"
| "print_block (Heading2 t) = ascii ''## '' @ t"
| "print_block (Heading3 t) = ascii ''### '' @ t"
| "print_block (Heading4 t) = ascii ''#### '' @ t"
| "print_block (ListItem t) = ascii ''- '' @ t"
| "print_block Spacer = []"
| "print_block (Emphasis t) = ascii ''*'' @ t @ ascii ''*''"
| "print_block (Paragraph t) = t"

text \<open>A paragraph prints back to itself only if its text passes none of the earlier
  tests of the chain.\<close>

definition plain_text :: "jstring \<Rightarrow> bool" where
  "plain_text t \<longleftrightarrow>
     \<not> starts_with t (ascii ''# '') \<and> \<not> starts_with t (ascii ''## '') \<and>
     \<not> starts_with t (ascii ''### '') \<and> \<not> starts_with t (ascii ''#### '') \<and>
     \<not> starts_with t (ascii ''- '') \<and> js_trim t \<noteq> [] \<and>
     \<not> (starts_with t (ascii ''*'') \<and> ends_with t (ascii ''*''))"

fun wf_block :: "block \<Rightarrow> bool" where
  "wf_block (Paragraph t) = plain_text t"
| "wf_block _ = True"

subsection \<open>One line, by its form\<close>

lemma format_line_heading1 [model_simps]: "format_line (ascii ''# '' @ t) = Heading1 t"
  by (simp add: format_line_def ascii_Cons js_simps)

lemma format_line_heading2 [model_simps]: "format_line (ascii ''## '' @ t) = Heading2 t"
  by (simp add: format_line_def ascii_Cons js_simps)

lemma format_line_heading3 [model_simps]: "format_line (ascii ''### '' @ t) = Heading3 t"
  by (simp add: format_line_def ascii_Cons js_simps)

lemma format_line_heading4 [model_simps]: "format_line (ascii ''#### '' @ t) = Heading4 t"
  by (simp add: format_line_def ascii_Cons js_simps)

lemma format_line_list_item [model_simps]: "format_line (ascii ''- '' @ t) = ListItem t"
  by (simp add: format_line_def ascii_Cons js_simps)

lemma format_line_ListItem_iff [model_simps]:
  "format_line l = ListItem x \<longleftrightarrow> l = ascii ''- '' @ x"
proof
  assume "format_line l = ListItem x"
  then have "starts_with l (ascii ''- '')" and "x = drop 2 l"
    by (simp_all add: format_line_def js_substring_from_drop split: if_splits)
  then show "l = ascii ''- '' @ x"
    using starts_with_drop_id [of l "ascii ''- ''" 2] by simp
next
  assume "l = ascii ''- '' @ x"
  then show "format_line l = ListItem x" by (simp add: format_line_list_item)
qed

lemma ListItem_in_format_line_image [model_simps]:
  "ListItem x \<in> format_line ` A \<longleftrightarrow> ascii ''- '' @ x \<in> A"
proof
  assume "ListItem x \<in> format_line ` A"
  then obtain l where "l \<in> A" and "format_line l = ListItem x" by auto
  then show "ascii ''- '' @ x \<in> A" by (simp add: format_line_ListItem_iff)
next
  assume "ascii ''- '' @ x \<in> A"
  then show "ListItem x \<in> format_line ` A"
    by (rule rev_image_eqI) (simp add: format_line_list_item)
qed

text \<open>A blank line passes none of the prefix tests, since each prefix begins with a
  visible character.\<close>

lemma blank_not_starts_with:
  "\<forall>x \<in> set l. js_whitespace x \<Longrightarrow> starts_with l (c # p) \<Longrightarrow> js_whitespace c"
  using starts_with_set [of l "c # p"] by auto

lemma format_line_blank [model_simps]: "js_trim l = [] \<Longrightarrow> format_line l = Spacer"
  by (auto simp: format_line_def ascii_Cons js_simps dest: blank_not_starts_with)

lemma format_line_Nil [model_simps]: "format_line [] = Spacer"
  by (simp add: format_line_blank js_trim_Nil_iff)

lemma format_line_emphasis [model_simps]:
  "format_line (ascii ''*'' @ t @ ascii ''*'') = Emphasis t"
  by (simp add: format_line_def ascii_Cons js_simps)

text \<open>Stripping the stars of an emphasised line of at least two units and putting them
  back gives the line.\<close>

lemma emphasis_strip_id:
  assumes "starts_with l (ascii ''*'')" and "ends_with l (ascii ''*'')" and "l \<noteq> ascii ''*''"
  shows "ascii ''*'' @ js_substring l 1 (int (length l) - 1) @ ascii ''*'' = l"
proof -
  from assms(1) obtain t where l: "l = 42 # t"
    by (auto simp: starts_with_iff ascii_Cons)
  with assms(3) have "t \<noteq> []" by (auto simp: ascii_Cons)
  with l assms(2) show ?thesis
    by (simp add: ascii_Cons js_simps)
qed

lemma format_line_plain [model_simps]: "plain_text t \<Longrightarrow> format_line t = Paragraph t"
  by (simp add: format_line_def plain_text_def)

subsection \<open>The formatter's contract\<close>

lemma format_line_print_block_wf: "wf_block b \<Longrightarrow> format_line (print_block b) = b"
  by (cases b) (simp_all add: model_simps)

text \<open>C1. Formatting the lines that \<open>print_block\<close> writes for well-formed blocks,
  joined by \<open>'\n'\<close>, gives back exactly those blocks: the formatter reads every
  printed block as the block it was, one block per line, none merged and none lost.\<close>

theorem format_content_print_blocks:
  assumes "list_all wf_block bs" and "\<forall>b \<in> set bs. nl \<notin> set (print_block b)" and "bs \<noteq> []"
  shows "format_content (join_with nl (map print_block bs)) = bs"
proof -
  have "format_content (join_with nl (map print_block bs)) = map format_line (map print_block bs)"
    using assms(2,3) by (simp add: format_content_def split_join)
  also have "\<dots> = bs"
    using assms(1) by (induction bs) (simp_all add: format_line_print_block_wf)
  finally show ?thesis .
qed

theorem format_content_print_blocks_witness:
  "format_content (join_with nl (map print_block [Heading1 (ascii ''A''), Spacer, Paragraph (ascii ''b'')])) =
     [Heading1 (ascii ''A''), Spacer, Paragraph (ascii ''b'')]"
proof -
  have h1: "list_all wf_block [Heading1 (ascii ''A''), Spacer, Paragraph (ascii ''b'')]"
    by (simp add: plain_text_def ascii_Cons js_simps js_whitespace_def)
  have h2: "\<forall>b \<in> set [Heading1 (ascii ''A''), Spacer, Paragraph (ascii ''b'')]. nl \<notin> set (print_block b)"
    by (simp add: nl_def ascii_Cons)
  show ?thesis using format_content_print_blocks [OF h1 h2] by simp
qed

text \<open>C2. Every block the formatter can produce is recognised again from its printed
  line: headings of all four levels, list items, spacers and emphasised lines always,
  paragraphs whenever their text passes none of the earlier tests.\<close>

theorem format_line_print_block:
  assumes "wf_block b"
  shows "format_line (print_block b) = b"
  using assms by (cases b) (simp_all add: model_simps)

theorem format_line_print_block_witness:
  "format_line (print_block (Paragraph (ascii ''plain''))) = Paragraph (ascii ''plain'')"
proof -
  have h: "wf_block (Paragraph (ascii ''plain''))"
    by (simp add: plain_text_def ascii_Cons js_simps js_whitespace_def)
  show ?thesis using format_line_print_block [OF h] .
qed

text \<open>C3. Printing the block of a line gives the line back, except for blank lines,
  which lose their whitespace, and the line \<open>"*"\<close>, whose emphasised text is
  \<open>"*"\<close> itself because \<open>substring(1, 0)\<close> swaps its bounds.\<close>

theorem print_block_format_line:
  "print_block (format_line l) =
     (if js_trim l = [] then [] else if l = ascii ''*'' then ascii ''***'' else l)"
proof -
  consider (blank) "js_trim l = []" | (star) "l = ascii ''*''"
    | (other) "js_trim l \<noteq> []" "l \<noteq> ascii ''*''"
    by blast
  then show ?thesis
  proof cases
    case blank
    then show ?thesis by (simp add: format_line_blank)
  next
    case star
    then show ?thesis
      by (simp add: format_line_def ascii_Cons js_simps js_whitespace_def)
  next
    case other
    then have "print_block (format_line l) = l"
      unfolding format_line_def
      by (simp add: js_substring_from_drop starts_with_drop_id emphasis_strip_id)
    with other show ?thesis by simp
  qed
qed

end
