(* ===== verification/Placeholder.thy ===== *)
theory Placeholder
  imports Markup Knowledge
begin

text \<open>
  The placeholder generator \<open>generateDefaultContent\<close> of
  \<open>src/src/components/ContentArea.tsx\<close> (lines 56--153) and its unused twin
  \<open>generateMockContent\<close> (lines 155--252). Each template literal is the list of its
  lines joined by \<open>'\n'\<close>; interpolations are the title, the level text
  (\<open>levelText\<close>) and, for non-\<open>content\<close> nodes, the summary of the children.
  Every Chinese literal is written as its UTF-16 code units; the English glosses in the
  text blocks say what each line reads.
\<close>

subsection \<open>Interpolated pieces\<close>

text \<open>\<open>levelText\<close>: ``entry level'', ``advancing level'', and ``professional level'' for
  \<open>'advanced'\<close> and for a missing level alike.\<close>

fun level_text :: "level option \<Rightarrow> jstring" where
  "level_text (Some Beginner) = [0x5165, 0x95E8, 0x7EA7]"
| "level_text (Some Intermediate) = [0x8FDB, 0x9636, 0x7EA7]"
| "level_text _ = [0x4E13, 0x4E1A, 0x7EA7]"

text \<open>The fallback line ``- no sub-topics'' used when \<open>node.children\<close> is absent.\<close>

definition no_subtopics :: jstring where
  "no_subtopics = [0x6682, 0x65E0, 0x5B50, 0x77E5, 0x8BC6, 0x70B9]"

definition child_item :: "knowledge_node \<Rightarrow> jstring" where
  "child_item c = ascii ''- **'' @ title c @ ascii ''**''"

text \<open>\<open>node.children ? node.children.map(child => `- **${child.title}**`).join('\n')
  : '- ...'\<close>: an empty array is truthy, so it gives the empty string.\<close>

definition children_summary :: "knowledge_node \<Rightarrow> jstring" where
  "children_summary node =
     (case children node of
        Some cs \<Rightarrow> join_with nl (map child_item cs)
      | None \<Rightarrow> ascii ''- '' @ no_subtopics)"

subsection \<open>The templates\<close>

text \<open>The lines of the template literal for \<open>content\<close> nodes (lines 64--124): a level-1 heading with the title; ``overview'' with the title and the level text; ``main content'' with ``1. basic concepts'', ``2. technical points'' (``2.1 key elements'', ``2.2 practice guidance'') and ``3. advanced application''; ``practice advice''; ``points of attention''; ``related links'' (three markdown links); a rule \<open>---\<close> and an emphasised closing note.\<close>

definition content_page_lines :: "jstring \<Rightarrow> jstring \<Rightarrow> jstring list" where
  "content_page_lines t lt = [
      ascii ''# '' @ t,
      [],
      ascii ''## '' @ [0x6982, 0x8FF0],
      [],
      t @ [0x662F, 0x677F, 0x7403, 0x5B66, 0x4E60, 0x4F53, 0x7CFB, 0x4E2D, 0x7684, 0x91CD,
        0x8981, 0x7EC4, 0x6210, 0x90E8, 0x5206, 0x3002, 0x4F5C, 0x4E3A] @ lt @ [0x5185,
        0x5BB9, 0xFF0C, 0x672C, 0x7AE0, 0x8282, 0x5C06, 0x4E3A, 0x60A8, 0x8BE6, 0x7EC6,
        0x4ECB, 0x7ECD, 0x76F8, 0x5173, 0x77E5, 0x8BC6, 0x70B9, 0x548C, 0x5B9E, 0x8DF5,
        0x5E94, 0x7528, 0x3002],
      [],
      ascii ''## '' @ [0x4E3B, 0x8981, 0x5185, 0x5BB9],
      [],
      ascii ''### 1. '' @ [0x57FA, 0x7840, 0x6982, 0x5FF5],
      [],
      [0x5728, 0x6DF1, 0x5165, 0x5B66, 0x4E60] @ t @ [0x4E4B, 0x524D, 0xFF0C, 0x6211, 0x4EEC,
        0x9700, 0x8981, 0x5148, 0x4E86, 0x89E3, 0x4E00, 0x4E9B, 0x57FA, 0x7840, 0x6982,
        0x5FF5, 0xFF1A],
      [],
      ascii ''- **'' @ [0x6838, 0x5FC3, 0x539F, 0x7406] @ ascii ''**'' @ [0xFF1A, 0x89E3,
        0x91CA, 0x8BE5, 0x6280, 0x672F, 0x7684, 0x6839, 0x672C, 0x539F, 0x7406, 0x548C,
        0x4F5C, 0x7528, 0x673A, 0x5236],
      ascii ''- **'' @ [0x5E94, 0x7528, 0x573A, 0x666F] @ ascii ''**'' @ [0xFF1A, 0x8BF4,
        0x660E, 0x5728, 0x4EC0, 0x4E48, 0x60C5, 0x51B5, 0x4E0B, 0x4F7F, 0x7528, 0x8FD9,
        0x79CD, 0x6280, 0x672F],
      ascii ''- **'' @ [0x4E0E, 0x5176, 0x4ED6, 0x6280, 0x672F, 0x7684, 0x5173,
        0x7CFB] @ ascii ''**'' @ [0xFF1A, 0x5206, 0x6790, 0x4E0E, 0x5176, 0x4ED6,
        0x677F, 0x7403, 0x6280, 0x672F, 0x7684, 0x5173, 0x8054],
      [],
      ascii ''### 2. '' @ [0x6280, 0x672F, 0x8981, 0x70B9],
      [],
      ascii ''#### 2.1 '' @ [0x5173, 0x952E, 0x8981, 0x7D20],
      [],
      t @ [0x5305, 0x542B, 0x4EE5, 0x4E0B, 0x51E0, 0x4E2A, 0x5173, 0x952E, 0x8981, 0x7D20,
        0xFF1A],
      [],
      ascii ''1. **'' @ [0x52A8, 0x4F5C, 0x8981, 0x9886] @ ascii ''**'' @ [0xFF1A, 0x8BE6,
        0x7EC6, 0x8BF4, 0x660E, 0x6B63, 0x786E, 0x7684, 0x52A8, 0x4F5C, 0x6B65, 0x9AA4],
      ascii ''2. **'' @ [0x5E38, 0x89C1, 0x9519, 0x8BEF] @ ascii ''**'' @ [0xFF1A, 0x5217,
        0x4E3E, 0x521D, 0x5B66, 0x8005, 0x5BB9, 0x6613, 0x72AF, 0x7684, 0x9519, 0x8BEF],
      ascii ''3. **'' @ [0x7EC3, 0x4E60, 0x65B9, 0x6CD5] @ ascii ''**'' @ [0xFF1A, 0x63D0,
        0x4F9B, 0x6709, 0x6548, 0x7684, 0x7EC3, 0x4E60, 0x5EFA, 0x8BAE],
      [],
      ascii ''#### 2.2 '' @ [0x5B9E, 0x8DF5, 0x6307, 0x5BFC],
      [],
      ascii ''- **'' @ [0x8BAD, 0x7EC3, 0x8BA1, 0x5212] @ ascii ''**'' @ [0xFF1A, 0x5236,
        0x5B9A, 0x5FAA, 0x5E8F, 0x6E10, 0x8FDB, 0x7684, 0x8BAD, 0x7EC3, 0x8BA1, 0x5212],
      ascii ''- **'' @ [0x8BC4, 0x4F30, 0x6807, 0x51C6] @ ascii ''**'' @ [0xFF1A, 0x5EFA,
        0x7ACB, 0x6280, 0x80FD, 0x8BC4, 0x4F30, 0x7684, 0x6807, 0x51C6],
      ascii ''- **'' @ [0x8FDB, 0x9636, 0x8DEF, 0x5F84] @ ascii ''**'' @ [0xFF1A, 0x6307,
        0x660E, 0x8FDB, 0x4E00, 0x6B65, 0x63D0, 0x5347, 0x7684, 0x65B9, 0x5411],
      [],
      ascii ''### 3. '' @ [0x9AD8, 0x7EA7, 0x5E94, 0x7528],
      [],
      [0x5BF9, 0x4E8E, 0x5DF2, 0x7ECF, 0x638C, 0x63E1, 0x57FA, 0x7840, 0x5185, 0x5BB9,
        0x7684, 0x5B66, 0x5458, 0xFF0C, 0x53EF, 0x4EE5, 0x8FDB, 0x4E00, 0x6B65, 0x5B66,
        0x4E60, 0xFF1A],
      [],
      ascii ''- **'' @ [0x6218, 0x672F, 0x5E94, 0x7528] @ ascii ''**'' @ [0xFF1A, 0x5728,
        0x6BD4, 0x8D5B, 0x4E2D, 0x7684, 0x5B9E, 0x9645, 0x8FD0, 0x7528],
      ascii ''- **'' @ [0x5FC3, 0x7406, 0x56E0, 0x7D20] @ ascii ''**'' @ [0xFF1A, 0x5FC3,
        0x7406, 0x51C6, 0x5907, 0x548C, 0x5FC3, 0x6001, 0x8C03, 0x6574],
      ascii ''- **'' @ [0x521B, 0x65B0, 0x53D1, 0x5C55] @ ascii ''**'' @ [0xFF1A, 0x7ED3,
        0x5408, 0x4E2A, 0x4EBA, 0x7279, 0x70B9, 0x7684, 0x4E2A, 0x6027, 0x5316, 0x53D1,
        0x5C55],
      [],
      ascii ''## '' @ [0x7EC3, 0x4E60, 0x5EFA, 0x8BAE],
      [],
      ascii ''1. **'' @ [0x57FA, 0x7840, 0x7EC3, 0x4E60] @ ascii ''**'' @ [0xFF1A, 0x4ECE,
        0x6700, 0x57FA, 0x7840, 0x7684, 0x52A8, 0x4F5C, 0x5F00, 0x59CB, 0x7EC3, 0x4E60],
      ascii ''2. **'' @ [0x8FDB, 0x9636, 0x8BAD, 0x7EC3] @ ascii ''**'' @ [0xFF1A, 0x9010,
        0x6B65, 0x63D0, 0x9AD8, 0x96BE, 0x5EA6, 0x548C, 0x590D, 0x6742, 0x5EA6],
      ascii ''3. **'' @ [0x5B9E, 0x6218, 0x5E94, 0x7528] @ ascii ''**'' @ [0xFF1A, 0x5728,
        0x6A21, 0x62DF, 0x6BD4, 0x8D5B, 0x73AF, 0x5883, 0x4E2D, 0x5E94, 0x7528, 0x6240,
        0x5B66, 0x6280, 0x80FD],
      [],
      ascii ''## '' @ [0x6CE8, 0x610F, 0x4E8B, 0x9879],
      [],
      ascii ''- '' @ [0x5B89, 0x5168, 0x7B2C, 0x4E00, 0xFF1A, 0x5728, 0x4EFB, 0x4F55, 0x7EC3,
        0x4E60, 0x4E2D, 0x90FD, 0x8981, 0x6CE8, 0x610F, 0x5B89, 0x5168],
      ascii ''- '' @ [0x5FAA, 0x5E8F, 0x6E10, 0x8FDB, 0xFF1A, 0x4E0D, 0x8981, 0x6025, 0x4E8E,
        0x6C42, 0x6210, 0xFF0C, 0x7A33, 0x624E, 0x7A33, 0x6253],
      ascii ''- '' @ [0x6301, 0x7EED, 0x7EC3, 0x4E60, 0xFF1A, 0x6280, 0x80FD, 0x7684, 0x63D0,
        0x5347, 0x9700, 0x8981, 0x6301, 0x7EED, 0x7684, 0x7EC3, 0x4E60, 0x548C, 0x79EF,
        0x7D2F],
      [],
      ascii ''## '' @ [0x76F8, 0x5173, 0x94FE, 0x63A5],
      [],
      ascii ''- ['' @ [0x677F, 0x7403, 0x57FA, 0x7840, 0x77E5, 0x8BC6] @ ascii ''](/basics)'',
      ascii ''- ['' @ [0x6280, 0x672F, 0x8BAD, 0x7EC3, 0x65B9,
        0x6CD5] @ ascii ''](/training)'',
      ascii ''- ['' @ [0x6218, 0x672F, 0x7B56, 0x7565, 0x5206, 0x6790] @ ascii ''](/tactics)'',
      [],
      ascii ''---'',
      [],
      ascii ''*'' @ [0x672C, 0x5185, 0x5BB9, 0x4E3A, 0x677F, 0x7403, 0x5B66, 0x4E60, 0x6307,
        0x5357, 0x7684, 0x4E00, 0x90E8, 0x5206, 0xFF0C, 0x65E8, 0x5728, 0x5E2E, 0x52A9,
        0x5B66, 0x4E60, 0x8005, 0x7CFB, 0x7EDF, 0x638C, 0x63E1, 0x677F, 0x7403, 0x77E5,
        0x8BC6, 0x548C, 0x6280, 0x80FD, 0x3002] @ ascii ''*'']"

text \<open>The lines of the template literal for the other node types (lines 127--149): a level-1 heading with the title, ``overview'', ``main content'' with ``contained knowledge points'', the summary of the children, ``study advice'', a rule and an emphasised note.\<close>

definition overview_page_lines :: "jstring \<Rightarrow> jstring \<Rightarrow> jstring list" where
  "overview_page_lines t summary = [
      ascii ''# '' @ t,
      [],
      ascii ''## '' @ [0x6982, 0x8FF0],
      [],
      t @ [0x662F, 0x677F, 0x7403, 0x5B66, 0x4E60, 0x4F53, 0x7CFB, 0x4E2D, 0x7684, 0x91CD,
        0x8981, 0x7EC4, 0x6210, 0x90E8, 0x5206, 0x3002, 0x672C, 0x7AE0, 0x8282, 0x5C06,
        0x4E3A, 0x60A8, 0x4ECB, 0x7ECD, 0x76F8, 0x5173, 0x5185, 0x5BB9, 0x6982, 0x89C8,
        0x3002],
      [],
      ascii ''## '' @ [0x4E3B, 0x8981, 0x5185, 0x5BB9],
      [],
      ascii ''### '' @ [0x5305, 0x542B, 0x7684, 0x77E5, 0x8BC6, 0x70B9],
      [],
      [0x672C, 0x7AE0, 0x8282, 0x5305, 0x542B, 0x4EE5, 0x4E0B, 0x4E3B, 0x8981, 0x77E5,
        0x8BC6, 0x70B9, 0xFF1A],
      [],
      summary,
      [],
      ascii ''## '' @ [0x5B66, 0x4E60, 0x5EFA, 0x8BAE],
      [],
      ascii ''- '' @ [0x4ECE, 0x57FA, 0x7840, 0x6982, 0x5FF5, 0x5F00, 0x59CB, 0x5B66, 0x4E60],
      ascii ''- '' @ [0x7ED3, 0x5408, 0x5B9E, 0x9645, 0x7EC3, 0x4E60, 0x52A0, 0x6DF1, 0x7406,
        0x89E3],
      ascii ''- '' @ [0x5FAA, 0x5E8F, 0x6E10, 0x8FDB, 0x638C, 0x63E1, 0x6280, 0x80FD],
      [],
      ascii ''---'',
      [],
      ascii ''*'' @ [0x70B9, 0x51FB, 0x5DE6, 0x4FA7, 0x5BFC, 0x822A, 0x4E2D, 0x7684, 0x5177,
        0x4F53, 0x77E5, 0x8BC6, 0x70B9, 0x5F00, 0x59CB, 0x5B66, 0x4E60] @ ascii ''*'']"

text \<open>The same two templates as written a second time in \<open>generateMockContent\<close> (lines 163--223 and 226--248).\<close>

definition mock_content_page_lines :: "jstring \<Rightarrow> jstring \<Rightarrow> jstring list" where
  "mock_content_page_lines t lt = [
      ascii ''# '' @ t,
      [],
      ascii ''## '' @ [0x6982, 0x8FF0],
      [],
      t @ [0x662F, 0x677F, 0x7403, 0x5B66, 0x4E60, 0x4F53, 0x7CFB, 0x4E2D, 0x7684, 0x91CD,
        0x8981, 0x7EC4, 0x6210, 0x90E8, 0x5206, 0x3002, 0x4F5C, 0x4E3A] @ lt @ [0x5185,
        0x5BB9, 0xFF0C, 0x672C, 0x7AE0, 0x8282, 0x5C06, 0x4E3A, 0x60A8, 0x8BE6, 0x7EC6,
        0x4ECB, 0x7ECD, 0x76F8, 0x5173, 0x77E5, 0x8BC6, 0x70B9, 0x548C, 0x5B9E, 0x8DF5,
        0x5E94, 0x7528, 0x3002],
      [],
      ascii ''## '' @ [0x4E3B, 0x8981, 0x5185, 0x5BB9],
      [],
      ascii ''### 1. '' @ [0x57FA, 0x7840, 0x6982, 0x5FF5],
      [],
      [0x5728, 0x6DF1, 0x5165, 0x5B66, 0x4E60] @ t @ [0x4E4B, 0x524D, 0xFF0C, 0x6211, 0x4EEC,
        0x9700, 0x8981, 0x5148, 0x4E86, 0x89E3, 0x4E00, 0x4E9B, 0x57FA, 0x7840, 0x6982,
        0x5FF5, 0xFF1A],
      [],
      ascii ''- **'' @ [0x6838, 0x5FC3, 0x539F, 0x7406] @ ascii ''**'' @ [0xFF1A, 0x89E3,
        0x91CA, 0x8BE5, 0x6280, 0x672F, 0x7684, 0x6839, 0x672C, 0x539F, 0x7406, 0x548C,
        0x4F5C, 0x7528, 0x673A, 0x5236],
      ascii ''- **'' @ [0x5E94, 0x7528, 0x573A, 0x666F] @ ascii ''**'' @ [0xFF1A, 0x8BF4,
        0x660E, 0x5728, 0x4EC0, 0x4E48, 0x60C5, 0x51B5, 0x4E0B, 0x4F7F, 0x7528, 0x8FD9,
        0x79CD, 0x6280, 0x672F],
      ascii ''- **'' @ [0x4E0E, 0x5176, 0x4ED6, 0x6280, 0x672F, 0x7684, 0x5173,
        0x7CFB] @ ascii ''**'' @ [0xFF1A, 0x5206, 0x6790, 0x4E0E, 0x5176, 0x4ED6,
        0x677F, 0x7403, 0x6280, 0x672F, 0x7684, 0x5173, 0x8054],
      [],
      ascii ''### 2. '' @ [0x6280, 0x672F, 0x8981, 0x70B9],
      [],
      ascii ''#### 2.1 '' @ [0x5173, 0x952E, 0x8981, 0x7D20],
      [],
      t @ [0x5305, 0x542B, 0x4EE5, 0x4E0B, 0x51E0, 0x4E2A, 0x5173, 0x952E, 0x8981, 0x7D20,
        0xFF1A],
      [],
      ascii ''1. **'' @ [0x52A8, 0x4F5C, 0x8981, 0x9886] @ ascii ''**'' @ [0xFF1A, 0x8BE6,
        0x7EC6, 0x8BF4, 0x660E, 0x6B63, 0x786E, 0x7684, 0x52A8, 0x4F5C, 0x6B65, 0x9AA4],
      ascii ''2. **'' @ [0x5E38, 0x89C1, 0x9519, 0x8BEF] @ ascii ''**'' @ [0xFF1A, 0x5217,
        0x4E3E, 0x521D, 0x5B66, 0x8005, 0x5BB9, 0x6613, 0x72AF, 0x7684, 0x9519, 0x8BEF],
      ascii ''3. **'' @ [0x7EC3, 0x4E60, 0x65B9, 0x6CD5] @ ascii ''**'' @ [0xFF1A, 0x63D0,
        0x4F9B, 0x6709, 0x6548, 0x7684, 0x7EC3, 0x4E60, 0x5EFA, 0x8BAE],
      [],
      ascii ''#### 2.2 '' @ [0x5B9E, 0x8DF5, 0x6307, 0x5BFC],
      [],
      ascii ''- **'' @ [0x8BAD, 0x7EC3, 0x8BA1, 0x5212] @ ascii ''**'' @ [0xFF1A, 0x5236,
        0x5B9A, 0x5FAA, 0x5E8F, 0x6E10, 0x8FDB, 0x7684, 0x8BAD, 0x7EC3, 0x8BA1, 0x5212],
      ascii ''- **'' @ [0x8BC4, 0x4F30, 0x6807, 0x51C6] @ ascii ''**'' @ [0xFF1A, 0x5EFA,
        0x7ACB, 0x6280, 0x80FD, 0x8BC4, 0x4F30, 0x7684, 0x6807, 0x51C6],
      ascii ''- **'' @ [0x8FDB, 0x9636, 0x8DEF, 0x5F84] @ ascii ''**'' @ [0xFF1A, 0x6307,
        0x660E, 0x8FDB, 0x4E00, 0x6B65, 0x63D0, 0x5347, 0x7684, 0x65B9, 0x5411],
      [],
      ascii ''### 3. '' @ [0x9AD8, 0x7EA7, 0x5E94, 0x7528],
      [],
      [0x5BF9, 0x4E8E, 0x5DF2, 0x7ECF, 0x638C, 0x63E1, 0x57FA, 0x7840, 0x5185, 0x5BB9,
        0x7684, 0x5B66, 0x5458, 0xFF0C, 0x53EF, 0x4EE5, 0x8FDB, 0x4E00, 0x6B65, 0x5B66,
        0x4E60, 0xFF1A],
      [],
      ascii ''- **'' @ [0x6218, 0x672F, 0x5E94, 0x7528] @ ascii ''**'' @ [0xFF1A, 0x5728,
        0x6BD4, 0x8D5B, 0x4E2D, 0x7684, 0x5B9E, 0x9645, 0x8FD0, 0x7528],
      ascii ''- **'' @ [0x5FC3, 0x7406, 0x56E0, 0x7D20] @ ascii ''**'' @ [0xFF1A, 0x5FC3,
        0x7406, 0x51C6, 0x5907, 0x548C, 0x5FC3, 0x6001, 0x8C03, 0x6574],
      ascii ''- **'' @ [0x521B, 0x65B0, 0x53D1, 0x5C55] @ ascii ''**'' @ [0xFF1A, 0x7ED3,
        0x5408, 0x4E2A, 0x4EBA, 0x7279, 0x70B9, 0x7684, 0x4E2A, 0x6027, 0x5316, 0x53D1,
        0x5C55],
      [],
      ascii ''## '' @ [0x7EC3, 0x4E60, 0x5EFA, 0x8BAE],
      [],
      ascii ''1. **'' @ [0x57FA, 0x7840, 0x7EC3, 0x4E60] @ ascii ''**'' @ [0xFF1A, 0x4ECE,
        0x6700, 0x57FA, 0x7840, 0x7684, 0x52A8, 0x4F5C, 0x5F00, 0x59CB, 0x7EC3, 0x4E60],
      ascii ''2. **'' @ [0x8FDB, 0x9636, 0x8BAD, 0x7EC3] @ ascii ''**'' @ [0xFF1A, 0x9010,
        0x6B65, 0x63D0, 0x9AD8, 0x96BE, 0x5EA6, 0x548C, 0x590D, 0x6742, 0x5EA6],
      ascii ''3. **'' @ [0x5B9E, 0x6218, 0x5E94, 0x7528] @ ascii ''**'' @ [0xFF1A, 0x5728,
        0x6A21, 0x62DF, 0x6BD4, 0x8D5B, 0x73AF, 0x5883, 0x4E2D, 0x5E94, 0x7528, 0x6240,
        0x5B66, 0x6280, 0x80FD],
      [],
      ascii ''## '' @ [0x6CE8, 0x610F, 0x4E8B, 0x9879],
      [],
      ascii ''- '' @ [0x5B89, 0x5168, 0x7B2C, 0x4E00, 0xFF1A, 0x5728, 0x4EFB, 0x4F55, 0x7EC3,
        0x4E60, 0x4E2D, 0x90FD, 0x8981, 0x6CE8, 0x610F, 0x5B89, 0x5168],
      ascii ''- '' @ [0x5FAA, 0x5E8F, 0x6E10, 0x8FDB, 0xFF1A, 0x4E0D, 0x8981, 0x6025, 0x4E8E,
        0x6C42, 0x6210, 0xFF0C, 0x7A33, 0x624E, 0x7A33, 0x6253],
      ascii ''- '' @ [0x6301, 0x7EED, 0x7EC3, 0x4E60, 0xFF1A, 0x6280, 0x80FD, 0x7684, 0x63D0,
        0x5347, 0x9700, 0x8981, 0x6301, 0x7EED, 0x7684, 0x7EC3, 0x4E60, 0x548C, 0x79EF,
        0x7D2F],
      [],
      ascii ''## '' @ [0x76F8, 0x5173, 0x94FE, 0x63A5],
      [],
      ascii ''- ['' @ [0x677F, 0x7403, 0x57FA, 0x7840, 0x77E5, 0x8BC6] @ ascii ''](/basics)'',
      ascii ''- ['' @ [0x6280, 0x672F, 0x8BAD, 0x7EC3, 0x65B9,
        0x6CD5] @ ascii ''](/training)'',
      ascii ''- ['' @ [0x6218, 0x672F, 0x7B56, 0x7565, 0x5206, 0x6790] @ ascii ''](/tactics)'',
      [],
      ascii ''---'',
      [],
      ascii ''*'' @ [0x672C, 0x5185, 0x5BB9, 0x4E3A, 0x677F, 0x7403, 0x5B66, 0x4E60, 0x6307,
        0x5357, 0x7684, 0x4E00, 0x90E8, 0x5206, 0xFF0C, 0x65E8, 0x5728, 0x5E2E, 0x52A9,
        0x5B66, 0x4E60, 0x8005, 0x7CFB, 0x7EDF, 0x638C, 0x63E1, 0x677F, 0x7403, 0x77E5,
        0x8BC6, 0x548C, 0x6280, 0x80FD, 0x3002] @ ascii ''*'']"

text \<open>The overview template of \<open>generateMockContent\<close>.\<close>

definition mock_overview_page_lines :: "jstring \<Rightarrow> jstring \<Rightarrow> jstring list" where
  "mock_overview_page_lines t summary = [
      ascii ''# '' @ t,
      [],
      ascii ''## '' @ [0x6982, 0x8FF0],
      [],
      t @ [0x662F, 0x677F, 0x7403, 0x5B66, 0x4E60, 0x4F53, 0x7CFB, 0x4E2D, 0x7684, 0x91CD,
        0x8981, 0x7EC4, 0x6210, 0x90E8, 0x5206, 0x3002, 0x672C, 0x7AE0, 0x8282, 0x5C06,
        0x4E3A, 0x60A8, 0x4ECB, 0x7ECD, 0x76F8, 0x5173, 0x5185, 0x5BB9, 0x6982, 0x89C8,
        0x3002],
      [],
      ascii ''## '' @ [0x4E3B, 0x8981, 0x5185, 0x5BB9],
      [],
      ascii ''### '' @ [0x5305, 0x542B, 0x7684, 0x77E5, 0x8BC6, 0x70B9],
      [],
      [0x672C, 0x7AE0, 0x8282, 0x5305, 0x542B, 0x4EE5, 0x4E0B, 0x4E3B, 0x8981, 0x77E5,
        0x8BC6, 0x70B9, 0xFF1A],
      [],
      summary,
      [],
      ascii ''## '' @ [0x5B66, 0x4E60, 0x5EFA, 0x8BAE],
      [],
      ascii ''- '' @ [0x4ECE, 0x57FA, 0x7840, 0x6982, 0x5FF5, 0x5F00, 0x59CB, 0x5B66, 0x4E60],
      ascii ''- '' @ [0x7ED3, 0x5408, 0x5B9E, 0x9645, 0x7EC3, 0x4E60, 0x52A0, 0x6DF1, 0x7406,
        0x89E3],
      ascii ''- '' @ [0x5FAA, 0x5E8F, 0x6E10, 0x8FDB, 0x638C, 0x63E1, 0x6280, 0x80FD],
      [],
      ascii ''---'',
      [],
      ascii ''*'' @ [0x70B9, 0x51FB, 0x5DE6, 0x4FA7, 0x5BFC, 0x822A, 0x4E2D, 0x7684, 0x5177,
        0x4F53, 0x77E5, 0x8BC6, 0x70B9, 0x5F00, 0x59CB, 0x5B66, 0x4E60] @ ascii ''*'']"

subsection \<open>The overview page, line by line\<close>

text \<open>The summary of the children as the lines it is made of, and those lines as they
  stand in the page: joining no lines leaves one empty line.\<close>

definition summary_lines :: "knowledge_node \<Rightarrow> jstring list" where
  "summary_lines node =
     (case children node of
        Some cs \<Rightarrow> map child_item cs
      | None \<Rightarrow> [ascii ''- '' @ no_subtopics])"

definition summary_block_lines :: "knowledge_node \<Rightarrow> jstring list" where
  "summary_block_lines n = (if summary_lines n = [] then [[]] else summary_lines n)"

abbreviation overview_pre :: "jstring \<Rightarrow> jstring list" where
  "overview_pre t \<equiv> take 12 (overview_page_lines t [])"

abbreviation overview_post :: "jstring list" where
  "overview_post \<equiv> drop 13 (overview_page_lines [] [])"

subsection \<open>The generators\<close>

definition generate_default_content :: "knowledge_node \<Rightarrow> jstring" where
  "generate_default_content node =
     (let lt = level_text (nlevel node)
      in if ntype node = Content then join_with nl (content_page_lines (title node) lt)
         else join_with nl (overview_page_lines (title node) (children_summary node)))"

definition generate_mock_content :: "knowledge_node \<Rightarrow> jstring" where
  "generate_mock_content node =
     (let lt = level_text (nlevel node)
      in if ntype node = Content then join_with nl (mock_content_page_lines (title node) lt)
         else join_with nl (mock_overview_page_lines (title node) (children_summary node)))"

subsection \<open>The placeholder page\<close>

lemma content_page_title_line: "sublist t (content_page_lines t lt ! 0)"
  by (simp add: content_page_lines_def)

lemma content_page_level_line: "sublist lt (content_page_lines t lt ! 4)"
  by (simp add: content_page_lines_def)
     (intro sublist_append_rightI2 sublist_Cons_rightI sublist_append_rightI)

lemma content_page_line_mem:
  "i \<le> 4 \<Longrightarrow> content_page_lines t lt ! i \<in> set (content_page_lines t lt)"
  by (rule nth_mem) (simp add: content_page_lines_def)

lemma format_content_first_line:
  "nl \<notin> set w \<Longrightarrow> format_content (w @ nl # s) = format_line w # format_content s"
  by (simp add: format_content_def split_on_delim_append)

lemma generate_default_content_first_line:
  "\<exists>s. generate_default_content n = ascii ''# '' @ title n @ nl # s"
  by (simp add: generate_default_content_def content_page_lines_def overview_page_lines_def Let_def)

lemma generate_default_content_title_inj:
  assumes "nl \<notin> set (title a)" and "nl \<notin> set (title b)"
    and "generate_default_content a = generate_default_content b"
  shows "title a = title b"
proof -
  obtain sa where sa: "generate_default_content a = (ascii ''# '' @ title a) @ nl # sa"
    using generate_default_content_first_line [of a] by auto
  obtain sb where sb: "generate_default_content b = (ascii ''# '' @ title b) @ nl # sb"
    using generate_default_content_first_line [of b] by auto
  have na: "nl \<notin> set (ascii ''# '' @ title a)" and nb: "nl \<notin> set (ascii ''# '' @ title b)"
    using assms(1,2) by (simp_all add: nl_def ascii_Cons)
  from assms(3) have "split_on nl ((ascii ''# '' @ title a) @ nl # sa) = split_on nl ((ascii ''# '' @ title b) @ nl # sb)"
    by (simp only: sa sb)
  then have "ascii ''# '' @ title a = ascii ''# '' @ title b"
    by (simp only: split_on_delim_append [OF na] split_on_delim_append [OF nb] list.inject)
  then show ?thesis by simp
qed

text \<open>C14. For any node whose title holds no line feed, the formatted placeholder opens
  with a level-1 heading whose text is the title.\<close>

theorem placeholder_title_heading:
  assumes "nl \<notin> set (title n)"
  shows "\<exists>bs. format_content (generate_default_content n) = Heading1 (title n) # bs"
proof -
  obtain s where s: "generate_default_content n = ascii ''# '' @ title n @ nl # s"
    using generate_default_content_first_line by blast
  have h: "nl \<notin> set (ascii ''# '' @ title n)"
    using assms by (simp add: nl_def ascii_Cons)
  have "format_content (generate_default_content n) =
          format_line (ascii ''# '' @ title n) # format_content s"
    using format_content_first_line [OF h, of s] s by simp
  then show ?thesis by (simp add: format_line_heading1)
qed

theorem placeholder_title_heading_witness:
  "\<exists>bs. format_content (generate_default_content bowling_leaf) = Heading1 (ascii ''Bowling'') # bs"
proof -
  have h: "nl \<notin> set (title bowling_leaf)"
    by (simp add: bowling_leaf_def nl_def ascii_Cons)
  show ?thesis
    using placeholder_title_heading [OF h] by (simp add: bowling_leaf_def)
qed

text \<open>C15. The placeholder of a \<open>content\<close> node contains the node's title and its
  level text (``entry level'' for a beginner node).\<close>

theorem placeholder_mentions_title_level:
  assumes "ntype n = Content"
  shows "sublist (title n) (generate_default_content n) \<and>
         sublist (level_text (nlevel n)) (generate_default_content n)"
proof -
  let ?ls = "content_page_lines (title n) (level_text (nlevel n))"
  have g: "generate_default_content n = join_with nl ?ls"
    using assms by (simp add: generate_default_content_def)
  have "sublist (?ls ! 0) (join_with nl ?ls)" and "sublist (?ls ! 4) (join_with nl ?ls)"
    by (simp_all add: join_with_sublist content_page_line_mem)
  with g show ?thesis
    using content_page_title_line content_page_level_line
    by (metis sublist_order.order_trans)
qed

theorem placeholder_mentions_title_level_witness:
  "sublist (ascii ''Bowling'') (generate_default_content bowling_leaf) \<and>
   sublist [0x5165, 0x95E8, 0x7EA7] (generate_default_content bowling_leaf)"
proof -
  have h: "ntype bowling_leaf = Content" by (simp add: bowling_leaf_def)
  show ?thesis
    using placeholder_mentions_title_level [OF h] by (simp add: bowling_leaf_def)
qed

subsection \<open>The overview page\<close>

lemma children_summary_join: "children_summary n = join_with nl (summary_lines n)"
  by (simp add: children_summary_def summary_lines_def split: option.splits)

lemma overview_page_split:
  "overview_page_lines t s = take 12 (overview_page_lines t []) @ s # drop 13 (overview_page_lines [] [])"
  by (simp add: overview_page_lines_def)

lemma overview_lines_no_nl:
  "nl \<notin> set t \<Longrightarrow> \<forall>l \<in> set (take 12 (overview_page_lines t []) @ drop 13 (overview_page_lines [] [])). nl \<notin> set l"
  by (simp add: overview_page_lines_def nl_def ascii_Cons)

lemma overview_lines_no_fallback:
  "ascii ''- '' @ no_subtopics \<notin> set (take 12 (overview_page_lines t []) @ drop 13 (overview_page_lines [] []))"
  by (simp add: overview_page_lines_def no_subtopics_def ascii_Cons)


lemma generate_overview:
  assumes "ntype n \<noteq> Content"
  shows "generate_default_content n =
           join_with nl (overview_pre (title n) @ summary_block_lines n @ overview_post)"
proof -
  have "generate_default_content n =
          join_with nl (overview_pre (title n) @ join_with nl (summary_lines n) # overview_post)"
    using assms overview_page_split [of "title n" "children_summary n"]
    by (simp add: generate_default_content_def children_summary_join)
  then show ?thesis by (simp add: join_with_nested summary_block_lines_def)
qed

lemma child_item_no_nl: "nl \<notin> set (title c) \<Longrightarrow> nl \<notin> set (child_item c)"
  by (simp add: child_item_def nl_def ascii_Cons)

lemma fallback_no_nl: "nl \<notin> set (ascii ''- '' @ no_subtopics)"
  by (simp add: no_subtopics_def nl_def ascii_Cons)

lemma summary_block_lines_no_nl:
  assumes "\<forall>c \<in> set (child_list n). nl \<notin> set (title c)"
  shows "\<forall>l \<in> set (summary_block_lines n). nl \<notin> set l"
  using assms child_item_no_nl fallback_no_nl
  by (auto simp: summary_block_lines_def summary_lines_def child_list_def split: option.splits)

lemma format_overview:
  assumes "ntype n \<noteq> Content" and "nl \<notin> set (title n)"
    and "\<forall>c \<in> set (child_list n). nl \<notin> set (title c)"
  shows "format_content (generate_default_content n) =
           map format_line (overview_pre (title n) @ summary_block_lines n @ overview_post)"
proof -
  have "\<forall>l \<in> set (overview_pre (title n) @ summary_block_lines n @ overview_post). nl \<notin> set l"
    using overview_lines_no_nl [OF assms(2)] summary_block_lines_no_nl [OF assms(3)] by auto
  moreover have "overview_pre (title n) @ summary_block_lines n @ overview_post \<noteq> []"
    by (simp add: overview_page_lines_def)
  ultimately show ?thesis
    by (simp add: generate_overview [OF assms(1)] format_content_def split_join)
qed

lemma format_line_child_item: "format_line (child_item c) = ListItem (ascii ''**'' @ title c @ ascii ''**'')"
proof -
  have "child_item c = ascii ''- '' @ (ascii ''**'' @ title c @ ascii ''**'')"
    by (simp add: child_item_def ascii_Cons)
  then show ?thesis by (simp add: format_line_list_item)
qed

text \<open>C16. On the overview page of a node that is not of type \<open>content\<close>, every child
  appears as its own list item, whose text keeps the literal \<open>**\<close> markers (the
  formatter does not interpret bold markup).\<close>

theorem placeholder_lists_children:
  assumes "ntype n \<noteq> Content" and "nl \<notin> set (title n)"
    and "\<forall>c \<in> set (child_list n). nl \<notin> set (title c)" and "c \<in> set (child_list n)"
  shows "ListItem (ascii ''**'' @ title c @ ascii ''**'') \<in> set (format_content (generate_default_content n))"
proof -
  have "child_item c \<in> set (summary_block_lines n)"
    using assms(4)
    by (auto simp: summary_block_lines_def summary_lines_def child_list_def split: option.splits)
  then show ?thesis
    by (auto simp: format_overview [OF assms(1-3)] format_line_child_item [symmetric])
qed

theorem placeholder_lists_children_witness:
  "ListItem (ascii ''**Bowling**'') \<in> set (format_content (generate_default_content skills_root))"
proof -
  have h1: "ntype skills_root \<noteq> Content" and h2: "nl \<notin> set (title skills_root)"
    and h3: "\<forall>c \<in> set (child_list skills_root). nl \<notin> set (title c)"
    and h4: "bowling_leaf \<in> set (child_list skills_root)"
    by (simp_all add: skills_root_def bowling_leaf_def child_list_def nl_def ascii_Cons)
  show ?thesis
    using placeholder_lists_children [OF h1 h2 h3 h4] by (simp add: bowling_leaf_def ascii_Cons)
qed

text \<open>C17. On the overview page, the item ``no sub-topics'' appears exactly when the
  node has no \<open>children\<close> field: a node whose \<open>children\<close> is an empty array (which
  JavaScript treats as true) gets an empty line instead.\<close>

theorem placeholder_no_subtopics:
  assumes "ntype n \<noteq> Content" and "nl \<notin> set (title n)"
    and "\<forall>c \<in> set (child_list n). nl \<notin> set (title c)"
  shows "ListItem no_subtopics \<in> set (format_content (generate_default_content n)) \<longleftrightarrow>
         children n = None"
proof -
  have items: "ascii ''- '' @ no_subtopics \<noteq> child_item c" for c
    by (simp add: child_item_def no_subtopics_def ascii_Cons)
  have "ascii ''- '' @ no_subtopics \<in> set (summary_block_lines n) \<longleftrightarrow> children n = None"
    using items
    by (auto simp: summary_block_lines_def summary_lines_def no_subtopics_def split: option.splits)
  then show ?thesis
    using overview_lines_no_fallback [of "title n"]
    by (simp add: format_overview [OF assms] ListItem_in_format_line_image)
qed

theorem placeholder_no_subtopics_witness:
  "ListItem no_subtopics \<notin>
     set (format_content (generate_default_content
       (KNode (ascii ''s'') (ascii ''S'') Section None (Some []))))"
proof -
  let ?n = "KNode (ascii ''s'') (ascii ''S'') Section None (Some [])"
  have h1: "ntype ?n \<noteq> Content" and h2: "nl \<notin> set (title ?n)"
    and h3: "\<forall>c \<in> set (child_list ?n). nl \<notin> set (title c)"
    by (simp_all add: child_list_def nl_def ascii_Cons)
  show ?thesis using placeholder_no_subtopics [OF h1 h2 h3] by simp
qed

subsection \<open>The unused twin\<close>

lemma mock_content_page_lines_eq: "mock_content_page_lines = content_page_lines"
  by (simp add: fun_eq_iff mock_content_page_lines_def content_page_lines_def)

lemma mock_overview_page_lines_eq: "mock_overview_page_lines = overview_page_lines"
  by (simp add: fun_eq_iff mock_overview_page_lines_def overview_page_lines_def)

text \<open>C30. \<open>generateMockContent\<close> is the same function as \<open>generateDefaultContent\<close>:
  both template literals agree code unit for code unit, for every node.\<close>

theorem generate_mock_content_eq: "generate_mock_content = generate_default_content"
  by (simp add: fun_eq_iff generate_mock_content_def generate_default_content_def
      mock_content_page_lines_eq mock_overview_page_lines_eq)

end
