(* ===== verification/ContentArea.thy ===== *)
theory ContentArea
  imports Placeholder
begin

text \<open>
  The content panel of \<open>src/src/components/ContentArea.tsx\<close>: its state (the text
  and the loading flag), \<open>loadContent\<close> split at its \<open>await\<close> into the part that
  runs when the effect fires (\<open>start_load\<close>) and the part that runs when the fetch
  settles (\<open>finish_load\<close>), the lookup \<open>contentData[node.id]\<close> with
  JavaScript's property semantics, \<open>getBreadcrumbs\<close>, and the rendered panel.
\<close>

subsection \<open>The content document\<close>

text \<open>
  A property value of the parsed \<open>cricket-content.json\<close>: a truthy value whose
  \<open>content\<close> field is a string (\<open>Some\<close>) or is not a string (\<open>None\<close>: missing,
  or of another type), or a falsy value (\<open>null\<close>, \<open>false\<close>, \<open>0\<close>, \<open>""\<close>).
  The document maps own property names to values.
\<close>

datatype content_entry = EntryObject "jstring option" | EntryFalsy

type_synonym content_doc = "jstring \<Rightarrow> content_entry option"

text \<open>What the fetch delivers: a failure (network error, a body that is not JSON, or a
  JSON value that is not an object, for which the lookup throws or finds nothing) or an
  object.\<close>

datatype content_fetch = ContentFetchFailed | ContentDocument content_doc

text \<open>The names every parsed JSON object inherits from \<open>Object.prototype\<close>: a
  lookup \<open>contentData[k]\<close> of one of them that the document does not define finds a
  function (or the prototype itself), which is truthy and has no \<open>content\<close>.\<close>

definition object_prototype_keys :: "jstring list" where
  "object_prototype_keys = map ascii [''constructor'', ''hasOwnProperty'', ''isPrototypeOf'',
     ''propertyIsEnumerable'', ''toLocaleString'', ''toString'', ''valueOf'', ''__proto__'',
     ''__defineGetter__'', ''__defineSetter__'', ''__lookupGetter__'', ''__lookupSetter__'']"

definition js_lookup :: "content_doc \<Rightarrow> jstring \<Rightarrow> content_entry option" where
  "js_lookup doc k =
     (case doc k of
        Some e \<Rightarrow> Some e
      | None \<Rightarrow> if k \<in> set object_prototype_keys then Some (EntryObject None) else None)"

subsection \<open>Loading\<close>

text \<open>The value \<open>setContent\<close> receives: the stored \<open>content\<close> on a truthy hit, the
  placeholder on a miss, a falsy hit or a failure. \<open>None\<close> is a value that is not a
  string.\<close>

fun resolve_content :: "knowledge_node \<Rightarrow> content_fetch \<Rightarrow> jstring option" where
  "resolve_content node ContentFetchFailed = Some (generate_default_content node)"
| "resolve_content node (ContentDocument doc) =
     (case js_lookup doc (node_id node) of
        Some (EntryObject c) \<Rightarrow> c
      | _ \<Rightarrow> Some (generate_default_content node))"

record content_state =
  content :: "jstring option"
  content_loading :: bool

definition content_init :: content_state where
  "content_init = \<lparr>content = Some [], content_loading = False\<rparr>"

definition start_load :: "content_state \<Rightarrow> content_state" where
  "start_load s = s\<lparr>content_loading := True\<rparr>"

definition finish_load :: "knowledge_node \<Rightarrow> content_fetch \<Rightarrow> content_state \<Rightarrow> content_state" where
  "finish_load node r s = s\<lparr>content := resolve_content node r, content_loading := False\<rparr>"

subsection \<open>Breadcrumbs\<close>

record crumb =
  crumb_title :: jstring
  crumb_id :: jstring

text \<open>The three fixed ancestors the breadcrumbs name: ``basic knowledge'', ``history and
  development'', ``origin and evolution''.\<close>

definition basic_crumb :: crumb where
  "basic_crumb = \<lparr>crumb_title = [0x57FA, 0x7840, 0x77E5, 0x8BC6], crumb_id = ascii ''basic-knowledge''\<rparr>"

definition history_crumb :: crumb where
  "history_crumb = \<lparr>crumb_title = [0x5386, 0x53F2, 0x4E0E, 0x53D1, 0x5C55],
     crumb_id = ascii ''history-development''\<rparr>"

definition origin_crumb :: crumb where
  "origin_crumb = \<lparr>crumb_title = [0x8D77, 0x6E90, 0x4E0E, 0x6F14, 0x53D8],
     crumb_id = ascii ''origin-evolution''\<rparr>"

definition node_crumb :: "knowledge_node \<Rightarrow> crumb" where
  "node_crumb node = \<lparr>crumb_title = title node, crumb_id = node_id node\<rparr>"

fun get_breadcrumbs :: "knowledge_node option \<Rightarrow> crumb list" where
  "get_breadcrumbs None = []"
| "get_breadcrumbs (Some node) =
     (case ntype node of
        Category \<Rightarrow> [node_crumb node]
      | Section \<Rightarrow> [basic_crumb, node_crumb node]
      | Subsection \<Rightarrow> [basic_crumb, history_crumb, node_crumb node]
      | Content \<Rightarrow> [basic_crumb, history_crumb, origin_crumb, node_crumb node])"

text \<open>The breadcrumb bar: a link home (``home page'') and, for each crumb, a fragment
  keyed by the crumb's id holding a chevron and either the crumb's title, for the last
  crumb, or a link to \<open>#id\<close>.\<close>

datatype crumb_item = Chevron | CrumbLink jstring jstring | CrumbText jstring

datatype crumb_fragment = CrumbFragment (fragment_key: jstring) "crumb_item list"

definition home_link :: crumb_item where
  "home_link = CrumbLink (ascii ''/'') [0x9996, 0x9875]"

definition render_breadcrumbs :: "crumb list \<Rightarrow> crumb_item \<times> crumb_fragment list" where
  "render_breadcrumbs crumbs =
     (home_link,
      map (\<lambda>(i, c). CrumbFragment (crumb_id c)
                      [Chevron, if i = length crumbs - 1 then CrumbText (crumb_title c)
                                else CrumbLink (ascii ''#'' @ crumb_id c) (crumb_title c)])
          (enumerate 0 crumbs))"

subsection \<open>The rendered panel\<close>

datatype article_body = LoadingSkeleton nat | Blocks "block list"

text \<open>Without a selection, the fixed welcome page; otherwise the breadcrumbs, the level
  badge (``entry level'', ``advancing level'', ``professional level''), the title, and
  either ten loading bars or \<open>formatContent(content)\<close>, which throws when the content
  is not a string.\<close>

text \<open>The welcome page shown without a selection: its heading (``welcome to the cricket
  learning guide''), its subtitle, and the six topic cards with their title, description
  and colour class.\<close>

record welcome_card =
  card_title :: jstring
  card_desc :: jstring
  card_color :: jstring

definition welcome_heading :: jstring where
  "welcome_heading = [0x6B22, 0x8FCE, 0x6765, 0x5230, 0x677F, 0x7403, 0x5B66, 0x4E60, 0x6307, 0x5357]"

definition welcome_subtitle :: jstring where
  "welcome_subtitle = [0x4ECE, 0x5DE6, 0x4FA7, 0x5BFC, 0x822A, 0x4E2D, 0x9009, 0x62E9, 0x60A8, 0x60F3,
     0x5B66, 0x4E60, 0x7684, 0x77E5, 0x8BC6, 0x70B9, 0xFF0C, 0x5F00, 0x59CB, 0x60A8, 0x7684, 0x677F,
     0x7403, 0x5B66, 0x4E60, 0x4E4B, 0x65C5]"

definition welcome_cards :: "welcome_card list" where
  "welcome_cards =
     [\<lparr>card_title = [0x57FA, 0x7840, 0x77E5, 0x8BC6],
       card_desc = [0x4E86, 0x89E3, 0x677F, 0x7403, 0x7684, 0x5386, 0x53F2, 0x3001, 0x89C4, 0x5219,
                    0x548C, 0x57FA, 0x672C, 0x6982, 0x5FF5],
       card_color = ascii ''bg-primary-500''\<rparr>,
      \<lparr>card_title = [0x6280, 0x672F, 0x6280, 0x80FD],
       card_desc = [0x5B66, 0x4E60, 0x51FB, 0x7403, 0x3001, 0x6295, 0x7403, 0x3001, 0x5B88, 0x5907,
                    0x7B49, 0x6838, 0x5FC3, 0x6280, 0x672F],
       card_color = ascii ''bg-semantic-success''\<rparr>,
      \<lparr>card_title = [0x6218, 0x672F, 0x7B56, 0x7565],
       card_desc = [0x638C, 0x63E1, 0x56E2, 0x961F, 0x6218, 0x672F, 0x548C, 0x4E2A, 0x4EBA, 0x7B56, 0x7565],
       card_color = ascii ''bg-semantic-warning''\<rparr>,
      \<lparr>card_title = [0x8BAD, 0x7EC3, 0x65B9, 0x6CD5],
       card_desc = [0x79D1, 0x5B66, 0x7684, 0x8BAD, 0x7EC3, 0x65B9, 0x6CD5, 0x548C, 0x8BA1, 0x5212],
       card_color = ascii ''bg-semantic-info''\<rparr>,
      \<lparr>card_title = [0x5FC3, 0x7406, 0x6218, 0x672F],
       card_desc = [0x5FC3, 0x7406, 0x6280, 0x80FD, 0x548C, 0x538B, 0x529B, 0x7BA1, 0x7406],
       card_color = ascii ''bg-semantic-error''\<rparr>,
      \<lparr>card_title = [0x6BD4, 0x8D5B, 0x7BA1, 0x7406],
       card_desc = [0x8D5B, 0x524D, 0x3001, 0x8D5B, 0x4E2D, 0x3001, 0x8D5B, 0x540E, 0x7684, 0x7BA1, 0x7406],
       card_color = ascii ''bg-neutral-600''\<rparr>]"

text \<open>The classes of a card: its container and its coloured icon box.\<close>

definition welcome_card_classes :: "welcome_card \<Rightarrow> jstring list" where
  "welcome_card_classes c =
     [ascii ''bg-neutral-800 rounded-lg p-6 hover:bg-neutral-750 transition-colors'',
      ascii ''w-12 h-12 '' @ card_color c @ ascii '' rounded-lg flex items-center justify-center mb-4'']"

datatype content_view =
    WelcomeView jstring jstring "welcome_card list"
  | ArticleView "crumb list" "(level \<times> jstring) option" jstring article_body

definition render_content_area ::
  "knowledge_node option \<Rightarrow> content_state \<Rightarrow> render_error + content_view" where
  "render_content_area selected s =
     (case selected of
        None \<Rightarrow> Inr (WelcomeView welcome_heading welcome_subtitle welcome_cards)
      | Some node \<Rightarrow>
          (let crumbs = get_breadcrumbs (Some node);
               badge = map_option (\<lambda>l. (l, level_text (Some l))) (nlevel node)
           in if content_loading s
              then Inr (ArticleView crumbs badge (title node) (LoadingSkeleton 10))
              else case content s of
                     None \<Rightarrow> Inl TypeError
                   | Some c \<Rightarrow> Inr (ArticleView crumbs badge (title node) (Blocks (format_content c)))))"

subsection \<open>What the panel shows after a load\<close>

lemma finish_load_fields [model_simps]:
  "content (finish_load n r s) = resolve_content n r"
  "content_loading (finish_load n r s) = False"
  by (simp_all add: finish_load_def)

lemma render_loaded:
  "render_content_area (Some n) (finish_load n r s) =
     (case resolve_content n r of
        None \<Rightarrow> Inl TypeError
      | Some c \<Rightarrow> Inr (ArticleView (get_breadcrumbs (Some n))
                      (map_option (\<lambda>l. (l, level_text (Some l))) (nlevel n)) (title n)
                      (Blocks (format_content c))))"
  by (simp add: render_content_area_def finish_load_def Let_def split: option.splits)

text \<open>C18. When the document has an entry for the node with a string \<open>content\<close>, the
  panel shows exactly that text, formatted, and is no longer loading.\<close>

theorem content_hit_shows_stored_text:
  assumes "doc (node_id n) = Some (EntryObject (Some text))"
  shows "render_content_area (Some n) (finish_load n (ContentDocument doc) s) =
           Inr (ArticleView (get_breadcrumbs (Some n))
                  (map_option (\<lambda>l. (l, level_text (Some l))) (nlevel n)) (title n)
                  (Blocks (format_content text)))"
  using assms by (simp add: render_loaded js_lookup_def)

theorem content_hit_shows_stored_text_witness:
  "render_content_area (Some bowling_leaf)
     (finish_load bowling_leaf (ContentDocument [ascii ''x'' \<mapsto> EntryObject (Some (ascii ''# Bowling''))])
        content_init) =
   Inr (ArticleView (get_breadcrumbs (Some bowling_leaf)) (Some (Beginner, level_text (Some Beginner)))
          (ascii ''Bowling'') (Blocks [Heading1 (ascii ''Bowling'')]))"
proof -
  have h: "[ascii ''x'' \<mapsto> EntryObject (Some (ascii ''# Bowling''))] (node_id bowling_leaf) =
             Some (EntryObject (Some (ascii ''# Bowling'')))"
    by (simp add: bowling_leaf_def)
  have f: "format_content (ascii ''# Bowling'') = [Heading1 (ascii ''Bowling'')]"
    by (simp add: format_content_def format_line_def nl_def ascii_Cons js_simps)
  show ?thesis
    using content_hit_shows_stored_text
        [of "[ascii ''x'' \<mapsto> EntryObject (Some (ascii ''# Bowling''))]" bowling_leaf
            "ascii ''# Bowling''" content_init, OF h]
    by (simp add: f bowling_leaf_def)
qed

text \<open>C19. A missing key (not inherited from \<open>Object.prototype\<close>) and a falsy entry
  are handled exactly like a failed fetch: the content becomes the placeholder of the
  node.\<close>

theorem content_miss_like_failure:
  assumes "node_id n \<notin> set object_prototype_keys"
    and "doc (node_id n) = None \<or> doc (node_id n) = Some EntryFalsy"
  shows "finish_load n (ContentDocument doc) s = finish_load n ContentFetchFailed s \<and>
         content (finish_load n ContentFetchFailed s) = Some (generate_default_content n)"
  using assms by (auto simp: finish_load_def js_lookup_def)

theorem content_miss_like_failure_witness:
  "finish_load bowling_leaf (ContentDocument Map.empty) content_init =
     finish_load bowling_leaf ContentFetchFailed content_init \<and>
   content (finish_load bowling_leaf ContentFetchFailed content_init) =
     Some (generate_default_content bowling_leaf)"
proof -
  have h1: "node_id bowling_leaf \<notin> set object_prototype_keys"
    by (simp add: bowling_leaf_def object_prototype_keys_def ascii_Cons)
  have h2: "Map.empty (node_id bowling_leaf) = None \<or> Map.empty (node_id bowling_leaf) = Some EntryFalsy"
    by simp
  show ?thesis using content_miss_like_failure [OF h1 h2] .
qed

text \<open>C20. A node whose id is a name inherited from \<open>Object.prototype\<close> (such as
  \<open>"constructor"\<close>) and that the document does not define, or whose entry has no
  string \<open>content\<close>, sets the content to a non-string, and the panel then throws
  instead of showing the placeholder.\<close>

theorem content_non_string_crashes:
  assumes "(doc (node_id n) = None \<and> node_id n \<in> set object_prototype_keys) \<or>
           doc (node_id n) = Some (EntryObject None)"
  shows "render_content_area (Some n) (finish_load n (ContentDocument doc) s) = Inl TypeError"
  using assms by (auto simp: render_loaded js_lookup_def)

theorem content_non_string_crashes_witness:
  "render_content_area (Some (KNode (ascii ''constructor'') (ascii ''Rules'') Content None None))
     (finish_load (KNode (ascii ''constructor'') (ascii ''Rules'') Content None None)
        (ContentDocument Map.empty) content_init) = Inl TypeError"
proof -
  have h: "(Map.empty (node_id (KNode (ascii ''constructor'') (ascii ''Rules'') Content None None)) =
              (None :: content_entry option) \<and>
            node_id (KNode (ascii ''constructor'') (ascii ''Rules'') Content None None)
              \<in> set object_prototype_keys) \<or>
           Map.empty (node_id (KNode (ascii ''constructor'') (ascii ''Rules'') Content None None)) =
             Some (EntryObject None)"
    by (simp add: object_prototype_keys_def)
  show ?thesis using content_non_string_crashes [OF h] .
qed

lemma render_loading:
  "content_loading s \<Longrightarrow> render_content_area (Some n) s =
     Inr (ArticleView (get_breadcrumbs (Some n))
            (map_option (\<lambda>l. (l, level_text (Some l))) (nlevel n)) (title n) (LoadingSkeleton 10))"
  by (simp add: render_content_area_def)

text \<open>C22. The breadcrumb trail is a fixed prefix of ``basic knowledge'', ``history and
  development'', ``origin and evolution'' whose length depends only on the node's type,
  followed by the node itself: it never reflects where the node sits in the tree. The bar
  links every fixed crumb to its anchor and shows the node's title as plain text, and
  the React keys of its fragments are unique exactly when the node's id differs from the
  ids of the fixed crumbs before it.\<close>

theorem breadcrumbs_fixed_trail:
  "(let pre = take (case ntype n of Category \<Rightarrow> 0 | Section \<Rightarrow> 1 | Subsection \<Rightarrow> 2 | Content \<Rightarrow> 3)
                [basic_crumb, history_crumb, origin_crumb]
    in get_breadcrumbs (Some n) = pre @ [node_crumb n] \<and>
       render_breadcrumbs (get_breadcrumbs (Some n)) =
         (home_link, map (\<lambda>c. CrumbFragment (crumb_id c)
                                 [Chevron, CrumbLink (ascii ''#'' @ crumb_id c) (crumb_title c)]) pre @
                     [CrumbFragment (node_id n) [Chevron, CrumbText (title n)]]) \<and>
       (distinct (map fragment_key (snd (render_breadcrumbs (get_breadcrumbs (Some n))))) \<longleftrightarrow>
          node_id n \<notin> set (map crumb_id pre)))"
  by (cases "ntype n")
     (auto simp: render_breadcrumbs_def node_crumb_def basic_crumb_def history_crumb_def
        origin_crumb_def ascii_Cons_cu)

text \<open>A section whose id is \<open>basic-knowledge\<close> repeats the key of the fixed crumb before it.\<close>

theorem breadcrumbs_fixed_trail_witness:
  "\<not> distinct (map fragment_key (snd (render_breadcrumbs
       (get_breadcrumbs (Some (KNode (ascii ''basic-knowledge'') (ascii ''Basics'') Section None None))))))"
  using breadcrumbs_fixed_trail [of "KNode (ascii ''basic-knowledge'') (ascii ''Basics'') Section None None"]
  by (simp add: basic_crumb_def Let_def)

end
