(* ===== verification/Layout.thy ===== *)
theory Layout
  imports JsString Knowledge
begin

text \<open>
  The layout shell of \<open>src/src/components/Layout.tsx\<close> and the header of
  \<open>src/src/components/Header.tsx\<close>. The layout owns the selected node, the mobile
  menu flag and the search query (stored, logged, and used for nothing else); the
  header owns the text of its search box and reports a trimmed, non-empty query on
  submit.
\<close>

record layout_state =
  selected_node :: "knowledge_node option"
  mobile_menu_open :: bool
  search_query :: jstring

definition layout_init :: layout_state where
  "layout_init = \<lparr>selected_node = None, mobile_menu_open = False, search_query = []\<rparr>"

definition handle_node_select :: "knowledge_node \<Rightarrow> layout_state \<Rightarrow> layout_state" where
  "handle_node_select node l = l\<lparr>selected_node := Some node, mobile_menu_open := False\<rparr>"

definition handle_search :: "jstring \<Rightarrow> layout_state \<Rightarrow> layout_state" where
  "handle_search query l = l\<lparr>search_query := query\<rparr>"

definition handle_menu_toggle :: "layout_state \<Rightarrow> layout_state" where
  "handle_menu_toggle l = l\<lparr>mobile_menu_open := \<not> mobile_menu_open l\<rparr>"

text \<open>The overlay, rendered only while the menu is open, closes it.\<close>

definition overlay_click :: "layout_state \<Rightarrow> layout_state" where
  "overlay_click l = l\<lparr>mobile_menu_open := False\<rparr>"

text \<open>The sidebar panel is shown on small screens only while the menu is open.\<close>

definition sidebar_visible_mobile :: "layout_state \<Rightarrow> bool" where
  "sidebar_visible_mobile l \<longleftrightarrow> mobile_menu_open l"

record header_state =
  header_query :: jstring

definition header_init :: header_state where
  "header_init = \<lparr>header_query = []\<rparr>"

definition header_input :: "jstring \<Rightarrow> header_state \<Rightarrow> header_state" where
  "header_input v h = h\<lparr>header_query := v\<rparr>"

text \<open>\<open>handleSearch\<close> of the header: the query passed to \<open>onSearch\<close>, if any.\<close>

definition header_submit :: "header_state \<Rightarrow> jstring option" where
  "header_submit h = (if js_trim (header_query h) \<noteq> [] then Some (js_trim (header_query h)) else None)"

datatype menu_icon = MenuIcon | CloseIcon

definition header_menu_icon :: "layout_state \<Rightarrow> menu_icon" where
  "header_menu_icon l = (if mobile_menu_open l then CloseIcon else MenuIcon)"

text \<open>What the header renders (lines 26--81): the menu button's icon, the logo
  character, the site title and subtitle, the search box (its value is the header's own
  query, its placeholder ``search cricket topics...'') and the fixed progress label.\<close>

record header_view =
  hv_menu_icon :: menu_icon
  hv_logo :: jstring
  hv_title :: jstring
  hv_subtitle :: jstring
  hv_search_value :: jstring
  hv_search_placeholder :: jstring
  hv_progress_label :: jstring

definition render_header :: "layout_state \<Rightarrow> header_state \<Rightarrow> header_view" where
  "render_header l h =
     \<lparr>hv_menu_icon = header_menu_icon l,
      hv_logo = [0x677F],
      hv_title = [0x677F, 0x7403, 0x5B66, 0x4E60, 0x6307, 0x5357],
      hv_subtitle = [0x4ECE, 0x89C4, 0x5219, 0x5230, 0x6280, 0x672F, 0x7684, 0x7CFB, 0x7EDF, 0x6559, 0x7A0B],
      hv_search_value = header_query h,
      hv_search_placeholder = [0x641C, 0x7D22, 0x677F, 0x7403, 0x77E5, 0x8BC6, 0x70B9, 0x2E, 0x2E, 0x2E],
      hv_progress_label = [0x5B66, 0x4E60, 0x8FDB, 0x5EA6]\<rparr>"

subsection \<open>The components' props and the layout's wiring\<close>

text \<open>Props of the header (\<open>HeaderProps\<close>, \<open>Header.tsx\<close> lines 6--16): two optional
  callbacks into the state \<open>'s\<close> of the parent and the optional menu flag, which
  defaults to \<open>false\<close>.\<close>

record 's header_props =
  on_search :: "(jstring \<Rightarrow> 's \<Rightarrow> 's) option"
  on_menu_toggle :: "('s \<Rightarrow> 's) option"
  is_mobile_menu_open :: "bool option"

definition header_menu_open :: "'s header_props \<Rightarrow> bool" where
  "header_menu_open p = (case is_mobile_menu_open p of None \<Rightarrow> False | Some b \<Rightarrow> b)"

text \<open>\<open>handleSearch\<close> calls \<open>onSearch\<close>, when there is one, with the trimmed query
  when it is not empty; the menu button's \<open>onClick\<close> is \<open>onMenuToggle\<close> itself.\<close>

definition header_search :: "'s header_props \<Rightarrow> header_state \<Rightarrow> 's \<Rightarrow> 's" where
  "header_search p h =
     (case on_search p of
        None \<Rightarrow> id
      | Some f \<Rightarrow> (case header_submit h of None \<Rightarrow> id | Some q \<Rightarrow> f q))"

definition header_menu_click :: "'s header_props \<Rightarrow> 's \<Rightarrow> 's" where
  "header_menu_click p = (case on_menu_toggle p of None \<Rightarrow> id | Some f \<Rightarrow> f)"

text \<open>Props of the sidebar (\<open>SidebarProps\<close>, \<open>Sidebar.tsx\<close> lines 14--24) and its
  \<open>handleNodeClick\<close> (lines 58--62), which forwards the node to \<open>onNodeSelect\<close>
  when there is one.\<close>

record 's sidebar_props =
  sidebar_class_name :: "jstring option"
  on_node_select :: "(knowledge_node \<Rightarrow> 's \<Rightarrow> 's) option"
  selected_node_id :: "jstring option"

definition handle_node_click :: "'s sidebar_props \<Rightarrow> knowledge_node \<Rightarrow> 's \<Rightarrow> 's" where
  "handle_node_click p node = (case on_node_select p of None \<Rightarrow> id | Some f \<Rightarrow> f node)"

text \<open>Props of the content area (\<open>ContentAreaProps\<close>, \<open>ContentArea.tsx\<close> lines
  14--19). Its \<open>className\<close> is interpolated into a template literal, where a missing
  value prints as \<open>undefined\<close>.\<close>

record content_area_props =
  ca_selected_node :: "knowledge_node option"
  ca_class_name :: "jstring option"

definition js_template_value :: "jstring option \<Rightarrow> jstring" where
  "js_template_value v = (case v of None \<Rightarrow> ascii ''undefined'' | Some s \<Rightarrow> s)"

definition content_area_class :: "content_area_props \<Rightarrow> jstring" where
  "content_area_class p = js_template_value (ca_class_name p)"

text \<open>What the layout passes to its three children (lines 41--45, 68--71 and 76--79).\<close>

definition layout_header_props :: "layout_state \<Rightarrow> layout_state header_props" where
  "layout_header_props l =
     \<lparr>on_search = Some handle_search, on_menu_toggle = Some handle_menu_toggle,
      is_mobile_menu_open = Some (mobile_menu_open l)\<rparr>"

definition layout_sidebar_props :: "layout_state \<Rightarrow> layout_state sidebar_props" where
  "layout_sidebar_props l =
     \<lparr>sidebar_class_name = None, on_node_select = Some handle_node_select,
      selected_node_id = map_option node_id (selected_node l)\<rparr>"

definition layout_content_props :: "layout_state \<Rightarrow> content_area_props" where
  "layout_content_props l = \<lparr>ca_selected_node = selected_node l, ca_class_name = Some (ascii ''flex-1'')\<rparr>"

subsection \<open>The router\<close>

text \<open>\<open>App.tsx\<close>: one route, \<open>/\<close>, whose element is the layout; any other path
  matches no route and renders nothing.\<close>

datatype route_view = LayoutPage | NoRoute

definition app_router :: "jstring \<Rightarrow> route_view" where
  "app_router path = (if path = ascii ''/'' then LayoutPage else NoRoute)"

end
