(* ===== verification/App.thy ===== *)
theory App
  imports Sidebar ContentArea Layout
begin

text \<open>
  The running page: the layout shell with its header, sidebar and content panel, as one
  state (\<open>app_state\<close>) and one step function over the events the page reacts to.
  A click on a row runs the row's \<open>onClick\<close> (\<open>run_actions\<close>); a selection goes to
  \<open>handleNodeSelect\<close> and, when it changes \<open>selectedNode\<close>, fires the content
  panel's effect, which starts a fetch. Fetches in flight are kept in dispatch order in
  \<open>in_flight\<close>; any of them may settle next (the network does not order them), and
  its \<open>loadContent\<close> continuation then writes the content and clears the loading
  flag, whatever is selected by then.
\<close>

record app_state =
  app_layout :: layout_state
  app_header :: header_state
  app_sidebar :: sidebar_state
  app_content :: content_state
  in_flight :: "knowledge_node list"

definition app_init :: app_state where
  "app_init = \<lparr>app_layout = layout_init, app_header = header_init, app_sidebar = sidebar_init,
                app_content = content_init, in_flight = []\<rparr>"

datatype app_event =
    TreeLoaded tree_fetch
  | ClickRow nat
  | MenuToggle
  | OverlayClick
  | SearchInput jstring
  | SearchSubmit
  | ContentSettled nat content_fetch

text \<open>The rows the sidebar currently shows, when it shows a tree.\<close>

definition sidebar_rows :: "app_state \<Rightarrow> node_row list option" where
  "sidebar_rows s =
     (case render_sidebar (app_sidebar s) (map_option node_id (selected_node (app_layout s))) of
        Inr (SidebarTree rows) \<Rightarrow> Some rows
      | _ \<Rightarrow> None)"

text \<open>\<open>handleNodeSelect\<close>, then the content panel's effect on \<open>[selectedNode]\<close>:
  it runs only when the selection changes.\<close>

definition select_node :: "knowledge_node \<Rightarrow> app_state \<Rightarrow> app_state" where
  "select_node n s =
     (let s1 = s\<lparr>app_layout := handle_node_select n (app_layout s)\<rparr>
      in if selected_node (app_layout s) \<noteq> Some n
         then s1\<lparr>app_content := start_load (app_content s1), in_flight := in_flight s1 @ [n]\<rparr>
         else s1)"

definition click_row :: "nat \<Rightarrow> app_state \<Rightarrow> app_state option" where
  "click_row i s =
     (case sidebar_rows s of
        None \<Rightarrow> None
      | Some rows \<Rightarrow>
          if i < length rows
          then (let (sb, sels) = run_actions (row_actions (rows ! i)) (app_sidebar s)
                in Some (fold select_node sels (s\<lparr>app_sidebar := sb\<rparr>)))
          else None)"

definition settle :: "nat \<Rightarrow> content_fetch \<Rightarrow> app_state \<Rightarrow> app_state option" where
  "settle i r s =
     (if i < length (in_flight s)
      then Some (s\<lparr>app_content := finish_load (in_flight s ! i) r (app_content s),
                   in_flight := take i (in_flight s) @ drop (Suc i) (in_flight s)\<rparr>)
      else None)"

text \<open>\<open>None\<close>: the event cannot occur in this state (the tree document arrives once,
  while the sidebar is loading; only shown rows can be clicked; the overlay exists only
  while the menu is open; only fetches in flight settle).\<close>

fun app_step :: "app_event \<Rightarrow> app_state \<Rightarrow> app_state option" where
  "app_step (TreeLoaded r) s =
     (if sidebar_loading (app_sidebar s)
      then Some (s\<lparr>app_sidebar := load_knowledge_tree r (app_sidebar s)\<rparr>) else None)"
| "app_step (ClickRow i) s = click_row i s"
| "app_step MenuToggle s = Some (s\<lparr>app_layout := handle_menu_toggle (app_layout s)\<rparr>)"
| "app_step OverlayClick s =
     (if mobile_menu_open (app_layout s)
      then Some (s\<lparr>app_layout := overlay_click (app_layout s)\<rparr>) else None)"
| "app_step (SearchInput v) s = Some (s\<lparr>app_header := header_input v (app_header s)\<rparr>)"
| "app_step SearchSubmit s =
     Some (case header_submit (app_header s) of
             None \<Rightarrow> s
           | Some q \<Rightarrow> s\<lparr>app_layout := handle_search q (app_layout s)\<rparr>)"
| "app_step (ContentSettled i r) s = settle i r s"

fun app_run :: "app_event list \<Rightarrow> app_state \<Rightarrow> app_state option" where
  "app_run [] s = Some s"
| "app_run (e # es) s = (case app_step e s of None \<Rightarrow> None | Some s' \<Rightarrow> app_run es s')"

inductive app_reachable :: "app_state \<Rightarrow> bool" where
  init: "app_reachable app_init"
| step: "app_reachable s \<Longrightarrow> app_step e s = Some s' \<Longrightarrow> app_reachable s'"

subsection \<open>Invariants and the in-order contract\<close>

definition in_tree :: "app_state \<Rightarrow> knowledge_node \<Rightarrow> bool" where
  "in_tree s n \<longleftrightarrow>
     (case knowledge_tree (app_sidebar s) of None \<Rightarrow> False | Some ns \<Rightarrow> n \<in> set (forest_nodes ns))"

definition app_inv :: "app_state \<Rightarrow> bool" where
  "app_inv s \<longleftrightarrow>
     (\<forall>n. selected_node (app_layout s) = Some n \<longrightarrow> is_leaf n \<and> in_tree s n) \<and>
     (\<forall>n \<in> set (in_flight s). is_leaf n \<and> in_tree s n) \<and>
     (sidebar_loading (app_sidebar s) \<longrightarrow> selected_node (app_layout s) = None \<and> in_flight s = [])"

definition in_order_event :: "app_event \<Rightarrow> bool" where
  "in_order_event e = (case e of ContentSettled i _ \<Rightarrow> i = 0 | _ \<Rightarrow> True)"

text \<open>The response a run delivered last, if any: the history the in-order contract
  speaks about.\<close>

definition response_of :: "app_event \<Rightarrow> content_fetch option \<Rightarrow> content_fetch option" where
  "response_of e h = (case e of ContentSettled _ r \<Rightarrow> Some r | _ \<Rightarrow> h)"

definition last_response :: "app_event list \<Rightarrow> content_fetch option" where
  "last_response es = fold response_of es None"

text \<open>Under in-order delivery: while fetches are in flight the newest is for the selected
  node; once none is, the panel shows the selected node resolved from the response
  delivered last (\<open>h\<close>).\<close>

definition in_order_inv :: "content_fetch option \<Rightarrow> app_state \<Rightarrow> bool" where
  "in_order_inv h s \<longleftrightarrow>
     (in_flight s \<noteq> [] \<longrightarrow> selected_node (app_layout s) = Some (last (in_flight s))) \<and>
     (in_flight s = [] \<longrightarrow> \<not> content_loading (app_content s) \<and>
        (\<forall>n. selected_node (app_layout s) = Some n \<longrightarrow>
               (\<exists>r. h = Some r \<and> content (app_content s) = resolve_content n r)))"

text \<open>The loading flag is set only while some fetch is in flight for a selected node.\<close>

definition loading_inv :: "app_state \<Rightarrow> bool" where
  "loading_inv s \<longleftrightarrow>
     (content_loading (app_content s) \<longrightarrow> in_flight s \<noteq> [] \<and> selected_node (app_layout s) \<noteq> None)"

subsection \<open>A sample run\<close>

text \<open>The tree \<open>skills_two\<close> loaded, then Bowling and Batting selected in turn; both
  fetches are still in flight.\<close>

definition loaded_state :: app_state where
  "loaded_state =
     app_init\<lparr>app_sidebar := \<lparr>knowledge_tree = Some [skills_two], expanded_nodes = {ascii ''skills''},
                                sidebar_loading = False\<rparr>\<rparr>"

definition one_click_state :: app_state where
  "one_click_state =
     loaded_state\<lparr>app_layout := \<lparr>selected_node = Some bowling_leaf, mobile_menu_open = False,
                                    search_query = []\<rparr>,
                  app_content := \<lparr>content = Some [], content_loading = True\<rparr>,
                  in_flight := [bowling_leaf]\<rparr>"

definition two_leaf_state :: app_state where
  "two_leaf_state =
     \<lparr>app_layout = \<lparr>selected_node = Some batting_leaf, mobile_menu_open = False, search_query = []\<rparr>,
      app_header = header_init,
      app_sidebar = \<lparr>knowledge_tree = Some [skills_two], expanded_nodes = {ascii ''skills''},
                     sidebar_loading = False\<rparr>,
      app_content = \<lparr>content = Some [], content_loading = True\<rparr>,
      in_flight = [bowling_leaf, batting_leaf]\<rparr>"

text \<open>Settling Bowling's fetch after Batting has been selected: Batting's article shows
  Bowling's placeholder while Batting's fetch is still in flight.\<close>

definition stale_state :: app_state where
  "stale_state =
     two_leaf_state\<lparr>app_content := \<lparr>content = Some (generate_default_content bowling_leaf),
                                       content_loading = False\<rparr>,
                     in_flight := [batting_leaf]\<rparr>"

definition settled_state :: app_state where
  "settled_state =
     two_leaf_state\<lparr>app_content := \<lparr>content = Some (generate_default_content batting_leaf),
                                       content_loading = False\<rparr>,
                     in_flight := []\<rparr>"

subsection \<open>The selection invariant\<close>

lemma select_node_fields [model_simps]:
  "selected_node (app_layout (select_node n s)) = Some n"
  "mobile_menu_open (app_layout (select_node n s)) = False"
  "search_query (app_layout (select_node n s)) = search_query (app_layout s)"
  "in_flight (select_node n s) =
     (if selected_node (app_layout s) \<noteq> Some n then in_flight s @ [n] else in_flight s)"
  "app_sidebar (select_node n s) = app_sidebar s"
  "app_header (select_node n s) = app_header s"
  "content (app_content (select_node n s)) = content (app_content s)"
  "content_loading (app_content (select_node n s)) =
     (selected_node (app_layout s) \<noteq> Some n \<or> content_loading (app_content s))"
  by (simp_all add: select_node_def handle_node_select_def start_load_def Let_def)

lemma load_knowledge_tree_loading: "sidebar_loading (load_knowledge_tree r sb) = False"
  by (cases "(r, sb)" rule: load_knowledge_tree.cases) simp_all

lemma run_actions_tree:
  "run_actions acts sb = (sb', sels) \<Longrightarrow>
     knowledge_tree sb' = knowledge_tree sb \<and> sidebar_loading sb' = sidebar_loading sb \<and>
     set sels \<subseteq> {m. SelectNode m \<in> set acts}"
proof (induction acts sb arbitrary: sb' sels rule: run_actions.induct)
  case (3 n acts s)
  then show ?case by (auto split: prod.splits)
qed (auto simp: toggle_expanded_def)

lemma click_row_SomeE:
  assumes "click_row i s = Some s'"
  obtains rows sb sels where "sidebar_rows s = Some rows" and "i < length rows"
    and "run_actions (row_actions (rows ! i)) (app_sidebar s) = (sb, sels)"
    and "s' = fold select_node sels (s\<lparr>app_sidebar := sb\<rparr>)"
  using assms by (auto simp: click_row_def split: option.splits if_splits prod.splits)

lemma sidebar_rows_loaded:
  assumes "sidebar_rows s = Some rows"
  shows "\<not> sidebar_loading (app_sidebar s) \<and>
         (\<exists>ns. knowledge_tree (app_sidebar s) = Some ns \<and>
            rows = concat (map (render_node (expanded_nodes (app_sidebar s))
                     (map_option node_id (selected_node (app_layout s))) 0) ns))"
  using assms
  by (auto simp: sidebar_rows_def render_sidebar_def split: if_splits option.splits sum.splits
      sidebar_view.splits)

lemma sidebar_rows_select:
  assumes "sidebar_rows s = Some rows" and "r \<in> set rows" and "SelectNode m \<in> set (row_actions r)"
  shows "is_leaf m \<and> in_tree s m"
proof -
  from sidebar_rows_loaded [OF assms(1)] obtain ns where
    ns: "knowledge_tree (app_sidebar s) = Some ns" and
    rows: "rows = concat (map (render_node (expanded_nodes (app_sidebar s))
                     (map_option node_id (selected_node (app_layout s))) 0) ns)"
    by blast
  from assms(2) rows obtain root where root: "root \<in> set ns"
    and r: "r \<in> set (render_node (expanded_nodes (app_sidebar s))
                     (map_option node_id (selected_node (app_layout s))) 0 root)"
    by auto
  from render_node_rows [OF r] obtain m' where m': "m' \<in> set (tree_nodes root)"
    and req: "r = node_row (expanded_nodes (app_sidebar s))
                     (map_option node_id (selected_node (app_layout s))) (row_depth r) m'"
    by blast
  have "row_actions r = click_actions m'"
    by (subst req) (simp add: node_row_def)
  with assms(3) have "m = m' \<and> is_leaf m'"
    by (auto simp: click_actions_def split: if_splits)
  moreover have "m' \<in> set (forest_nodes ns)"
    using m' root by (auto simp: forest_nodes_def)
  ultimately show ?thesis by (simp add: in_tree_def ns)
qed

lemma fold_select_node_inv:
  assumes "\<forall>m \<in> set sels. is_leaf m \<and> in_tree s m" and "app_inv s"
    and "\<not> sidebar_loading (app_sidebar s)"
  shows "app_inv (fold select_node sels s)"
  using assms
proof (induction sels arbitrary: s)
  case Nil
  then show ?case by simp
next
  case (Cons m sels)
  have tree: "in_tree (select_node m s) = in_tree s"
    by (simp add: in_tree_def fun_eq_iff model_simps)
  have "app_inv (select_node m s)"
    using Cons.prems tree by (auto simp: app_inv_def model_simps)
  with Cons.prems Cons.IH [of "select_node m s"] tree show ?case
    by (simp add: model_simps)
qed

lemma app_step_inv:
  assumes "app_step e s = Some s'" and "app_inv s"
  shows "app_inv s'"
proof (cases e)
  case (TreeLoaded r)
  with assms show ?thesis
    by (auto simp: app_inv_def in_tree_def load_knowledge_tree_loading split: if_splits)
next
  case (ClickRow i)
  with assms(1) obtain rows sb sels where rows: "sidebar_rows s = Some rows" and i: "i < length rows"
    and run: "run_actions (row_actions (rows ! i)) (app_sidebar s) = (sb, sels)"
    and s': "s' = fold select_node sels (s\<lparr>app_sidebar := sb\<rparr>)"
    by (auto elim: click_row_SomeE)
  from run_actions_tree [OF run] have tree: "knowledge_tree sb = knowledge_tree (app_sidebar s)"
    and load: "sidebar_loading sb = sidebar_loading (app_sidebar s)"
    and sels: "set sels \<subseteq> {m. SelectNode m \<in> set (row_actions (rows ! i))}"
    by auto
  have same: "in_tree (s\<lparr>app_sidebar := sb\<rparr>) = in_tree s"
    by (simp add: in_tree_def tree fun_eq_iff)
  have nl: "\<not> sidebar_loading (app_sidebar s)"
    using sidebar_rows_loaded [OF rows] by simp
  have "\<forall>m \<in> set sels. is_leaf m \<and> in_tree s m"
    using sels sidebar_rows_select [OF rows nth_mem [OF i]] by auto
  moreover have "app_inv (s\<lparr>app_sidebar := sb\<rparr>)"
    using assms(2) same load nl by (simp add: app_inv_def)
  ultimately show ?thesis
    using fold_select_node_inv [of sels "s\<lparr>app_sidebar := sb\<rparr>"] same load nl s' by simp
next
  case (ContentSettled i r)
  with assms(1) have s': "s' = s\<lparr>app_content := finish_load (in_flight s ! i) r (app_content s),
                   in_flight := take i (in_flight s) @ drop (Suc i) (in_flight s)\<rparr>"
    by (auto simp: settle_def split: if_splits)
  then have "set (in_flight s') \<subseteq> set (in_flight s)"
    by (auto dest: in_set_takeD in_set_dropD)
  moreover have "in_tree s' = in_tree s"
    using s' by (simp add: in_tree_def fun_eq_iff)
  ultimately show ?thesis
    using assms(2) s' by (auto simp: app_inv_def)
qed (use assms in \<open>auto simp: app_inv_def in_tree_def handle_menu_toggle_def overlay_click_def
       header_input_def handle_search_def split: if_splits option.splits\<close>)

lemma app_inv_init: "app_inv app_init"
  by (simp add: app_inv_def app_init_def layout_init_def)

subsection \<open>Runs\<close>

lemma app_run_append:
  "app_run (xs @ ys) s = (case app_run xs s of None \<Rightarrow> None | Some s' \<Rightarrow> app_run ys s')"
  by (induction xs s rule: app_run.induct) (auto split: option.splits)

lemma app_run_reachable:
  "app_run es s = Some s' \<Longrightarrow> app_reachable s \<Longrightarrow> app_reachable s'"
  by (induction es s rule: app_run.induct) (auto split: option.splits intro: app_reachable.step)

lemmas app_eval = app_init_def layout_init_def header_init_def sidebar_init_def content_init_def
  click_row_def sidebar_rows_def render_sidebar_def render_node_unfold node_row_def
  click_actions_def has_children_def child_list_def is_leaf_def select_node_def
  handle_node_select_def start_load_def settle_def finish_load_def

lemma step_load:
  "app_step (TreeLoaded (TreeDocument (Some [skills_two]))) app_init = Some loaded_state"
  by (simp add: app_eval loaded_state_def skills_two_def)

lemma step_click1: "app_step (ClickRow 1) loaded_state = Some one_click_state"
  by (simp add: app_eval loaded_state_def one_click_state_def skills_two_def bowling_leaf_def
      batting_leaf_def)

lemma step_click2: "app_step (ClickRow 2) one_click_state = Some two_leaf_state"
  by (simp add: app_eval loaded_state_def one_click_state_def two_leaf_state_def skills_two_def
      bowling_leaf_def batting_leaf_def)

lemma run_two_clicks:
  "app_run [TreeLoaded (TreeDocument (Some [skills_two])), ClickRow 1, ClickRow 2] app_init =
     Some two_leaf_state"
  by (simp only: app_run.simps step_load step_click1 step_click2 option.case)

lemma two_leaf_state_reachable: "app_reachable two_leaf_state"
  by (rule app_run_reachable [OF run_two_clicks app_reachable.init])

text \<open>C23. In every reachable state of the page the selected node and every node with
  a fetch in flight are leaves of the loaded tree: a node with children can never become
  selected or be fetched, and nothing outside the tree can.\<close>

theorem selected_is_tree_leaf:
  assumes "app_reachable s"
  shows "(\<forall>n. selected_node (app_layout s) = Some n \<longrightarrow> is_leaf n \<and> in_tree s n) \<and>
         (\<forall>n \<in> set (in_flight s). is_leaf n \<and> in_tree s n)"
proof -
  from assms have "app_inv s"
    by (induction rule: app_reachable.induct) (auto intro: app_inv_init app_step_inv)
  then show ?thesis by (simp add: app_inv_def)
qed

subsection \<open>Clicks, search and the in-order refinement\<close>

lemma row_actions_click_actions:
  assumes "sidebar_rows s = Some rows" and "r \<in> set rows"
  shows "\<exists>m. row_actions r = click_actions m"
proof -
  from sidebar_rows_loaded [OF assms(1)] obtain ns where
    rows: "rows = concat (map (render_node (expanded_nodes (app_sidebar s))
                     (map_option node_id (selected_node (app_layout s))) 0) ns)"
    by blast
  with assms(2) obtain root where
    r: "r \<in> set (render_node (expanded_nodes (app_sidebar s))
                     (map_option node_id (selected_node (app_layout s))) 0 root)"
    by auto
  from render_node_rows [OF r] obtain m where
    "r = node_row (expanded_nodes (app_sidebar s))
                     (map_option node_id (selected_node (app_layout s))) (row_depth r) m"
    by blast
  then have "row_actions r = click_actions m"
    by (subst (asm) node_row_def) (metis node_row.select_convs(8))
  then show ?thesis ..
qed

lemma click_row_cases:
  assumes "click_row i s = Some s'"
  obtains m where "s' = s\<lparr>app_sidebar := toggle_expanded (node_id m) (app_sidebar s)\<rparr>"
    and "has_children m"
  | m where "s' = select_node m s"
proof -
  from assms obtain rows sb sels where rows: "sidebar_rows s = Some rows" and i: "i < length rows"
    and run: "run_actions (row_actions (rows ! i)) (app_sidebar s) = (sb, sels)"
    and s': "s' = fold select_node sels (s\<lparr>app_sidebar := sb\<rparr>)"
    by (auto elim: click_row_SomeE)
  from row_actions_click_actions [OF rows nth_mem [OF i]] obtain m
    where act: "row_actions (rows ! i) = click_actions m" by blast
  show ?thesis
  proof (cases "has_children m")
    case True
    with run act s' have "s' = s\<lparr>app_sidebar := toggle_expanded (node_id m) (app_sidebar s)\<rparr>"
      by (simp add: click_actions_cases)
    with True that show ?thesis by blast
  next
    case False
    with run act s' have "s' = select_node m (s\<lparr>app_sidebar := app_sidebar s\<rparr>)"
      by (auto simp: click_actions_cases)
    with that show ?thesis by simp
  qed
qed

lemma select_node_in_order_inv: "in_order_inv h s \<Longrightarrow> in_order_inv h (select_node m s)"
  by (auto simp: in_order_inv_def model_simps)

lemma app_step_in_order_inv:
  assumes "app_step e s = Some s'" and "in_order_event e" and "in_order_inv h s"
  shows "in_order_inv (response_of e h) s'"
proof (cases e)
  case (ClickRow i)
  with assms(1) have "click_row i s = Some s'" by simp
  then show ?thesis
  proof (cases rule: click_row_cases)
    case (1 m)
    with assms(3) ClickRow show ?thesis by (simp add: in_order_inv_def response_of_def)
  next
    case (2 m)
    with assms(3) ClickRow show ?thesis by (simp add: select_node_in_order_inv response_of_def)
  qed
next
  case (ContentSettled i r)
  with assms(1,2) obtain x rest where fl: "in_flight s = x # rest" and i: "i = 0"
    and s': "s' = s\<lparr>app_content := finish_load x r (app_content s), in_flight := rest\<rparr>"
    by (cases "in_flight s") (auto simp: settle_def in_order_event_def split: if_splits)
  show ?thesis
  proof (cases "rest = []")
    case True
    with assms(3) fl s' ContentSettled show ?thesis
      by (auto simp: in_order_inv_def finish_load_def response_of_def)
  next
    case False
    with assms(3) fl s' ContentSettled show ?thesis
      by (simp add: in_order_inv_def finish_load_def response_of_def)
  qed
qed (use assms in \<open>auto simp: in_order_inv_def handle_menu_toggle_def overlay_click_def
       header_input_def handle_search_def response_of_def split: if_splits option.splits\<close>)

lemma app_run_in_order_inv:
  "app_run es s = Some s' \<Longrightarrow> list_all in_order_event es \<Longrightarrow> in_order_inv h s \<Longrightarrow>
     in_order_inv (fold response_of es h) s'"
proof (induction es arbitrary: s h)
  case (Cons e es)
  then obtain s1 where "app_step e s = Some s1" and "app_run es s1 = Some s'"
    by (auto split: option.splits)
  with Cons show ?case by (auto intro: app_step_in_order_inv)
qed simp

lemma app_step_loading_inv:
  assumes "app_step e s = Some s'" and "loading_inv s"
  shows "loading_inv s'"
proof (cases e)
  case (ClickRow i)
  with assms(1) have "click_row i s = Some s'" by simp
  then show ?thesis
  proof (cases rule: click_row_cases)
    case (1 m)
    with assms(2) show ?thesis by (simp add: loading_inv_def)
  next
    case (2 m)
    with assms(2) show ?thesis by (auto simp: loading_inv_def model_simps)
  qed
next
  case (ContentSettled i r)
  with assms(1) show ?thesis
    by (auto simp: loading_inv_def settle_def model_simps split: if_splits)
qed (use assms in \<open>auto simp: loading_inv_def handle_menu_toggle_def overlay_click_def
       header_input_def handle_search_def split: if_splits option.splits\<close>)

text \<open>C21. The loading skeleton is never stuck: in every reachable state in which the
  panel is loading, some fetch is in flight, a node is selected, and the panel shows the
  ten loading bars under that node's breadcrumbs and title.\<close>

theorem skeleton_only_while_fetching:
  assumes "app_reachable s" and "content_loading (app_content s)"
  shows "in_flight s \<noteq> [] \<and>
         (\<exists>n. selected_node (app_layout s) = Some n \<and>
              render_content_area (selected_node (app_layout s)) (app_content s) =
                Inr (ArticleView (get_breadcrumbs (Some n))
                       (map_option (\<lambda>l. (l, level_text (Some l))) (nlevel n)) (title n)
                       (LoadingSkeleton 10)))"
proof -
  from assms(1) have "loading_inv s"
    by (induction rule: app_reachable.induct)
       (simp add: loading_inv_def app_init_def content_init_def, blast intro: app_step_loading_inv)
  with assms(2) obtain n where "in_flight s \<noteq> []" and "selected_node (app_layout s) = Some n"
    by (auto simp: loading_inv_def)
  with assms(2) show ?thesis by (simp add: render_loading)
qed

text \<open>C29. Refinement of the spec's contract under in-order delivery: in every run
  from the initial page in which each fetch settles in the order it was started, once
  no fetch is in flight the panel is not loading and shows the selected node resolved
  from the response the run delivered last.\<close>

theorem in_order_shows_selected:
  assumes "app_run es app_init = Some s" and "list_all in_order_event es"
    and "in_flight s = []" and "selected_node (app_layout s) = Some n"
  shows "\<not> content_loading (app_content s) \<and>
         (\<exists>r. last_response es = Some r \<and> content (app_content s) = resolve_content n r)"
proof -
  have "in_order_inv None app_init"
    by (simp add: in_order_inv_def app_init_def content_init_def layout_init_def)
  from app_run_in_order_inv [OF assms(1,2) this] have "in_order_inv (last_response es) s"
    by (simp add: last_response_def)
  with assms(3,4) show ?thesis by (simp add: in_order_inv_def)
qed

text \<open>C24. A click that changes the selection closes the mobile menu, shows the
  loading state and starts exactly one fetch, for the newly selected node.\<close>

theorem click_selection_closes_menu:
  assumes "app_step (ClickRow i) s = Some s'"
    and "selected_node (app_layout s') \<noteq> selected_node (app_layout s)"
  shows "\<not> mobile_menu_open (app_layout s') \<and> content_loading (app_content s') \<and>
         (\<exists>n. selected_node (app_layout s') = Some n \<and> in_flight s' = in_flight s @ [n])"
proof -
  from assms(1) have "click_row i s = Some s'" by simp
  then show ?thesis
  proof (cases rule: click_row_cases)
    case (1 m)
    with assms(2) show ?thesis by simp
  next
    case (2 m)
    with assms(2) show ?thesis by (auto simp: model_simps)
  qed
qed

text \<open>C25. The search box is a dead input: typing and submitting never change the
  sidebar, the selection, the menu, the content panel or the fetches in flight.\<close>

theorem search_is_dead_input:
  assumes "app_step e s = Some s'" and "e = SearchInput v \<or> e = SearchSubmit"
  shows "app_sidebar s' = app_sidebar s \<and> app_content s' = app_content s \<and> in_flight s' = in_flight s \<and>
         selected_node (app_layout s') = selected_node (app_layout s) \<and>
         mobile_menu_open (app_layout s') = mobile_menu_open (app_layout s)"
  using assms
  by (auto simp: header_input_def handle_search_def split: option.splits)

text \<open>C26. Submitting the search form stores the trimmed query in the layout when it
  is not blank, and does nothing otherwise.\<close>

theorem search_submit_trimmed:
  assumes "app_step SearchSubmit s = Some s'"
  shows "search_query (app_layout s') =
           (if js_trim (header_query (app_header s)) = [] then search_query (app_layout s)
            else js_trim (header_query (app_header s)))"
  using assms by (auto simp: header_submit_def handle_search_def)

text \<open>C27. The content panel does not discard late responses: when any fetch in flight
  settles, the selection stays, and the selected node's article shows, under that
  node's breadcrumbs, badge and title, the text resolved for the node the fetch was
  started for, whichever node that was (or throws when that text is not a string).\<close>

theorem stale_content_after_reselect:
  assumes "app_step (ContentSettled i r) s = Some s'" and "selected_node (app_layout s) = Some n"
  shows "selected_node (app_layout s') = Some n \<and>
         render_content_area (Some n) (app_content s') =
           (case resolve_content (in_flight s ! i) r of
              None \<Rightarrow> Inl TypeError
            | Some c \<Rightarrow> Inr (ArticleView (get_breadcrumbs (Some n))
                            (map_option (\<lambda>l. (l, level_text (Some l))) (nlevel n)) (title n)
                            (Blocks (format_content c))))"
  using assms by (auto simp: settle_def finish_load_def render_content_area_def split: if_splits option.split)


subsection \<open>Witnesses\<close>

theorem selected_is_tree_leaf_witness:
  "is_leaf batting_leaf \<and> in_tree two_leaf_state batting_leaf \<and>
   is_leaf bowling_leaf \<and> in_tree two_leaf_state bowling_leaf"
proof -
  have sel: "selected_node (app_layout two_leaf_state) = Some batting_leaf"
    and fl: "in_flight two_leaf_state = [bowling_leaf, batting_leaf]"
    by (simp_all add: two_leaf_state_def)
  show ?thesis using selected_is_tree_leaf [OF two_leaf_state_reachable] sel fl by simp
qed

lemma step_settle_stale: "app_step (ContentSettled 0 ContentFetchFailed) two_leaf_state = Some stale_state"
  by (simp add: two_leaf_state_def stale_state_def settle_def finish_load_def)

theorem stale_content_after_reselect_witness:
  "render_content_area (Some batting_leaf) (app_content stale_state) =
     Inr (ArticleView (get_breadcrumbs (Some batting_leaf)) (Some (Intermediate, level_text (Some Intermediate)))
            (ascii ''Batting'') (Blocks (format_content (generate_default_content bowling_leaf))))"
proof -
  have sel: "selected_node (app_layout two_leaf_state) = Some batting_leaf"
    and fl: "in_flight two_leaf_state ! 0 = bowling_leaf"
    by (simp_all add: two_leaf_state_def)
  show ?thesis
    using stale_content_after_reselect [OF step_settle_stale sel] fl
    by (simp add: batting_leaf_def)
qed


theorem click_selection_closes_menu_witness:
  "\<not> mobile_menu_open (app_layout two_leaf_state) \<and> content_loading (app_content two_leaf_state) \<and>
   in_flight two_leaf_state = in_flight one_click_state @ [batting_leaf]"
proof -
  have ch: "selected_node (app_layout two_leaf_state) \<noteq> selected_node (app_layout one_click_state)"
    by (simp add: two_leaf_state_def one_click_state_def bowling_leaf_def batting_leaf_def)
  have sel: "selected_node (app_layout two_leaf_state) = Some batting_leaf"
    by (simp add: two_leaf_state_def)
  show ?thesis using click_selection_closes_menu [OF step_click2 ch] sel by auto
qed

theorem search_is_dead_input_witness:
  "app_sidebar (two_leaf_state\<lparr>app_header := \<lparr>header_query = ascii ''bowl''\<rparr>\<rparr>) = app_sidebar two_leaf_state \<and>
   in_flight (two_leaf_state\<lparr>app_header := \<lparr>header_query = ascii ''bowl''\<rparr>\<rparr>) = in_flight two_leaf_state"
proof -
  have "app_step (SearchInput (ascii ''bowl'')) two_leaf_state =
          Some (two_leaf_state\<lparr>app_header := \<lparr>header_query = ascii ''bowl''\<rparr>\<rparr>)"
    by (simp add: header_input_def)
  from search_is_dead_input [OF this] show ?thesis by simp
qed

theorem search_submit_trimmed_witness:
  "search_query (app_layout (two_leaf_state\<lparr>app_header := \<lparr>header_query = ascii '' bowl ''\<rparr>,
      app_layout := handle_search (ascii ''bowl'') (app_layout two_leaf_state)\<rparr>)) = ascii ''bowl''"
proof -
  have tr: "js_trim (ascii '' bowl '') = ascii ''bowl''"
    by (simp add: js_trim_def js_whitespace_def ascii_Cons)
  then have tr': "js_trim [32, 98, 111, 119, 108, 32] = [98, 111, 119, 108]"
    by (simp add: ascii_Cons)
  have st: "app_step SearchSubmit (two_leaf_state\<lparr>app_header := \<lparr>header_query = ascii '' bowl ''\<rparr>\<rparr>) =
      Some (two_leaf_state\<lparr>app_header := \<lparr>header_query = ascii '' bowl ''\<rparr>,
      app_layout := handle_search (ascii ''bowl'') (app_layout two_leaf_state)\<rparr>)"
    using tr' by (simp add: header_submit_def ascii_Cons)
  show ?thesis using search_submit_trimmed [OF st] tr by (simp add: ascii_Cons)
qed


theorem in_order_shows_selected_witness:
  "\<not> content_loading (app_content settled_state) \<and>
   content (app_content settled_state) = resolve_content batting_leaf ContentFetchFailed"
proof -
  have settle2: "app_run [ContentSettled 0 ContentFetchFailed, ContentSettled 0 ContentFetchFailed]
                   two_leaf_state = Some settled_state"
    by (simp add: two_leaf_state_def settled_state_def settle_def finish_load_def)
  have run: "app_run ([TreeLoaded (TreeDocument (Some [skills_two])), ClickRow 1, ClickRow 2] @
                 [ContentSettled 0 ContentFetchFailed, ContentSettled 0 ContentFetchFailed]) app_init =
        Some settled_state"
    by (simp only: app_run_append run_two_clicks option.case settle2)
  have ord: "list_all in_order_event
      ([TreeLoaded (TreeDocument (Some [skills_two])), ClickRow 1, ClickRow 2] @
       [ContentSettled 0 ContentFetchFailed, ContentSettled 0 ContentFetchFailed])"
    by (simp add: in_order_event_def)
  have "in_flight settled_state = []" and "selected_node (app_layout settled_state) = Some batting_leaf"
    by (simp_all add: settled_state_def two_leaf_state_def)
  from in_order_shows_selected [OF run ord this] show ?thesis
    by (simp add: last_response_def response_of_def)
qed


theorem skeleton_only_while_fetching_witness:
  "in_flight two_leaf_state \<noteq> [] \<and>
   render_content_area (selected_node (app_layout two_leaf_state)) (app_content two_leaf_state) =
     Inr (ArticleView (get_breadcrumbs (Some batting_leaf)) (Some (Intermediate, level_text (Some Intermediate)))
            (ascii ''Batting'') (LoadingSkeleton 10))"
proof -
  have l: "content_loading (app_content two_leaf_state)"
    by (simp add: two_leaf_state_def)
  have sel: "selected_node (app_layout two_leaf_state) = Some batting_leaf"
    by (simp add: two_leaf_state_def)
  show ?thesis
    using skeleton_only_while_fetching [OF two_leaf_state_reachable l] sel
    by (simp add: batting_leaf_def)
qed

end
