(* ===== verification/Navigation.thy ===== *)
theory Navigation
  imports App
begin

text \<open>
  Navigation through the sidebar, and the delivery of pending responses. The nodes
  \<open>renderNode\<close> mounts (\<open>visible_nodes\<close>) are the roots and, below an expanded node
  with children, its children; a click on the row of a collapsed node expands it, so
  every leaf of the loaded tree can be reached and selected by clicks alone. The
  browser's event loop delivering the responses of the fetches in flight is the loop
  \<open>drain\<close>, which ends once nothing is in flight.
\<close>

function visible_nodes :: "jstring set \<Rightarrow> knowledge_node \<Rightarrow> knowledge_node list" where
  "visible_nodes ex n =
     n # (if has_children n \<and> node_id n \<in> ex
          then concat (map (visible_nodes ex) (child_list n)) else [])"
  by pat_completeness auto
termination
  by (relation "measure (\<lambda>(_, n). size n)") (auto dest: child_list_size)

declare visible_nodes.simps [simp del]

definition shown :: "app_state \<Rightarrow> knowledge_node \<Rightarrow> bool" where
  "shown s m \<longleftrightarrow>
     (case knowledge_tree (app_sidebar s) of
        None \<Rightarrow> False
      | Some ns \<Rightarrow> (\<exists>root \<in> set ns. m \<in> set (visible_nodes (expanded_nodes (app_sidebar s)) root)))"

text \<open>The event loop delivering the responses of the fetches in flight, oldest first;
  \<open>resp\<close> is what the server answers for each node. Written as a loop that may not
  return (\<open>None\<close>), so that its termination is a theorem.\<close>

partial_function (option) drain :: "(knowledge_node \<Rightarrow> content_fetch) \<Rightarrow> app_state \<Rightarrow> app_state option" where
  "drain resp s =
     (case in_flight s of
        [] \<Rightarrow> Some s
      | n # _ \<Rightarrow> (case app_step (ContentSettled 0 (resp n)) s of
                   None \<Rightarrow> None
                 | Some s' \<Rightarrow> drain resp s'))"

subsection \<open>Rows of the shown nodes\<close>

lemma visible_nodes_self: "n \<in> set (visible_nodes ex n)"
  by (subst visible_nodes.simps) simp

lemma render_node_visible:
  "m \<in> set (visible_nodes ex n) \<Longrightarrow> \<exists>r \<in> set (render_node ex sel d n). row_actions r = click_actions m"
proof (induction ex n arbitrary: d rule: visible_nodes.induct)
  case (1 ex n)
  show ?case
  proof (cases "m = n")
    case True
    then show ?thesis by (subst render_node_unfold) (simp add: node_row_def)
  next
    case False
    with "1.prems" obtain c where h: "has_children n \<and> node_id n \<in> ex" and c: "c \<in> set (child_list n)"
      and m: "m \<in> set (visible_nodes ex c)"
      by (subst (asm) visible_nodes.simps) (auto split: if_splits)
    from "1.IH" [OF h c m] obtain r where "r \<in> set (render_node ex sel (Suc d) c)"
      and "row_actions r = click_actions m" by blast
    with h c show ?thesis by (subst render_node_unfold) auto
  qed
qed

lemma visible_nodes_mono:
  "m \<in> set (visible_nodes ex n) \<Longrightarrow> ex \<subseteq> ex' \<Longrightarrow> m \<in> set (visible_nodes ex' n)"
proof (induction ex n rule: visible_nodes.induct)
  case (1 ex n)
  then show ?case
    by (subst (asm) visible_nodes.simps, subst visible_nodes.simps) (auto split: if_splits)
qed

lemma visible_nodes_child:
  "t \<in> set (visible_nodes ex n) \<Longrightarrow> has_children t \<Longrightarrow> node_id t \<in> ex \<Longrightarrow>
     c \<in> set (child_list t) \<Longrightarrow> c \<in> set (visible_nodes ex n)"
proof (induction ex n rule: visible_nodes.induct)
  case (1 ex n)
  show ?case
  proof (cases "t = n")
    case True
    with "1.prems" show ?thesis
      by (subst visible_nodes.simps) (auto intro: visible_nodes_self)
  next
    case False
    with "1.prems"(1) obtain c' where h: "has_children n \<and> node_id n \<in> ex"
      and c': "c' \<in> set (child_list n)" and t: "t \<in> set (visible_nodes ex c')"
      by (subst (asm) visible_nodes.simps) (auto split: if_splits)
    from "1.IH" [OF h c' t "1.prems"(2-4)] h c' show ?thesis
      by (subst visible_nodes.simps) auto
  qed
qed

lemma sidebar_rows_Some:
  "\<not> sidebar_loading (app_sidebar s) \<Longrightarrow> knowledge_tree (app_sidebar s) = Some ns \<Longrightarrow>
     sidebar_rows s = Some (concat (map (render_node (expanded_nodes (app_sidebar s))
                     (map_option node_id (selected_node (app_layout s))) 0) ns))"
  by (simp add: sidebar_rows_def render_sidebar_def)

lemma shown_row:
  assumes "\<not> sidebar_loading (app_sidebar s)" and "shown s m"
  obtains rows i where "sidebar_rows s = Some rows" and "i < length rows"
    and "row_actions (rows ! i) = click_actions m"
proof -
  from assms(2) obtain ns root where ns: "knowledge_tree (app_sidebar s) = Some ns"
    and root: "root \<in> set ns" and m: "m \<in> set (visible_nodes (expanded_nodes (app_sidebar s)) root)"
    by (auto simp: shown_def split: option.splits)
  let ?sel = "map_option node_id (selected_node (app_layout s))"
  from render_node_visible [OF m] obtain r
    where r: "r \<in> set (render_node (expanded_nodes (app_sidebar s)) ?sel 0 root)"
      and act: "row_actions r = click_actions m" by blast
  have rows: "sidebar_rows s = Some (concat (map (render_node (expanded_nodes (app_sidebar s)) ?sel 0) ns))"
    using sidebar_rows_Some [OF assms(1) ns] .
  from r root have rin: "r \<in> set (concat (map (render_node (expanded_nodes (app_sidebar s)) ?sel 0) ns))"
    by auto
  obtain i where "i < length (concat (map (render_node (expanded_nodes (app_sidebar s)) ?sel 0) ns))"
    and "concat (map (render_node (expanded_nodes (app_sidebar s)) ?sel 0) ns) ! i = r"
    using rin by (metis in_set_conv_nth)
  with rows act that show ?thesis by blast
qed

lemma click_row_exact:
  assumes "sidebar_rows s = Some rows" and "i < length rows" and "row_actions (rows ! i) = click_actions m"
  shows "click_row i s =
           Some (if has_children m then s\<lparr>app_sidebar := toggle_expanded (node_id m) (app_sidebar s)\<rparr>
                 else select_node m s)"
  using assms by (simp add: click_row_def click_actions_cases)

subsection \<open>Every leaf can be selected\<close>

lemma app_run_single: "app_step e s = Some s' \<Longrightarrow> app_run [e] s = Some s'"
  by simp

lemma app_run_concat:
  "app_run xs s = Some s1 \<Longrightarrow> app_run ys s1 = Some s2 \<Longrightarrow> app_run (xs @ ys) s = Some s2"
  by (simp add: app_run_append)

text \<open>The click on the row of a collapsed node with children expands it and changes
  nothing else of the sidebar.\<close>

lemma expand_by_click:
  assumes "\<not> sidebar_loading (app_sidebar s)" and "shown s t" and "has_children t"
  obtains es s1 where "app_run es s = Some s1" and "set es \<subseteq> range ClickRow"
    and "app_sidebar s1 = (app_sidebar s)\<lparr>expanded_nodes := insert (node_id t) (expanded_nodes (app_sidebar s))\<rparr>"
proof (cases "node_id t \<in> expanded_nodes (app_sidebar s)")
  case True
  then show ?thesis using that [of "[]" s] by (simp add: insert_absorb)
next
  case False
  from shown_row [OF assms(1,2)] obtain rows i where rows: "sidebar_rows s = Some rows"
    and i: "i < length rows" and act: "row_actions (rows ! i) = click_actions t" by blast
  have st: "app_run [ClickRow i] s = Some (s\<lparr>app_sidebar := toggle_expanded (node_id t) (app_sidebar s)\<rparr>)"
    using click_row_exact [OF rows i act] assms(3) by simp
  have sb: "app_sidebar (s\<lparr>app_sidebar := toggle_expanded (node_id t) (app_sidebar s)\<rparr>) =
      (app_sidebar s)\<lparr>expanded_nodes := insert (node_id t) (expanded_nodes (app_sidebar s))\<rparr>"
    using False by (simp add: toggle_expanded_def)
  show ?thesis by (rule that [OF st _ sb]) auto
qed

lemma leaf_selectable_below:
  assumes "\<not> sidebar_loading (app_sidebar s)" and "shown s t"
    and "n \<in> set (tree_nodes t)" and "is_leaf n"
  shows "\<exists>es s'. set es \<subseteq> range ClickRow \<and> app_run es s = Some s' \<and>
                  selected_node (app_layout s') = Some n"
  using assms
proof (induction t arbitrary: s rule: tree_nodes.induct)
  case (1 t)
  show ?case
  proof (cases "n = t")
    case True
    from shown_row [OF "1.prems"(1,2)] obtain rows i where rows: "sidebar_rows s = Some rows"
      and i: "i < length rows" and act: "row_actions (rows ! i) = click_actions t" by blast
    have "app_run [ClickRow i] s = Some (select_node t s)"
      using click_row_exact [OF rows i act] "1.prems"(4) True by (simp add: is_leaf_def)
    with True show ?thesis by (intro exI [of _ "[ClickRow i]"]) (auto simp: model_simps)
  next
    case False
    with "1.prems"(3) obtain c where c: "c \<in> set (child_list t)" and n: "n \<in> set (tree_nodes c)"
      by (subst (asm) tree_nodes.simps) auto
    then have ht: "has_children t" by (auto simp: model_simps)
    obtain es1 s1 where run1: "app_run es1 s = Some s1" and es1: "set es1 \<subseteq> range ClickRow"
      and sb1: "app_sidebar s1 = (app_sidebar s)\<lparr>expanded_nodes := insert (node_id t) (expanded_nodes (app_sidebar s))\<rparr>"
      using expand_by_click [OF "1.prems"(1,2) ht] by blast
    have l1: "\<not> sidebar_loading (app_sidebar s1)" using "1.prems"(1) sb1 by simp
    have "shown s1 c"
      using "1.prems"(2) sb1 visible_nodes_mono [of t _ _ "insert (node_id t) (expanded_nodes (app_sidebar s))"]
        visible_nodes_child [OF _ ht _ c]
      by (auto simp: shown_def split: option.splits) blast
    from "1.IH" [OF c l1 this n "1.prems"(4)] obtain es2 s' where es2: "set es2 \<subseteq> range ClickRow"
      and run2: "app_run es2 s1 = Some s'" and sel: "selected_node (app_layout s') = Some n" by blast
    show ?thesis
      using app_run_concat [OF run1 run2] es1 es2 sel by (intro exI [of _ "es1 @ es2"]) auto
  qed
qed

lemma app_step_loading_kept:
  assumes "app_step e s = Some s'" and "sidebar_loading (app_sidebar s')"
  shows "app_sidebar s' = app_sidebar s"
proof (cases e)
  case (TreeLoaded r)
  with assms show ?thesis by (auto simp: load_knowledge_tree_loading split: if_splits)
next
  case (ClickRow i)
  with assms(1) have c: "click_row i s = Some s'" by simp
  then obtain rows where "sidebar_rows s = Some rows" by (auto elim: click_row_SomeE)
  then have "\<not> sidebar_loading (app_sidebar s)" by (simp add: sidebar_rows_loaded)
  from c show ?thesis
  proof (cases rule: click_row_cases)
    case (1 m)
    with assms(2) \<open>\<not> sidebar_loading (app_sidebar s)\<close> show ?thesis by (simp add: model_simps)
  next
    case (2 m)
    then show ?thesis by (simp add: model_simps)
  qed
qed (use assms in \<open>auto simp: settle_def split: if_splits option.splits\<close>)

lemma reachable_loading_empty:
  "app_reachable s \<Longrightarrow> sidebar_loading (app_sidebar s) \<Longrightarrow> app_sidebar s = sidebar_init"
proof (induction rule: app_reachable.induct)
  case init
  then show ?case by (simp add: app_init_def)
next
  case (step s e s')
  then show ?case using app_step_loading_kept by metis
qed

text \<open>C33. Every leaf of the loaded tree can be reached: from every reachable state, a
  finite sequence of clicks on shown rows (expanding the collapsed ancestors, then
  clicking the leaf) selects it.\<close>

theorem every_leaf_selectable:
  assumes "app_reachable s" and "in_tree s n" and "is_leaf n"
  shows "\<exists>es s'. set es \<subseteq> range ClickRow \<and> app_run es s = Some s' \<and>
                 selected_node (app_layout s') = Some n"
proof -
  from assms(2) obtain ns where ns: "knowledge_tree (app_sidebar s) = Some ns"
    and n: "n \<in> set (forest_nodes ns)"
    by (auto simp: in_tree_def split: option.splits)
  have nl: "\<not> sidebar_loading (app_sidebar s)"
  proof
    assume "sidebar_loading (app_sidebar s)"
    with reachable_loading_empty [OF assms(1)] have "ns = []" using ns by (simp add: sidebar_init_def)
    with n show False by simp
  qed
  from n obtain root where root: "root \<in> set ns" and nr: "n \<in> set (tree_nodes root)"
    by (auto simp: forest_nodes_def)
  have "shown s root"
    using ns root by (auto simp: shown_def intro: visible_nodes_self)
  from leaf_selectable_below [OF nl this nr assms(3)] show ?thesis .
qed

subsection \<open>Delivering the pending responses\<close>

lemma settle_head:
  "in_flight s = x # rest \<Longrightarrow>
     app_step (ContentSettled 0 r) s =
       Some (s\<lparr>app_content := finish_load x r (app_content s), in_flight := rest\<rparr>)"
  by (simp add: settle_def)

lemma finish_load_twice: "finish_load a r (finish_load b r' c) = finish_load a r c"
  by (simp add: finish_load_def)

lemma drain_delivers:
  "in_flight s = xs \<Longrightarrow>
     drain resp s = app_run (map (\<lambda>n. ContentSettled 0 (resp n)) xs) s \<and>
     (\<exists>s'. drain resp s = Some s' \<and> in_flight s' = [] \<and>
        (xs \<noteq> [] \<longrightarrow> app_content s' = finish_load (last xs) (resp (last xs)) (app_content s)))"
proof (induction xs arbitrary: s)
  case Nil
  then show ?case by (simp add: drain.simps)
next
  case (Cons x rest)
  let ?s1 = "s\<lparr>app_content := finish_load x (resp x) (app_content s), in_flight := rest\<rparr>"
  have step: "app_step (ContentSettled 0 (resp x)) s = Some ?s1"
    using settle_head [OF Cons.prems] .
  have d: "drain resp s = drain resp ?s1"
    by (subst drain.simps) (simp only: Cons.prems list.case step option.case)
  have fl: "in_flight ?s1 = rest" by simp
  note ih = Cons.IH [of ?s1, OF fl]
  then obtain s' where s': "drain resp ?s1 = Some s'" and e: "in_flight s' = []"
    and c: "rest \<noteq> [] \<longrightarrow> app_content s' = finish_load (last rest) (resp (last rest)) (app_content ?s1)"
    by blast
  have "rest = [] \<Longrightarrow> s' = ?s1" using s' by (simp add: drain.simps)
  then have "app_content s' = finish_load (last (x # rest)) (resp (last (x # rest))) (app_content s)"
    using c by (cases "rest = []") (auto simp: finish_load_twice)
  then have last: "app_content s' = finish_load (last (x # rest)) (resp (last (x # rest))) (app_content s)"
    by simp
  have "app_run (map (\<lambda>n. ContentSettled 0 (resp n)) (x # rest)) s =
        app_run (map (\<lambda>n. ContentSettled 0 (resp n)) rest) ?s1"
    by (simp only: list.map app_run.simps step option.case)
  with d ih have run: "drain resp s = app_run (map (\<lambda>n. ContentSettled 0 (resp n)) (x # rest)) s"
    by simp
  from d s' e last show ?case by (simp only: run) auto
qed

text \<open>C34. The delivery loop terminates: from any state, delivering the response of
  every fetch in flight, oldest first, returns a state with nothing in flight; the
  result is the run of those settle events, and when some fetch was pending the panel
  has stopped loading and shows what the newest fetch's response resolves to.\<close>

theorem drain_terminates:
  "\<exists>s'. drain resp s = Some s' \<and> in_flight s' = [] \<and>
        drain resp s = app_run (map (\<lambda>n. ContentSettled 0 (resp n)) (in_flight s)) s \<and>
        (in_flight s \<noteq> [] \<longrightarrow>
           \<not> content_loading (app_content s') \<and>
           content (app_content s') = resolve_content (last (in_flight s)) (resp (last (in_flight s))))"
proof -
  obtain s' where d: "drain resp s = Some s'" "in_flight s' = []"
    and r: "drain resp s = app_run (map (\<lambda>n. ContentSettled 0 (resp n)) (in_flight s)) s"
    and c: "in_flight s \<noteq> [] \<longrightarrow>
              app_content s' = finish_load (last (in_flight s)) (resp (last (in_flight s))) (app_content s)"
    using drain_delivers [of s "in_flight s" resp] by blast
  show ?thesis using d r c by (intro exI [of _ s']) (simp add: model_simps)
qed

subsection \<open>Witnesses\<close>

theorem every_leaf_selectable_witness:
  "\<exists>es s'. set es \<subseteq> range ClickRow \<and> app_run es two_leaf_state = Some s' \<and>
           selected_node (app_layout s') = Some bowling_leaf"
proof -
  have "bowling_leaf \<in> set (tree_nodes skills_two)"
    using tree_nodes_child [of bowling_leaf skills_two] tree_nodes_self [of bowling_leaf]
    by (auto simp: skills_two_def child_list_def)
  then have t: "in_tree two_leaf_state bowling_leaf"
    by (simp add: in_tree_def two_leaf_state_def forest_nodes_def)
  have l: "is_leaf bowling_leaf"
    by (simp add: bowling_leaf_def is_leaf_def has_children_def child_list_def)
  show ?thesis using every_leaf_selectable [OF two_leaf_state_reachable t l] .
qed

theorem drain_terminates_witness:
  "\<exists>s'. drain (\<lambda>_. ContentFetchFailed) two_leaf_state = Some s' \<and> in_flight s' = [] \<and>
        \<not> content_loading (app_content s') \<and>
        content (app_content s') = Some (generate_default_content batting_leaf)"
  using drain_terminates [of "\<lambda>_. ContentFetchFailed" two_leaf_state]
  by (auto simp: two_leaf_state_def)

end
