(* ===== verification/Badge.thy ===== *)
theory Badge
  imports Knowledge
begin

text \<open>
  The badge of \<open>src/src/components/ui/badge.tsx\<close>: \<open>badgeVariants\<close> is a
  \<open>cva\<close> class builder, which yields the base classes followed by the classes of the
  chosen variant (\<open>default\<close> when none is given), and \<open>Badge\<close> passes that string
  and the caller's \<open>className\<close> to \<open>cn\<close>. The sidebar and the content panel use
  the node's level as the variant.
\<close>

datatype badge_variant =
    VariantDefault | VariantSecondary | VariantDestructive | VariantOutline
  | VariantBeginner | VariantIntermediate | VariantAdvanced

definition badge_base :: jstring where
  "badge_base = ascii ''inline-flex items-center rounded-full border px-2.5 py-0.5 text-xs font-semibold transition-colors focus:outline-none focus:ring-2 focus:ring-ring focus:ring-offset-2''"

fun variant_classes :: "badge_variant \<Rightarrow> jstring" where
  "variant_classes VariantDefault = ascii ''border-transparent bg-primary-500 text-white hover:bg-primary-700''"
| "variant_classes VariantSecondary = ascii ''border-transparent bg-neutral-700 text-neutral-100 hover:bg-neutral-600''"
| "variant_classes VariantDestructive = ascii ''border-transparent bg-destructive text-destructive-foreground hover:bg-destructive/80''"
| "variant_classes VariantOutline = ascii ''text-foreground''"
| "variant_classes VariantBeginner = ascii ''border-transparent bg-semantic-success/20 text-semantic-success''"
| "variant_classes VariantIntermediate = ascii ''border-transparent bg-semantic-warning/20 text-semantic-warning''"
| "variant_classes VariantAdvanced = ascii ''border-transparent bg-semantic-error/20 text-semantic-error''"

definition badge_variants :: "badge_variant option \<Rightarrow> jstring" where
  "badge_variants v = badge_base @ ascii '' '' @ variant_classes (case v of None \<Rightarrow> VariantDefault | Some x \<Rightarrow> x)"

text \<open>The arguments \<open>Badge\<close> passes to \<open>cn\<close>.\<close>

definition badge_class_args :: "badge_variant option \<Rightarrow> jstring option \<Rightarrow> jstring list" where
  "badge_class_args v class_name = badge_variants v # (case class_name of None \<Rightarrow> [] | Some c \<Rightarrow> [c])"

text \<open>\<open>variant={node.level}\<close>.\<close>

fun level_variant :: "level \<Rightarrow> badge_variant" where
  "level_variant Beginner = VariantBeginner"
| "level_variant Intermediate = VariantIntermediate"
| "level_variant Advanced = VariantAdvanced"

lemma variant_classes_level_inj: "variant_classes (level_variant a) = variant_classes (level_variant b) \<longleftrightarrow> a = b"
  by (cases a; cases b) (simp_all add: ascii_Cons)

text \<open>The badge's classes identify the level: two levels get the same class
  string only if they are the same level, and no level badge falls back to the default
  variant.\<close>

theorem level_badge_classes_distinct:
  assumes "badge_class_args (Some (level_variant a)) c = badge_class_args (Some (level_variant b)) c'"
  shows "a = b \<and> c = c' \<and> badge_variants (Some (level_variant a)) \<noteq> badge_variants None"
proof -
  from assms have "variant_classes (level_variant a) = variant_classes (level_variant b)" and "c = c'"
    by (auto simp: badge_class_args_def badge_variants_def split: option.splits)
  moreover have "variant_classes (level_variant a) \<noteq> variant_classes VariantDefault"
    by (cases a) (simp_all add: ascii_Cons)
  ultimately show ?thesis
    by (simp add: variant_classes_level_inj badge_variants_def)
qed

theorem level_badge_classes_distinct_witness:
  "Beginner = Beginner \<and> Some (ascii ''ml-2 text-xs'') = Some (ascii ''ml-2 text-xs'') \<and>
   badge_variants (Some (level_variant Beginner)) \<noteq> badge_variants None"
  using level_badge_classes_distinct [of Beginner "Some (ascii ''ml-2 text-xs'')" Beginner "Some (ascii ''ml-2 text-xs'')"]
  by simp

end
