(* ===== verification/Theme.thy ===== *)
theory Theme
  imports JsString
begin

text \<open>
  The Tailwind configuration of \<open>src/tailwind.config.js\<close> and the resolution of
  utility classes against it. The configuration only \<open>extend\<close>s the default theme:
  Tailwind merges each extended colour family into the default family of that name,
  shade by shade, and adds the keys of the other extended scales (font sizes, font
  families, spacing, border radii, shadows, animations); every other scale is the
  default. A class whose value is not in the merged theme, or that belongs to a plugin
  that is not installed, generates no CSS: the element silently loses that style. The
  content globs say which files Tailwind scans for class names at all.

  The defaults used here are those of Tailwind CSS 3 (the library, not part of the
  repository): the colour families and their shades, the keyword colours, and the
  default scales listed below, and how \<open>darkMode\<close> and \<open>container\<close> are read.
\<close>

datatype theme_color = Shades "(jstring \<times> jstring) list" | Flat jstring

text \<open>\<open>theme.extend.colors\<close> (lines 19--83), in the order of the file.\<close>

definition extend_colors :: "(jstring \<times> theme_color) list" where
  "extend_colors =
     [(ascii ''primary'', Shades [(ascii ''50'', ascii ''#e3f2fd''),
         (ascii ''100'', ascii ''#bbdefb''),
         (ascii ''500'', ascii ''#2196f3''),
         (ascii ''700'', ascii ''#1976d2''),
         (ascii ''900'', ascii ''#0d47a1''),
         (ascii ''DEFAULT'', ascii ''#2196f3''),
         (ascii ''foreground'', ascii ''#ffffff'')]),
      (ascii ''neutral'', Shades [(ascii ''50'', ascii ''#fafafa''),
         (ascii ''100'', ascii ''#f5f5f5''),
         (ascii ''200'', ascii ''#e0e0e0''),
         (ascii ''300'', ascii ''#bdbdbd''),
         (ascii ''700'', ascii ''#616161''),
         (ascii ''800'', ascii ''#424242''),
         (ascii ''850'', ascii ''#303030''),
         (ascii ''900'', ascii ''#212121''),
         (ascii ''950'', ascii ''#121212'')]),
      (ascii ''semantic'', Shades [(ascii ''success'', ascii ''#4caf50''),
         (ascii ''warning'', ascii ''#ff9800''),
         (ascii ''error'', ascii ''#f44336''),
         (ascii ''info'', ascii ''#2196f3'')]),
      (ascii ''background'', Shades [(ascii ''primary'', ascii ''#212121''),
         (ascii ''secondary'', ascii ''#303030''),
         (ascii ''elevated'', ascii ''#424242''),
         (ascii ''overlay'', ascii ''rgba(0, 0, 0, 0.6)''),
         (ascii ''DEFAULT'', ascii ''#212121'')]),
      (ascii ''border'', Flat (ascii ''hsl(var(--border))'')),
      (ascii ''input'', Flat (ascii ''hsl(var(--input))'')),
      (ascii ''ring'', Flat (ascii ''hsl(var(--ring))'')),
      (ascii ''foreground'', Flat (ascii ''hsl(var(--foreground))'')),
      (ascii ''secondary'', Shades [(ascii ''DEFAULT'', ascii ''hsl(var(--secondary))''),
         (ascii ''foreground'', ascii ''hsl(var(--secondary-foreground))'')]),
      (ascii ''destructive'', Shades [(ascii ''DEFAULT'', ascii ''hsl(var(--destructive))''),
         (ascii ''foreground'', ascii ''hsl(var(--destructive-foreground))'')]),
      (ascii ''muted'', Shades [(ascii ''DEFAULT'', ascii ''hsl(var(--muted))''),
         (ascii ''foreground'', ascii ''hsl(var(--muted-foreground))'')]),
      (ascii ''accent'', Shades [(ascii ''DEFAULT'', ascii ''hsl(var(--accent))''),
         (ascii ''foreground'', ascii ''hsl(var(--accent-foreground))'')]),
      (ascii ''popover'', Shades [(ascii ''DEFAULT'', ascii ''hsl(var(--popover))''),
         (ascii ''foreground'', ascii ''hsl(var(--popover-foreground))'')]),
      (ascii ''card'', Shades [(ascii ''DEFAULT'', ascii ''hsl(var(--card))''),
         (ascii ''foreground'', ascii ''hsl(var(--card-foreground))'')])]"

text \<open>\<open>theme.extend.fontSize\<close> (lines 90--100): size and line height per key.\<close>

definition extend_font_sizes :: "(jstring \<times> jstring \<times> jstring) list" where
  "extend_font_sizes =
     [(ascii ''xs'', ascii ''0.75rem'', ascii ''1.2''),
      (ascii ''sm'', ascii ''0.875rem'', ascii ''1.4''),
      (ascii ''base'', ascii ''1rem'', ascii ''1.6''),
      (ascii ''lg'', ascii ''1.125rem'', ascii ''1.8''),
      (ascii ''xl'', ascii ''1.25rem'', ascii ''1.4''),
      (ascii ''2xl'', ascii ''1.5rem'', ascii ''1.2''),
      (ascii ''3xl'', ascii ''1.875rem'', ascii ''1.2''),
      (ascii ''4xl'', ascii ''2.25rem'', ascii ''1.2''),
      (ascii ''5xl'', ascii ''3rem'', ascii ''1.2'')]"

text \<open>\<open>theme.extend.spacing\<close> (lines 101--115) and \<open>theme.extend.borderRadius\<close>
  (lines 116--122).\<close>

definition extend_spacing :: "(jstring \<times> jstring) list" where
  "extend_spacing =
     [(ascii ''1'', ascii ''4px''), (ascii ''2'', ascii ''8px''), (ascii ''3'', ascii ''12px''),
      (ascii ''4'', ascii ''16px''), (ascii ''5'', ascii ''20px''), (ascii ''6'', ascii ''24px''),
      (ascii ''8'', ascii ''32px''), (ascii ''10'', ascii ''40px''), (ascii ''12'', ascii ''48px''),
      (ascii ''16'', ascii ''64px''), (ascii ''20'', ascii ''80px''), (ascii ''24'', ascii ''96px''),
      (ascii ''32'', ascii ''128px'')]"

definition extend_border_radius :: "(jstring \<times> jstring) list" where
  "extend_border_radius =
     [(ascii ''sm'', ascii ''4px''), (ascii ''md'', ascii ''8px''), (ascii ''lg'', ascii ''12px''),
      (ascii ''xl'', ascii ''16px''), (ascii ''full'', ascii ''9999px'')]"

text \<open>\<open>content\<close> (lines 4--9): the files Tailwind scans for class names, as glob
  patterns relative to the project root.\<close>

definition content_globs :: "jstring list" where
  "content_globs = map ascii [''./pages/**/*.{ts,tsx}'', ''./components/**/*.{ts,tsx}'',
     ''./app/**/*.{ts,tsx}'', ''./src/**/*.{ts,tsx}'']"

text \<open>\<open>theme.extend.fontFamily\<close> (lines 84--89).\<close>

definition extend_font_families :: "(jstring \<times> jstring list) list" where
  "extend_font_families =
     [(ascii ''display'', map ascii [''Noto Serif SC'', ''Georgia'', ''serif'']),
      (ascii ''heading'', map ascii [''Noto Sans SC'', ''-apple-system'', ''BlinkMacSystemFont'', ''Segoe UI'', ''sans-serif'']),
      (ascii ''body'', map ascii [''Noto Sans SC'', ''-apple-system'', ''BlinkMacSystemFont'', ''Segoe UI'', ''sans-serif'']),
      (ascii ''mono'', map ascii [''Fira Code'', ''Courier New'', ''monospace''])]"

text \<open>\<open>theme.extend.boxShadow\<close> (lines 123--128).\<close>

definition extend_box_shadows :: "(jstring \<times> jstring) list" where
  "extend_box_shadows =
     [(ascii ''sm'', ascii ''0 1px 2px 0 rgba(0, 0, 0, 0.3)''),
      (ascii ''md'', ascii ''0 4px 6px -1px rgba(0, 0, 0, 0.4)''),
      (ascii ''lg'', ascii ''0 10px 15px -3px rgba(0, 0, 0, 0.5)''),
      (ascii ''xl'', ascii ''0 20px 25px -5px rgba(0, 0, 0, 0.5)'')]"

text \<open>\<open>theme.extend.animation\<close> and \<open>theme.extend.keyframes\<close> (lines 129--142): each
  animation is a keyframes name followed by its timing; each keyframes rule the heights
  it goes from and to.\<close>

definition extend_animations :: "(jstring \<times> jstring) list" where
  "extend_animations =
     [(ascii ''accordion-down'', ascii ''accordion-down 0.2s ease-out''),
      (ascii ''accordion-up'', ascii ''accordion-up 0.2s ease-out'')]"

definition extend_keyframes :: "(jstring \<times> jstring \<times> jstring) list" where
  "extend_keyframes =
     [(ascii ''accordion-down'', ascii ''0'', ascii ''var(--radix-accordion-content-height)''),
      (ascii ''accordion-up'', ascii ''var(--radix-accordion-content-height)'', ascii ''0'')]"

text \<open>\<open>plugins\<close> (line 145).\<close>

definition plugins :: "jstring list" where
  "plugins = [ascii ''tailwindcss-animate'']"

text \<open>\<open>darkMode\<close> (line 3): the \<open>class\<close> strategy, as an array.\<close>

definition dark_mode :: "jstring list" where
  "dark_mode = [ascii ''class'']"

text \<open>\<open>theme.container\<close> (lines 11--17): centred, a padding of \<open>2rem\<close>, and its own
  list of breakpoints, which replaces the default screens for the container.\<close>

record container_options =
  container_center :: bool
  container_padding :: jstring
  container_screens :: "(jstring \<times> jstring) list"

definition container_config :: container_options where
  "container_config =
     \<lparr>container_center = True, container_padding = ascii ''2rem'',
      container_screens = [(ascii ''2xl'', ascii ''1400px'')]\<rparr>"

subsection \<open>The defaults of Tailwind CSS 3\<close>

text \<open>How Tailwind reads \<open>darkMode\<close>: \<open>'media'\<close> follows the system preference;
  \<open>'class'\<close> (alone or in an array) applies \<open>dark:\<close> styles below an element with
  class \<open>dark\<close>, and \<open>['class', sel]\<close> below one matching the selector \<open>sel\<close>.\<close>

datatype dark_strategy = DarkMedia | DarkSelector jstring

fun dark_strategy_of :: "jstring list \<Rightarrow> dark_strategy option" where
  "dark_strategy_of [m] =
     (if m = ascii ''media'' then Some DarkMedia
      else if m = ascii ''class'' then Some (DarkSelector (ascii ''.dark'')) else None)"
| "dark_strategy_of [m, sel] = (if m = ascii ''class'' then Some (DarkSelector sel) else None)"
| "dark_strategy_of _ = None"

text \<open>Whether \<open>dark:\<close> styles apply to an element, given the classes of its ancestors
  and whether the system prefers a dark scheme.\<close>

definition dark_active :: "dark_strategy \<Rightarrow> jstring list \<Rightarrow> bool \<Rightarrow> bool" where
  "dark_active st ancestors prefers_dark =
     (case st of
        DarkMedia \<Rightarrow> prefers_dark
      | DarkSelector sel \<Rightarrow> take 1 sel = ascii ''.'' \<and> drop 1 sel \<in> set ancestors)"

text \<open>The rules the container plugin generates for \<open>.container\<close>: full width, auto
  side margins when centred, the side padding, and at each breakpoint of its screens a
  media query \<open>(min-width: w)\<close> capping the width at \<open>w\<close>.\<close>

text \<open>A class carries the \<open>dark:\<close> variant when \<open>dark\<close> is one of the prefixes
  before its utility.\<close>

definition dark_variant :: "jstring \<Rightarrow> bool" where
  "dark_variant t \<longleftrightarrow> ascii ''dark'' \<in> set (butlast (split_on 0x3A t))"

datatype css_decl = CssDecl jstring jstring

definition container_rules :: "container_options \<Rightarrow> (jstring option \<times> css_decl list) list" where
  "container_rules c =
     (None, CssDecl (ascii ''width'') (ascii ''100%'') #
        (if container_center c
         then [CssDecl (ascii ''margin-right'') (ascii ''auto''), CssDecl (ascii ''margin-left'') (ascii ''auto'')]
         else []) @
        (if container_padding c = [] then []
         else [CssDecl (ascii ''padding-right'') (container_padding c),
               CssDecl (ascii ''padding-left'') (container_padding c)])) #
     map (\<lambda>(_, w). (Some w, [CssDecl (ascii ''max-width'') w])) (container_screens c)"

definition default_spacing :: "jstring list" where
  "default_spacing = map ascii [''0'', ''px'', ''0.5'', ''1'', ''1.5'', ''2'', ''2.5'', ''3'', ''3.5'',
     ''4'', ''5'', ''6'', ''7'', ''8'', ''9'', ''10'', ''11'', ''12'', ''14'', ''16'', ''20'', ''24'', ''28'',
     ''32'', ''36'', ''40'', ''44'', ''48'', ''52'', ''56'', ''60'', ''64'', ''72'', ''80'', ''96'']"

definition default_border_radius :: "jstring list" where
  "default_border_radius = map ascii [''none'', ''sm'', ''md'', ''lg'', ''xl'', ''2xl'', ''3xl'', ''full'']"

text \<open>The utilities that take a spacing value, and the further values each of them
  accepts: sizes and fractions for width and height, \<open>auto\<close> for margins, fractions
  and \<open>full\<close> (and \<open>auto\<close> for insets) for positions and translations.\<close>

definition spacing_prefixes :: "jstring list" where
  "spacing_prefixes = map ascii [''p-'', ''px-'', ''py-'', ''pt-'', ''pr-'', ''pb-'', ''pl-'', ''m-'',
     ''mx-'', ''my-'', ''mt-'', ''mr-'', ''mb-'', ''ml-'', ''space-x-'', ''space-y-'', ''gap-'', ''w-'', ''h-'',
     ''inset-'', ''top-'', ''right-'', ''bottom-'', ''left-'', ''translate-x-'', ''translate-y-'']"

definition fractions :: "jstring list" where
  "fractions = map ascii [''1/2'', ''1/3'', ''2/3'', ''1/4'', ''2/4'', ''3/4'', ''full'']"

definition spacing_extras :: "jstring \<Rightarrow> jstring list" where
  "spacing_extras p =
     (if p \<in> set (map ascii [''w-'', ''h-'']) then map ascii [''auto'', ''screen'', ''min'', ''max'', ''fit''] @ fractions
      else if p \<in> set (map ascii [''m-'', ''mx-'', ''my-'', ''mt-'', ''mr-'', ''mb-'', ''ml-'']) then [ascii ''auto'']
      else if p \<in> set (map ascii [''inset-'', ''top-'', ''right-'', ''bottom-'', ''left-'']) then ascii ''auto'' # fractions
      else if p \<in> set (map ascii [''translate-x-'', ''translate-y-'']) then fractions
      else [])"

definition default_font_families :: "jstring list" where
  "default_font_families = map ascii [''sans'', ''serif'', ''mono'']"

definition font_weights :: "jstring list" where
  "font_weights = map ascii [''thin'', ''extralight'', ''light'', ''normal'', ''medium'', ''semibold'',
     ''bold'', ''extrabold'', ''black'']"

definition default_box_shadows :: "jstring list" where
  "default_box_shadows = map ascii [''sm'', ''md'', ''lg'', ''xl'', ''2xl'', ''inner'', ''none'']"

definition default_animations :: "jstring list" where
  "default_animations = map ascii [''none'', ''spin'', ''ping'', ''pulse'', ''bounce'']"

definition line_heights :: "jstring list" where
  "line_heights = map ascii [''none'', ''tight'', ''snug'', ''normal'', ''relaxed'', ''loose'', ''3'', ''4'',
     ''5'', ''6'', ''7'', ''8'', ''9'', ''10'']"

definition z_indices :: "jstring list" where
  "z_indices = map ascii [''0'', ''10'', ''20'', ''30'', ''40'', ''50'', ''auto'']"

definition max_widths :: "jstring list" where
  "max_widths = map ascii [''none'', ''0'', ''xs'', ''sm'', ''md'', ''lg'', ''xl'', ''2xl'', ''3xl'', ''4xl'',
     ''5xl'', ''6xl'', ''7xl'', ''full'', ''min'', ''max'', ''fit'', ''prose'', ''screen-sm'', ''screen-md'',
     ''screen-lg'', ''screen-xl'', ''screen-2xl'']"

definition grid_columns :: "jstring list" where
  "grid_columns = map (\<lambda>d. [cu d]) ''123456789'' @ map ascii [''10'', ''11'', ''12'', ''none'', ''subgrid'']"

definition durations :: "jstring list" where
  "durations = map ascii [''0'', ''75'', ''100'', ''150'', ''200'', ''300'', ''500'', ''700'', ''1000'']"

definition easings :: "jstring list" where
  "easings = map ascii [''linear'', ''in'', ''out'', ''in-out'']"

text \<open>What the plugin \<open>tailwindcss-animate\<close> adds to \<open>animate-\<close>, and the plugin that
  provides the \<open>prose\<close> classes.\<close>

definition animate_plugin_utilities :: "jstring list" where
  "animate_plugin_utilities = map ascii [''in'', ''out'']"

definition typography_plugin :: jstring where
  "typography_plugin = ascii ''@tailwindcss/typography''"

definition default_color_families :: "jstring list" where
  "default_color_families = map ascii [''slate'', ''gray'', ''zinc'', ''neutral'', ''stone'', ''red'',
     ''orange'', ''amber'', ''yellow'', ''lime'', ''green'', ''emerald'', ''teal'', ''cyan'', ''sky'',
     ''blue'', ''indigo'', ''violet'', ''purple'', ''fuchsia'', ''pink'', ''rose'']"

definition default_shades :: "jstring list" where
  "default_shades = map ascii [''50'', ''100'', ''200'', ''300'', ''400'', ''500'', ''600'', ''700'',
     ''800'', ''900'', ''950'']"

definition default_keyword_colors :: "jstring list" where
  "default_keyword_colors = map ascii [''inherit'', ''current'', ''transparent'', ''black'', ''white'']"

definition default_font_sizes :: "jstring list" where
  "default_font_sizes = map ascii [''xs'', ''sm'', ''base'', ''lg'', ''xl'', ''2xl'', ''3xl'', ''4xl'',
     ''5xl'', ''6xl'', ''7xl'', ''8xl'', ''9xl'']"

definition text_align_values :: "jstring list" where
  "text_align_values = map ascii [''left'', ''center'', ''right'', ''justify'', ''start'', ''end'']"

definition border_widths :: "jstring list" where
  "border_widths = map ascii [''0'', ''2'', ''4'', ''8'']"

definition border_sides :: "jstring list" where
  "border_sides = map ascii [''x'', ''y'', ''s'', ''e'', ''t'', ''r'', ''b'', ''l'']"

definition ring_widths :: "jstring list" where
  "ring_widths = map ascii [''0'', ''1'', ''2'', ''4'', ''8'']"

definition ring_offset_widths :: "jstring list" where
  "ring_offset_widths = map ascii [''0'', ''1'', ''2'', ''4'', ''8'']"

subsection \<open>The merged theme\<close>

text \<open>The shade keys of a colour family after the merge: those of the configuration
  and those of the default family of the same name.\<close>

definition shade_keys :: "jstring \<Rightarrow> jstring list" where
  "shade_keys fam =
     (case map_of extend_colors fam of Some (Shades xs) \<Rightarrow> map fst xs | _ \<Rightarrow> []) @
     (if fam \<in> set default_color_families then default_shades else [])"

definition font_size_keys :: "jstring list" where
  "font_size_keys = map fst extend_font_sizes @ default_font_sizes"

definition spacing_keys :: "jstring list" where
  "spacing_keys = map fst extend_spacing @ default_spacing"

definition radius_keys :: "jstring list" where
  "radius_keys = map fst extend_border_radius @ default_border_radius"

definition dash :: code_unit where "dash = 0x2D"

text \<open>A colour reference \<open>family\<close> or \<open>family-shade\<close>, after its opacity
  modifier \<open>/n\<close> has been removed.\<close>

definition color_ok :: "jstring \<Rightarrow> bool" where
  "color_ok r =
     (let c = takeWhile (\<lambda>u. u \<noteq> 0x2F) r;
          fam = takeWhile (\<lambda>u. u \<noteq> dash) c;
          shade = drop 1 (dropWhile (\<lambda>u. u \<noteq> dash) c)
      in if dash \<in> set c then shade \<in> set (shade_keys fam)
         else c \<in> set default_keyword_colors \<or> ascii ''DEFAULT'' \<in> set (shade_keys c) \<or>
              (case map_of extend_colors c of Some (Flat _) \<Rightarrow> True | _ \<Rightarrow> False))"

definition border_ok :: "jstring \<Rightarrow> bool" where
  "border_ok r \<longleftrightarrow>
     r \<in> set border_widths \<or> r \<in> set border_sides \<or>
     (take 1 r \<in> set border_sides \<and> take 1 (drop 1 r) = [dash] \<and> drop 2 r \<in> set border_widths) \<or>
     color_ok r"

text \<open>Whether a class generates CSS, for the utilities that read the theme or a
  plugin: colours (background, text, border, ring), font sizes, families and weights,
  border and ring widths, spacing (padding, margin, gaps, width, height, positions,
  translations), border radius, shadows, animations, line heights, z-index, maximum
  widths, grid columns, durations, easings, and the \<open>prose\<close> classes of the
  typography plugin. Variant prefixes such as \<open>hover:\<close> and a leading minus (a
  negative value) are dropped first. Classes of the other utilities (display, flex,
  overflow, transitions) are not judged.\<close>

definition utility_ok :: "jstring \<Rightarrow> bool" where
  "utility_ok t =
     (let v = last (split_on 0x3A t);
          u = (if take 1 v = [dash] then drop 1 v else v)
      in if starts_with u (ascii ''bg-'') then color_ok (drop 3 u)
         else if starts_with u (ascii ''text-'') then
           drop 5 u \<in> set font_size_keys \<or> drop 5 u \<in> set text_align_values \<or> color_ok (drop 5 u)
         else if u = ascii ''border'' then True
         else if starts_with u (ascii ''border-'') then border_ok (drop 7 u)
         else if u = ascii ''ring'' then True
         else if starts_with u (ascii ''ring-offset-'') then
           drop 12 u \<in> set ring_offset_widths \<or> color_ok (drop 12 u)
         else if starts_with u (ascii ''ring-'') then drop 5 u \<in> set ring_widths \<or> color_ok (drop 5 u)
         else if u = ascii ''rounded'' then True
         else if starts_with u (ascii ''rounded-'') then drop 8 u \<in> set radius_keys
         else if starts_with u (ascii ''font-'') then
           drop 5 u \<in> set font_weights \<or> drop 5 u \<in> set (map fst extend_font_families @ default_font_families)
         else if u = ascii ''shadow'' then True
         else if starts_with u (ascii ''shadow-'') then
           drop 7 u \<in> set (map fst extend_box_shadows @ default_box_shadows)
         else if starts_with u (ascii ''animate-'') then
           drop 8 u \<in> set (map fst extend_animations @ default_animations) \<or>
           (ascii ''tailwindcss-animate'' \<in> set plugins \<and> drop 8 u \<in> set animate_plugin_utilities)
         else if u = ascii ''prose'' \<or> starts_with u (ascii ''prose-'') then typography_plugin \<in> set plugins
         else if starts_with u (ascii ''leading-'') then drop 8 u \<in> set line_heights
         else if starts_with u (ascii ''z-'') then drop 2 u \<in> set z_indices
         else if starts_with u (ascii ''max-w-'') then drop 6 u \<in> set max_widths
         else if starts_with u (ascii ''grid-cols-'') then drop 10 u \<in> set grid_columns
         else if starts_with u (ascii ''duration-'') then drop 9 u \<in> set durations
         else if starts_with u (ascii ''ease-'') then drop 5 u \<in> set easings
         else case find (starts_with u) spacing_prefixes of
                None \<Rightarrow> True
              | Some p \<Rightarrow> drop (length p) u \<in> set spacing_keys \<or> drop (length p) u \<in> set (spacing_extras p))"

definition class_tokens :: "jstring \<Rightarrow> jstring list" where
  "class_tokens c = filter (\<lambda>t. t \<noteq> []) (split_on 0x20 c)"

subsection \<open>Content globs\<close>

text \<open>A content pattern of the form \<open>./dir/**/*.{e1,...,en}\<close>: every file below
  \<open>dir\<close>, at any depth, whose name ends in one of the extensions.\<close>

datatype content_glob = ContentGlob jstring "jstring list"

definition parse_glob :: "jstring \<Rightarrow> content_glob option" where
  "parse_glob p =
     (if starts_with p (ascii ''./'')
      then (let rest = drop 2 p;
                dir = takeWhile (\<lambda>u. u \<noteq> 0x2F) rest;
                after = drop (length dir) rest
            in if starts_with after (ascii ''/**/*.{'') \<and> ends_with after (ascii ''}'') \<and> dir \<noteq> []
               then Some (ContentGlob dir (split_on 0x2C (butlast (drop 7 after))))
               else None)
      else None)"

fun glob_matches :: "content_glob \<Rightarrow> jstring \<Rightarrow> bool" where
  "glob_matches (ContentGlob dir exts) path \<longleftrightarrow>
     starts_with path (dir @ ascii ''/'') \<and> list_ex (\<lambda>e. ends_with path (ascii ''.'' @ e)) exts"

definition scanned :: "jstring \<Rightarrow> bool" where
  "scanned path \<longleftrightarrow>
     list_ex (\<lambda>g. case parse_glob g of Some gl \<Rightarrow> glob_matches gl path | None \<Rightarrow> False) content_globs"

subsection \<open>Consistency of the configuration\<close>

text \<open>Every extended animation runs a keyframes rule that the configuration defines.\<close>

text \<open>With the configured \<open>darkMode\<close>, \<open>dark:\<close> styles apply exactly below an
  element with class \<open>dark\<close>, whatever the system preference.\<close>

lemma dark_styles_follow_class:
  "dark_strategy_of dark_mode = Some (DarkSelector (ascii ''.dark'')) \<and>
   (dark_active (the (dark_strategy_of dark_mode)) ancestors prefers_dark \<longleftrightarrow> ascii ''dark'' \<in> set ancestors)"
  by (simp add: dark_mode_def dark_active_def ascii_Cons_cu)

text \<open>The configured container is centred and padded by \<open>2rem\<close> at every width, and
  its width is capped at \<open>1400px\<close> from that width on (and by nothing below it).\<close>

lemma container_config_rules:
  "container_rules container_config =
     [(None, [CssDecl (ascii ''width'') (ascii ''100%''), CssDecl (ascii ''margin-right'') (ascii ''auto''),
              CssDecl (ascii ''margin-left'') (ascii ''auto''), CssDecl (ascii ''padding-right'') (ascii ''2rem''),
              CssDecl (ascii ''padding-left'') (ascii ''2rem'')]),
      (Some (ascii ''1400px''), [CssDecl (ascii ''max-width'') (ascii ''1400px'')])]"
  by (simp add: container_rules_def container_config_def ascii_Cons_cu)

lemma animations_use_keyframes:
  "list_all (\<lambda>(k, v). takeWhile (\<lambda>u. u \<noteq> 0x20) v \<in> set (map fst extend_keyframes)) extend_animations"
proof -
  have sp: "(0x20 :: code_unit) = cu CHR '' ''" by (simp add: cu_def)
  show ?thesis
    by (simp add: extend_animations_def extend_keyframes_def ascii_Cons_cu sp)
qed

end
