(* ===== verification/Styles.thy ===== *)
theory Styles
  imports JsString
begin

text \<open>
  The \<open>className\<close> strings of the static elements of each component, in document
  order, as the JSX writes them: template literals become concatenations, a
  conditional class the string of the branch taken, and the \<open>className\<close> prop the
  string it receives (\<open>Layout\<close> passes \<open>flex-1\<close> to the content panel and nothing
  to the sidebar, which leaves \<open>cn\<close> only its first argument). The classes computed
  from node data (icons, row styles, badges, blocks, welcome cards) are in the theories
  of their components.
\<close>

text \<open>\<open>Header.tsx\<close> lines 27--74: the bar, the menu button, the logo, the title, the
  search form and icon, the input, and the progress indicator.\<close>

definition header_classes :: "jstring list" where
  "header_classes = map ascii
     [''h-16 bg-neutral-850 border-b border-neutral-700 shadow-md'',
      ''h-full px-6 flex items-center justify-between'',
      ''flex items-center space-x-4'',
      ''md:hidden'',
      ''w-5 h-5'',
      ''flex items-center space-x-3'',
      ''w-8 h-8 bg-primary-500 rounded-lg flex items-center justify-center'',
      ''text-white font-bold text-sm'',
      ''hidden sm:block'',
      ''text-xl font-bold text-neutral-50'',
      ''text-xs text-neutral-400'',
      ''flex-1 max-w-md mx-6'',
      ''relative'',
      ''absolute left-3 top-1/2 transform -translate-y-1/2 w-4 h-4 text-neutral-400'',
      ''pl-10 pr-4 h-10 w-full'',
      ''flex items-center space-x-3'',
      ''hidden md:flex items-center space-x-2 text-sm text-neutral-300'',
      ''w-16 h-2 bg-neutral-700 rounded-full overflow-hidden'',
      ''w-1/3 h-full bg-primary-500 rounded-full'']"

text \<open>\<open>Layout.tsx\<close> lines 39--78, for a given state of the mobile menu: the page,
  the body, the sidebar wrapper, the overlay (rendered only while the menu is open), the
  sliding panel and the content panel's \<open>className\<close>.\<close>

definition layout_classes :: "bool \<Rightarrow> jstring list" where
  "layout_classes menu_open =
     [ascii ''h-screen bg-background-primary flex flex-col'',
      ascii ''flex-1 flex overflow-hidden'',
      (if menu_open then ascii ''fixed inset-0 z-50'' else ascii ''hidden'') @
        ascii '' md:relative md:z-auto md:block''] @
     (if menu_open then [ascii ''fixed inset-0 bg-background-overlay md:hidden''] else []) @
     [ascii ''relative transform transition-transform duration-300 ease-in-out '' @
        (if menu_open then ascii ''translate-x-0'' else ascii ''-translate-x-full'') @
        ascii '' md:translate-x-0'',
      ascii ''flex-1'']"

text \<open>\<open>Sidebar.tsx\<close>: the frame while loading, with its eight bars (lines
  159--164), or the frame with its heading and navigation (lines 171--174).\<close>

definition sidebar_frame_classes :: "bool \<Rightarrow> jstring list" where
  "sidebar_frame_classes loading =
     (if loading
      then map ascii [''w-80 bg-neutral-850 border-r border-neutral-700 p-6'', ''space-y-3'',
        ''h-8 bg-neutral-800 rounded animate-pulse'']
      else map ascii [''w-80 bg-neutral-850 border-r border-neutral-700 overflow-y-auto'', ''p-6'',
        ''text-xl font-bold text-neutral-50 mb-6'', ''space-y-2''])"

text \<open>The fixed elements of one row of \<open>renderNode\<close> (lines 111--150): its wrapper,
  the inner flex box, the chevron box and icon, the icon box, the title, the badge's
  \<open>className\<close> and the children's box.\<close>

definition sidebar_row_classes :: "jstring list" where
  "sidebar_row_classes = map ascii
     [''select-none'', ''flex items-center flex-1'', ''mr-2'', ''w-4 h-4 text-neutral-400'', ''mr-3'',
      ''flex-1'', ''ml-2 text-xs'', ''mt-1'']"

text \<open>\<open>ContentArea.tsx\<close>, the welcome page (lines 311--333) apart from the cards'
  own classes, with the panel's \<open>className\<close> prop.\<close>

definition welcome_classes :: "jstring \<Rightarrow> jstring list" where
  "welcome_classes class_name =
     [ascii ''flex-1 bg-background-primary p-8 '' @ class_name] @ map ascii
     [''max-w-4xl mx-auto'', ''text-center py-20'', ''w-16 h-16 text-neutral-600 mx-auto mb-6'',
      ''text-3xl font-bold text-neutral-50 mb-4'', ''text-xl text-neutral-400 mb-8'',
      ''grid grid-cols-1 md:grid-cols-2 lg:grid-cols-3 gap-6 max-w-4xl mx-auto'', ''w-6 h-6 text-white'',
      ''text-lg font-semibold text-neutral-100 mb-2'', ''text-neutral-400 text-sm'']"

text \<open>The article (lines 346--417): breadcrumbs, title area, the body (the ten loading
  bars or the formatted text) and the footer.\<close>

definition article_classes :: "jstring \<Rightarrow> bool \<Rightarrow> jstring list" where
  "article_classes class_name loading =
     [ascii ''flex-1 bg-background-primary overflow-y-auto '' @ class_name] @ map ascii
     [''max-w-4xl mx-auto p-8'', ''flex items-center space-x-2 text-sm text-neutral-300 mb-8'',
      ''hover:text-primary-500 transition-colors'', ''w-4 h-4'', ''text-neutral-100 font-medium'',
      ''mb-8'', ''flex items-center space-x-3 mb-4'', ''flex items-center space-x-4 text-sm text-neutral-400'',
      ''flex items-center space-x-1'', ''text-4xl font-bold text-neutral-50 leading-tight'',
      ''prose prose-invert max-w-none''] @
     (if loading then map ascii [''space-y-4'', ''h-4 bg-neutral-800 rounded animate-pulse'']
      else [ascii ''text-neutral-200'']) @ map ascii
     [''mt-12 pt-8 border-t border-neutral-700'', ''flex items-center justify-between'',
      ''flex space-x-4'', ''w-4 h-4 mr-2'', ''text-sm text-neutral-400'']"

end
