(* ===== verification/ThemeCheck.thy ===== *)
theory ThemeCheck
  imports Theme Styles Sidebar Badge ContentArea
begin

text \<open>
  The classes the components emit, checked against the theme of \<open>Theme\<close>: those
  computed from node data (icons, row styles, badges, formatted blocks, welcome cards)
  and the static \<open>className\<close> strings of \<open>Styles\<close>, for both states of the mobile
  menu, of the sidebar and of the article body; and that Tailwind scans every source
  file of the components for them.
\<close>

subsection \<open>The classes the components emit\<close>

fun icon_class :: "node_icon \<Rightarrow> jstring" where
  "icon_class (BookOpenIcon c) = c"
| "icon_class (DotIcon c) = c"

definition icon_classes :: "jstring list" where
  "icon_classes = map (icon_class \<circ> get_node_icon) [Category, Section, Subsection, Content]"

definition row_classes :: "jstring list" where
  "row_classes = concat (map (\<lambda>ty. get_node_styles ty True) [Category, Section, Subsection, Content])"

definition badge_classes :: "jstring list" where
  "badge_classes = badge_base # map variant_classes [VariantDefault, VariantSecondary, VariantDestructive,
     VariantOutline, VariantBeginner, VariantIntermediate, VariantAdvanced]"

definition block_classes :: "jstring list" where
  "block_classes = map block_class [Heading1 [], Heading2 [], Heading3 [], Heading4 [], ListItem [],
     Spacer, Emphasis [], Paragraph []]"

definition card_classes :: "jstring list" where
  "card_classes = concat (map welcome_card_classes welcome_cards)"

definition page_classes :: "jstring list" where
  "page_classes =
     header_classes @ layout_classes True @ layout_classes False @ sidebar_frame_classes True @
     sidebar_frame_classes False @ sidebar_row_classes @ welcome_classes (ascii ''flex-1'') @
     article_classes (ascii ''flex-1'') True @ article_classes (ascii ''flex-1'') False"

definition component_classes :: "jstring list" where
  "component_classes = icon_classes @ row_classes @ badge_classes @ block_classes @ card_classes @ page_classes"

definition unresolved_classes :: "jstring list" where
  "unresolved_classes = remdups (filter (\<lambda>t. \<not> utility_ok t) (concat (map class_tokens component_classes)))"

subsection \<open>Which classes resolve\<close>

lemmas theme_eval = split_on_Cons_eval split_on.simps(1) class_tokens_def ascii_Cons_cu
  utility_ok_def starts_with_def Let_def color_ok_def font_size_keys_def extend_font_sizes_def
  text_align_values_def border_ok_def border_widths_def border_sides_def ring_widths_def
  ring_offset_widths_def shade_keys_def extend_colors_def default_color_families_def default_shades_def
  default_keyword_colors_def default_font_sizes_def spacing_prefixes_def spacing_keys_def
  radius_keys_def extend_spacing_def extend_border_radius_def default_spacing_def
  default_border_radius_def fractions_def spacing_extras_def
  default_font_families_def font_weights_def default_box_shadows_def default_animations_def
  line_heights_def z_indices_def max_widths_def grid_columns_def durations_def easings_def
  animate_plugin_utilities_def typography_plugin_def plugins_def extend_font_families_def
  extend_box_shadows_def extend_animations_def

lemma theme_code_units:
  "(0x20 :: code_unit) = cu CHR '' ''" "(0x3A :: code_unit) = cu CHR '':''"
  "(0x2F :: code_unit) = cu CHR ''/''" "dash = cu CHR ''-''" "(0x2C :: code_unit) = cu CHR '',''"
  by (simp_all add: cu_def dash_def)

lemma unresolved_icons:
  "filter (\<lambda>t. \<not> utility_ok t) (concat (map class_tokens icon_classes)) = [ascii ''bg-primary-300'']"
  by (simp del: split_on.simps add: theme_eval theme_code_units icon_classes_def)

lemma unresolved_rows:
  "filter (\<lambda>t. \<not> utility_ok t) (concat (map class_tokens row_classes)) = [ascii ''border-l-3'']"
  by (simp del: split_on.simps add: theme_eval theme_code_units row_classes_def base_styles_def
      selected_styles_def)

lemma unresolved_badges: "filter (\<lambda>t. \<not> utility_ok t) (concat (map class_tokens badge_classes)) = []"
  by (simp del: split_on.simps add: theme_eval theme_code_units badge_classes_def badge_base_def)

lemma unresolved_blocks: "filter (\<lambda>t. \<not> utility_ok t) (concat (map class_tokens block_classes)) = []"
  by (simp del: split_on.simps add: theme_eval theme_code_units block_classes_def)

lemma unresolved_cards:
  "filter (\<lambda>t. \<not> utility_ok t) (concat (map class_tokens card_classes)) =
   map (\<lambda>_. ascii ''hover:bg-neutral-750'') welcome_cards"
  by (simp del: split_on.simps add: theme_eval theme_code_units card_classes_def welcome_cards_def
      welcome_card_classes_def)

lemma unresolved_header: "filter (\<lambda>t. \<not> utility_ok t) (concat (map class_tokens header_classes)) = []"
  by (simp del: split_on.simps add: theme_eval theme_code_units header_classes_def)

lemma unresolved_layout: "filter (\<lambda>t. \<not> utility_ok t) (concat (map class_tokens (layout_classes b))) = []"
  by (cases b) (simp_all del: split_on.simps add: theme_eval theme_code_units layout_classes_def)

lemma unresolved_sidebar_frame:
  "filter (\<lambda>t. \<not> utility_ok t) (concat (map class_tokens (sidebar_frame_classes b))) = []"
  by (cases b) (simp_all del: split_on.simps add: theme_eval theme_code_units sidebar_frame_classes_def)

lemma unresolved_sidebar_rows:
  "filter (\<lambda>t. \<not> utility_ok t) (concat (map class_tokens sidebar_row_classes)) = []"
  by (simp del: split_on.simps add: theme_eval theme_code_units sidebar_row_classes_def)

lemma unresolved_welcome:
  "filter (\<lambda>t. \<not> utility_ok t) (concat (map class_tokens (welcome_classes (ascii ''flex-1'')))) = []"
  by (simp del: split_on.simps add: theme_eval theme_code_units welcome_classes_def)

lemma unresolved_article:
  "filter (\<lambda>t. \<not> utility_ok t) (concat (map class_tokens (article_classes (ascii ''flex-1'') b))) =
   [ascii ''prose'', ascii ''prose-invert'']"
  by (cases b) (simp_all del: split_on.simps add: theme_eval theme_code_units article_classes_def)

lemma unresolved_page:
  "filter (\<lambda>t. \<not> utility_ok t) (concat (map class_tokens page_classes)) =
   [ascii ''prose'', ascii ''prose-invert'', ascii ''prose'', ascii ''prose-invert'']"
proof -
  have "filter (\<lambda>t. \<not> utility_ok t) (concat (map class_tokens page_classes)) =
          [] @ [] @ [] @ [] @ [] @ [] @ [] @ [ascii ''prose'', ascii ''prose-invert''] @
          [ascii ''prose'', ascii ''prose-invert'']"
    by (simp only: page_classes_def map_append concat_append filter_append unresolved_header
        unresolved_layout unresolved_sidebar_frame unresolved_sidebar_rows unresolved_welcome
        unresolved_article)
  then show ?thesis by simp
qed

text \<open>Of all the classes the page emits (node icons, row styles, badges,
  formatted blocks, welcome cards, and the static classes of the header, the layout in
  both menu states, the sidebar frame, the welcome page and the article), exactly five
  generate no CSS in the configured theme: \<open>bg-primary-300\<close> (the subsection dot:
  the primary family has no shade 300), \<open>border-l-3\<close> (the selected row's left
  border: there is no border width 3), \<open>hover:bg-neutral-750\<close> (the welcome cards'
  hover colour: neutral has no shade 750), and \<open>prose\<close> and \<open>prose-invert\<close> (the
  article body's typography: the typography plugin is not installed).\<close>

theorem unresolved_theme_classes:
  "unresolved_classes = [ascii ''bg-primary-300'', ascii ''border-l-3'', ascii ''hover:bg-neutral-750'',
     ascii ''prose'', ascii ''prose-invert'']"
proof -
  have "filter (\<lambda>t. \<not> utility_ok t) (concat (map class_tokens component_classes)) =
          [ascii ''bg-primary-300''] @ [ascii ''border-l-3''] @ [] @ [] @
          map (\<lambda>_. ascii ''hover:bg-neutral-750'') welcome_cards @
          [ascii ''prose'', ascii ''prose-invert'', ascii ''prose'', ascii ''prose-invert'']"
    by (simp only: component_classes_def map_append concat_append filter_append unresolved_icons
        unresolved_rows unresolved_badges unresolved_blocks unresolved_cards unresolved_page)
  then show ?thesis by (simp add: unresolved_classes_def welcome_cards_def ascii_Cons_cu)
qed

subsection \<open>Scanned sources\<close>

text \<open>The source files of the components, relative to the project root (the directory
  of \<open>tailwind.config.js\<close>).\<close>

definition component_sources :: "jstring list" where
  "component_sources = map ascii [''src/App.tsx'', ''src/components/ContentArea.tsx'',
     ''src/components/Header.tsx'', ''src/components/Layout.tsx'', ''src/components/Sidebar.tsx'',
     ''src/components/ui/badge.tsx'']"

lemma parse_content_globs:
  "parse_glob (ascii ''./pages/**/*.{ts,tsx}'') = Some (ContentGlob (ascii ''pages'') [ascii ''ts'', ascii ''tsx''])"
  "parse_glob (ascii ''./components/**/*.{ts,tsx}'') =
     Some (ContentGlob (ascii ''components'') [ascii ''ts'', ascii ''tsx''])"
  "parse_glob (ascii ''./app/**/*.{ts,tsx}'') = Some (ContentGlob (ascii ''app'') [ascii ''ts'', ascii ''tsx''])"
  "parse_glob (ascii ''./src/**/*.{ts,tsx}'') = Some (ContentGlob (ascii ''src'') [ascii ''ts'', ascii ''tsx''])"
  by (simp_all del: split_on.simps add: parse_glob_def split_on_Cons_eval split_on.simps(1)
      ascii_Cons_cu starts_with_def ends_with_def Let_def theme_code_units)

lemma scanned_globs:
  "scanned path \<longleftrightarrow>
     list_ex (\<lambda>gl. glob_matches gl path)
       (map (\<lambda>d. ContentGlob (ascii d) [ascii ''ts'', ascii ''tsx'']) [''pages'', ''components'', ''app'', ''src''])"
  by (simp only: scanned_def content_globs_def list.map list_ex_Nil_iff list_ex_Cons_iff
      parse_content_globs option.case)

text \<open>Every content pattern of the configuration parses as a directory glob for
  \<open>.ts\<close> and \<open>.tsx\<close> files, and every source file of the components is matched by
  one of them, so Tailwind scans all the classes checked above.\<close>

theorem content_globs_scan_sources:
  "list_all (\<lambda>g. parse_glob g \<noteq> None) content_globs \<and> list_all scanned component_sources"
proof
  show "list_all (\<lambda>g. parse_glob g \<noteq> None) content_globs"
    by (simp add: content_globs_def parse_content_globs)
  show "list_all scanned component_sources"
    by (simp add: scanned_globs component_sources_def ascii_Cons_cu starts_with_def ends_with_def)
qed

subsection \<open>Dark mode and the container\<close>

text \<open>No class the page emits carries the \<open>dark:\<close> variant or is the \<open>container\<close>
  utility: the \<open>darkMode\<close> and \<open>container\<close> settings of the configuration (see
  \<open>dark_styles_follow_class\<close> and \<open>container_config_rules\<close>) change nothing on the page,
  whose dark look comes from its fixed \<open>neutral\<close> background classes alone.\<close>

lemma page_uses_no_dark_or_container:
  "list_all (\<lambda>t. \<not> dark_variant t \<and> t \<noteq> ascii ''container'') (concat (map class_tokens component_classes))"
  by (simp del: split_on.simps add: theme_eval theme_code_units dark_variant_def component_classes_def
      icon_classes_def row_classes_def base_styles_def selected_styles_def badge_classes_def badge_base_def
      block_classes_def card_classes_def welcome_cards_def welcome_card_classes_def page_classes_def
      header_classes_def layout_classes_def sidebar_frame_classes_def sidebar_row_classes_def
      welcome_classes_def article_classes_def)

end
