(* ===== verification/Spec2Isabelle.thy ===== *)
theory Spec2Isabelle
  imports Navigation Badge ThemeCheck
begin

text \<open>
  \<^bold>\<open>A verification model of the cricket learning website.\<close>

  The program (\<open>src/src/\<close>) is a React single page: \<open>App.tsx\<close> routes \<open>/\<close> to
  \<open>components/Layout.tsx\<close>, which owns the selected node, the mobile menu flag and the
  search query, and wires three components together: \<open>Header.tsx\<close> (menu button and
  search form), \<open>Sidebar.tsx\<close> (fetches the knowledge tree once at mount, keeps the set
  of expanded ids, renders the tree recursively and reports clicks on leaves) and
  \<open>ContentArea.tsx\<close> (on every change of the selection fetches the content document,
  looks the node up or synthesises a placeholder page, and renders the text with a
  line-based markup formatter, breadcrumbs and a level badge).

  \<^bold>\<open>Theories.\<close>
  \<^item> \<open>Prelude\<close>: the collections \<open>js_simps\<close> and \<open>model_simps\<close>, the string
    type \<open>jstring\<close> (JavaScript strings as lists of UTF-16 code units, \<open>16 word\<close>;
    ASCII literals lifted by \<open>ascii\<close>, Chinese text written as its code units), the
    error type \<open>render_error\<close> (a \<open>TypeError\<close> thrown during rendering), and
    shared lemmas on lists, \<open>sublist\<close> and subsequences.
  \<^item> \<open>JsString\<close>: the JavaScript string operations the code calls:
    \<open>startsWith\<close>, \<open>endsWith\<close>, \<open>substring\<close> (clamping and swapping its bounds),
    \<open>trim\<close> (the ECMAScript white space and line terminators), \<open>split\<close> on a
    single unit and \<open>join\<close>, with the round trip \<open>split_join\<close>/\<open>join_split\<close>.
  \<^item> \<open>Knowledge\<close>: the \<open>KnowledgeNode\<close> interface as a rose tree
    (\<open>children\<close> optional), \<open>hasChildren\<close>/\<open>isLeaf\<close> as the sidebar computes
    them, the preorder \<open>tree_nodes\<close>, and small sample trees.
  \<^item> \<open>Markup\<close>: \<open>formatContent\<close> (ContentArea.tsx 284--307) as
    \<open>format_line\<close>/\<open>format_content\<close> over the datatype \<open>block\<close> of the JSX
    elements; \<open>print_block\<close> writes a block back; \<open>wf_block\<close> marks the
    paragraphs that \<open>print_block\<close> can be inverted on. Claims C1--C3.
  \<^item> \<open>Sidebar\<close>: the sidebar state record, the mount effect
    \<open>load_knowledge_tree\<close> (failure, non-array \<open>categories\<close>, success),
    \<open>toggle_expanded\<close>, \<open>renderNode\<close> flattened to the list of rows it mounts
    (\<open>render_node\<close>, each row with its chevron, icon, \<open>cn\<close> arguments, badge and
    click actions), \<open>render_sidebar\<close> and the click handler. Claims C4--C13.
  \<^item> \<open>Placeholder\<close>: \<open>generateDefaultContent\<close> and its unused twin
    \<open>generateMockContent\<close>, both template literals transcribed line by line
    (generated from the source), with the title, level text and children summary
    interpolated. Claims C14--C17 and C30.
  \<^item> \<open>ContentArea\<close>: the content panel state, \<open>loadContent\<close> split at its
    \<open>await\<close> into \<open>start_load\<close> and \<open>finish_load\<close>, the lookup
    \<open>contentData[node.id]\<close> with the names every object inherits from
    \<open>Object.prototype\<close> (\<open>js_lookup\<close>), \<open>getBreadcrumbs\<close> and the breadcrumb
    bar it feeds (\<open>render_breadcrumbs\<close>: fragments keyed by crumb id, the last crumb
    as text, the others as links), and the rendered panel \<open>render_content_area\<close>
    with the welcome page and its cards. Claims C18--C20, C22.
  \<^item> \<open>Layout\<close>: the layout and header state and every handler (selection, menu
    toggle, overlay, search input and trimmed submit), the header's rendered content
    (\<open>render_header\<close>), the props of the three children (records over the
    parent's state type \<open>'s\<close>, optional callbacks as options, the header's menu flag
    defaulting to \<open>false\<close>, the content area's \<open>className\<close> printed by a template
    literal) with what the layout passes (\<open>layout_header_props\<close>,
    \<open>layout_sidebar_props\<close>, \<open>layout_content_props\<close>), and the router of
    \<open>App.tsx\<close> (\<open>app_router\<close>: the single route \<open>/\<close>).
  \<^item> \<open>App\<close>: the whole page as one record \<open>app_state\<close> and one step function
    \<open>app_step\<close> over the events the page reacts to (tree document arrives, click on
    the i-th shown row, menu toggle, overlay click, search input and submit, the i-th
    fetch in flight settles). The fetches in flight are a list in dispatch order and
    any of them may settle next, which models the asynchronous race of
    \<open>loadContent\<close>. \<open>app_reachable\<close> is the inductive set of reachable
    states; \<open>in_order_event\<close> restricts settling to the oldest fetch, and
    \<open>last_response\<close> records the response a run delivered last (a history
    variable for the in-order contract). Claims C21, C23--C29.
  \<^item> \<open>Badge\<close>: \<open>badgeVariants\<close> of \<open>ui/badge.tsx\<close> (base classes and the
    classes of each variant) and the level-to-variant choice of both callers; the
    classes identify the level (\<open>level_badge_classes_distinct\<close>).
  \<^item> \<open>Navigation\<close>: the nodes \<open>renderNode\<close> mounts (\<open>visible_nodes\<close>), that
    clicks reach and select every leaf of the loaded tree (C33), and the event loop
    \<open>drain\<close> that delivers the pending responses, with its termination (C34).
  \<^item> \<open>Theme\<close>: \<open>tailwind.config.js\<close>: the content globs (\<open>parse_glob\<close>,
    \<open>glob_matches\<close>), the extended colours, font sizes, font families, spacing,
    border radii, shadows, animations and keyframes, the plugins, merged into the
    Tailwind 3 defaults, and \<open>utility_ok\<close>, whether a class generates CSS;
    \<open>darkMode\<close> with how Tailwind reads it (\<open>dark_strategy_of\<close>,
    \<open>dark_active\<close>: here \<open>dark:\<close> styles follow a \<open>dark\<close> class on an
    ancestor) and \<open>container\<close> with the rules the container plugin generates
    from it (\<open>container_rules\<close>).
  \<^item> \<open>Styles\<close>: the static \<open>className\<close> strings of the header, the layout, the
    sidebar frame and row, the welcome page and the article.
  \<^item> \<open>ThemeCheck\<close>: every class the page emits evaluated against the theme
    (\<open>unresolved_theme_classes\<close>), the content globs evaluated on the source
    files (\<open>content_globs_scan_sources\<close>), and that no emitted class uses
    \<open>dark:\<close> or \<open>container\<close> (\<open>page_uses_no_dark_or_container\<close>). These
    are computations on the constant class strings and the modelled Tailwind 3
    defaults, which decide only whether a class generates any CSS and accept the
    utilities they do not judge; they support the theme findings below and are not
    claims.
  \<^item> This theory: properties of the page as a whole, C31 and C32.

  \<^bold>\<open>What is shown.\<close> The formatter parses back what \<open>print_block\<close>
  prints, for a whole text (C1) and per line (C2), and printing the block of any line
  gives the line back except for blank lines and the line \<open>*\<close> (C3);
  expand/collapse and click semantics, which rows \<open>renderNode\<close> produces, the
  selection highlight, the behaviour on a failed or malformed tree document, and
  that the rows' React keys are distinct when the tree's ids are (C4--C13); what the
  placeholder page contains (C14--C17, C30); content lookup on a hit, a miss, a falsy
  entry and an inherited property name (C18--C20); breadcrumbs, the bar they render
  and when its React keys are unique (C22); invariants of every reachable page state,
  by rule induction: the selection and every fetch in flight are leaves of the loaded
  tree (C23), the skeleton is shown only while a fetch is pending (C21); the effect of
  clicks and of the dead search input (C24--C26); the race of out-of-order responses,
  for every settle event: a late response overwrites the selected node's article
  (C27) and clears the skeleton while the selected node's fetch is pending (C28); the
  refinement of the spec's contract when responses arrive in dispatch order: the
  panel then shows the selected node resolved from the last delivered response
  (C29); that the tree is immutable once loaded (C31) and that a fetch starts only on
  a new selection (C32); that every leaf can be reached by clicks (C33); and that
  delivering the pending responses terminates (C34).

  \<^bold>\<open>Findings.\<close> The code does not guard against late responses (C27, C28);
  \<open>contentData[node.id]\<close> finds inherited properties and the panel then throws
  (C20); a non-array \<open>categories\<close> makes the sidebar throw (C11); only
  \<open>content\<close> rows get the selection highlight (C9); the line \<open>*\<close> stays
  emphasised as \<open>*\<close> (C3); breadcrumbs ignore the tree, and a node whose id is
  one of the fixed crumb ids repeats a React key in the bar (C22); the sidebar calls
  an advanced node ``senior'' where the panel says ``professional level''; the
  configured \<open>darkMode\<close> and \<open>container\<close> are never used; three classes name
  theme values that do not exist, so the subsection dot has no colour, a selected row
  has no left border and the welcome cards have no hover colour, and the article's
  \<open>prose\<close> classes need a typography plugin that is not installed
  (\<open>unresolved_theme_classes\<close>).

  \<^bold>\<open>Bounds and fuel.\<close> No loop of the program can diverge: the recursions
  (\<open>render_node\<close>, \<open>tree_nodes\<close>) are on the finite tree, with termination
  proofs by the size of the node; runs are finite event lists (\<open>app_run\<close>). The
  only loop that could run forever is the environment's delivery of responses,
  \<open>drain\<close>, a \<open>partial_function (option)\<close>; C34 proves that it returns, after
  exactly as many settle events as fetches were in flight.

  \<^bold>\<open>Not modelled.\<close> The Tailwind defaults beyond the scales listed in
  \<open>Theme\<close> (and the CSS text of the utilities: \<open>utility_ok\<close> decides only whether
  a class generates any); \<open>cn\<close>
  (class merging by \<open>tailwind-merge\<close>: the model keeps the list of its arguments);
  the \<open>Button\<close> and \<open>Input\<close> components, whose sources are not in the
  repository; CSS layout and animation; logging; the static article footer (its
  buttons have no handlers; its classes are evaluated in
  \<open>unresolved_theme_classes\<close>); the module imports and exports; and the
  parsing of the JSON documents (their parsed shapes are the datatypes \<open>tree_fetch\<close> and \<open>content_fetch\<close>).
\<close>

section \<open>Properties of the whole page\<close>

lemma app_step_sidebar_after_load:
  assumes "app_step e s = Some s'" and "\<not> sidebar_loading (app_sidebar s)"
  obtains X where "app_sidebar s' = (app_sidebar s)\<lparr>expanded_nodes := X\<rparr>"
proof (cases e)
  case (ClickRow i)
  with assms(1) have "click_row i s = Some s'" by simp
  then show ?thesis
  proof (cases rule: click_row_cases)
    case (1 m)
    then show ?thesis using that by (simp add: toggle_expanded_def)
  next
    case (2 m)
    then show ?thesis using that [of "expanded_nodes (app_sidebar s)"] by (simp add: model_simps)
  qed
qed (use assms that [of "expanded_nodes (app_sidebar s)"] in
  \<open>auto simp: settle_def split: if_splits option.splits\<close>)

text \<open>C31. Once the tree document has been handled, the tree is immutable for the
  session: no later event changes the loaded tree or puts the sidebar back into its
  loading state; only the set of expanded ids may change.\<close>

theorem tree_immutable_after_load:
  assumes "app_step e s = Some s'" and "\<not> sidebar_loading (app_sidebar s)"
  shows "knowledge_tree (app_sidebar s') = knowledge_tree (app_sidebar s) \<and>
         \<not> sidebar_loading (app_sidebar s')"
proof -
  obtain X where "app_sidebar s' = (app_sidebar s)\<lparr>expanded_nodes := X\<rparr>"
    using app_step_sidebar_after_load [OF assms] .
  with assms(2) show ?thesis by simp
qed

text \<open>C32. A content fetch starts only when a click on a shown row selects a node
  other than the selected one: the new fetch is for that node, which becomes the
  selection, and the panel starts loading.\<close>

theorem fetch_only_on_new_selection:
  assumes "app_step e s = Some s'" and "length (in_flight s) < length (in_flight s')"
  shows "\<exists>i n. e = ClickRow i \<and> selected_node (app_layout s) \<noteq> Some n \<and>
           selected_node (app_layout s') = Some n \<and> in_flight s' = in_flight s @ [n] \<and>
           content_loading (app_content s')"
proof (cases e)
  case (ClickRow i)
  with assms(1) have "click_row i s = Some s'" by simp
  then show ?thesis
  proof (cases rule: click_row_cases)
    case (1 m)
    with assms(2) show ?thesis by simp
  next
    case (2 m)
    with assms(2) ClickRow show ?thesis
      by (auto simp: model_simps split: if_splits)
  qed
qed (use assms in \<open>auto simp: settle_def split: if_splits option.splits\<close>)

theorem tree_immutable_after_load_witness:
  "knowledge_tree (app_sidebar one_click_state) = knowledge_tree (app_sidebar loaded_state) \<and>
   \<not> sidebar_loading (app_sidebar one_click_state)"
proof -
  have "\<not> sidebar_loading (app_sidebar loaded_state)"
    by (simp add: loaded_state_def)
  from tree_immutable_after_load [OF step_click1 this] show ?thesis .
qed

theorem fetch_only_on_new_selection_witness:
  "selected_node (app_layout two_leaf_state) = Some batting_leaf \<and>
   in_flight two_leaf_state = in_flight one_click_state @ [batting_leaf] \<and>
   content_loading (app_content two_leaf_state)"
proof -
  have "length (in_flight one_click_state) < length (in_flight two_leaf_state)"
    by (simp add: one_click_state_def two_leaf_state_def)
  from fetch_only_on_new_selection [OF step_click2 this] obtain n where
    "selected_node (app_layout two_leaf_state) = Some n"
    "in_flight two_leaf_state = in_flight one_click_state @ [n]"
    "content_loading (app_content two_leaf_state)"
    by blast
  moreover have "selected_node (app_layout two_leaf_state) = Some batting_leaf"
    by (simp add: two_leaf_state_def)
  ultimately show ?thesis by simp
qed

end
